theory Spec2Isabelle
  imports Complex_Main
begin

section \<open>Data model\<close>

text \<open>
  A voxel sample is a floating-point value. The wrappers never do arithmetic on samples:
  they only move them, and compare them in \<open>np.nanmin\<close> / \<open>np.nanmax\<close>. So a sample is
  NaN, an infinity, or a finite number.
\<close>

datatype sample = NaN | NegInf | Num real | PosInf

text \<open>
  A numpy array: its shape and its elements in C (row-major) order, the layout numpy
  uses by default. Every numpy array has as many elements as its shape says.
\<close>

record ndarray =
  shape :: "nat list"
  cdata :: "sample list"

definition wf_ndarray :: "ndarray \<Rightarrow> bool" where
  "wf_ndarray a \<longleftrightarrow> length (cdata a) = prod_list (shape a)"

type_synonym affine = "real list"

text \<open>The header fields the wrappers read or write: voxel sizes and the calibration range.\<close>

record header =
  zooms :: "sample list"
  cal_min :: sample
  cal_max :: sample

text \<open>
  An image object in memory holds its array, its affine and a reference to its header
  object: \<open>get_header()\<close> hands out the header object itself, and the wrappers assign to
  its fields, so headers live in a store and images hold addresses.
\<close>

record image =
  img_data :: ndarray
  img_affine :: affine
  img_hdr :: nat

text \<open>A volume file on disk holds the array, the affine and the header's contents.\<close>

record volume =
  vol_data :: ndarray
  vol_affine :: affine
  vol_header :: header

text \<open>A \<open>niimg\<close> argument is a file name or an image object.\<close>

datatype niimg = Path string | Obj image

datatype exn =
    IndexError
  | ValueError
  | NameError string
  | UnboundLocalError string
  | FileNotFoundError string
  | HelperError string
  | JavaError string

text \<open>Arguments of calls on the native object.\<close>

datatype jvalue = JInt int | JFloat sample | JBool bool | JStr string | JFloatArray "sample list"

text \<open>
  What a call does besides returning: what it prints, the files it probes, reads and
  writes, and every call into the native library, in program order.
\<close>

datatype event =
    Print string
  | PrintExc exn
  | OutputDir string
  | IsFile string
  | LoadVolume string
  | SaveVolume string
  | InitVM string string
  | New string
  | Call string "jvalue list"
  | Execute
  | Get string "jvalue list"

text \<open>The events that are calls into the native library.\<close>

fun is_native :: "event \<Rightarrow> bool" where
  "is_native (InitVM _ _) = True"
| "is_native (New _) = True"
| "is_native (Call _ _) = True"
| "is_native Execute = True"
| "is_native (Get _ _) = True"
| "is_native _ = False"

record world =
  files :: "string \<rightharpoonup> volume"
  heap :: "header list"
  vm_running :: bool
  trace :: "event list"

text \<open>A returned dictionary maps keys to an image or (for \<open>denoised\<close>) a list of images.\<close>

datatype pyval = Img image | ImgList "image list"

type_synonym pydict = "(string \<times> pyval) list"

text \<open>
  The collaborators that are not part of these wrappers: the helper functions imported
  from the package's \<open>utils\<close> module, the two numeric casts, and the native algorithm.
  The native algorithm sees every call made into the library so far and either throws or
  fixes what its getters return.
\<close>

record env =
  output_dir_4saving :: "string option \<Rightarrow> niimg \<Rightarrow> exn + string"
  fname_4saving :: "string option \<Rightarrow> niimg \<Rightarrow> string \<Rightarrow> exn + string"
  check_topology_lut_dir :: "string option \<Rightarrow> exn + string"
  astype_float :: "sample \<Rightarrow> sample"
  jarray_float :: "sample \<Rightarrow> sample"
  native_execute :: "event list \<Rightarrow> exn + (string \<Rightarrow> jvalue list \<Rightarrow> sample list)"

section \<open>numpy: flatten, reshape, nanmin, nanmax\<close>

text \<open>
  Positions in a flat buffer. In column-major (F) order the first index varies fastest,
  in row-major (C) order the last one does.
\<close>

fun ravel_F :: "nat list \<Rightarrow> nat list \<Rightarrow> nat" where
  "ravel_F (n # ns) (i # is) = i + n * ravel_F ns is"
| "ravel_F _ _ = 0"

fun unravel_F :: "nat list \<Rightarrow> nat \<Rightarrow> nat list" where
  "unravel_F [] m = []"
| "unravel_F (n # ns) m = (m mod n) # unravel_F ns (m div n)"

fun ravel_C :: "nat list \<Rightarrow> nat list \<Rightarrow> nat" where
  "ravel_C (n # ns) (i # is) = i * prod_list ns + ravel_C ns is"
| "ravel_C _ _ = 0"

fun unravel_C :: "nat list \<Rightarrow> nat \<Rightarrow> nat list" where
  "unravel_C [] m = []"
| "unravel_C (n # ns) m = (m div prod_list ns) # unravel_C ns (m mod prod_list ns)"

text \<open>\<open>a[i, j, ...]\<close> for an index inside the shape.\<close>

definition item :: "ndarray \<Rightarrow> nat list \<Rightarrow> sample" where
  "item a idx = cdata a ! ravel_C (shape a) idx"

text \<open>\<open>a.flatten('F')\<close>: the elements in column-major order.\<close>

definition flatten_F :: "ndarray \<Rightarrow> sample list" where
  "flatten_F a =
     map (\<lambda>m. cdata a ! ravel_C (shape a) (unravel_F (shape a) m)) [0..<prod_list (shape a)]"

text \<open>
  \<open>np.reshape(flat, dims, 'F')\<close> of a one-dimensional array: numpy raises ValueError when
  the sizes differ, and otherwise reads \<open>flat\<close> in column-major order.
\<close>

definition reshape_F :: "sample list \<Rightarrow> nat list \<Rightarrow> exn + ndarray" where
  "reshape_F flat dims =
     (if length flat \<noteq> prod_list dims then Inl ValueError
      else Inr \<lparr>shape = dims,
                cdata = map (\<lambda>m. flat ! ravel_F dims (unravel_C dims m)) [0..<prod_list dims]\<rparr>)"

fun sample_le :: "sample \<Rightarrow> sample \<Rightarrow> bool" where
  "sample_le NegInf _ = True"
| "sample_le _ PosInf = True"
| "sample_le (Num a) (Num b) = (a \<le> b)"
| "sample_le _ _ = False"

definition sample_min :: "sample \<Rightarrow> sample \<Rightarrow> sample" where
  "sample_min a b = (if sample_le a b then a else b)"

definition sample_max :: "sample \<Rightarrow> sample \<Rightarrow> sample" where
  "sample_max a b = (if sample_le a b then b else a)"

text \<open>
  \<open>np.nanmin\<close> and \<open>np.nanmax\<close>: ValueError on an array with no element, NaN (with a
  warning) when every element is NaN, and otherwise the least or greatest element that
  is not NaN.
\<close>

definition nanmin :: "ndarray \<Rightarrow> exn + sample" where
  "nanmin a =
     (if cdata a = [] then Inl ValueError
      else case filter (\<lambda>x. x \<noteq> NaN) (cdata a) of
             [] \<Rightarrow> Inr NaN
           | x # xs \<Rightarrow> Inr (fold sample_min xs x))"

definition nanmax :: "ndarray \<Rightarrow> exn + sample" where
  "nanmax a =
     (if cdata a = [] then Inl ValueError
      else case filter (\<lambda>x. x \<noteq> NaN) (cdata a) of
             [] \<Rightarrow> Inr NaN
           | x # xs \<Rightarrow> Inr (fold sample_max xs x))"

section \<open>Effects\<close>

text \<open>
  A statement runs in a world and either raises or yields a value; the world it leaves
  behind is kept in both cases.
\<close>

type_synonym 'a io = "world \<Rightarrow> (exn + 'a) \<times> world"

definition ret :: "'a \<Rightarrow> 'a io" where
  "ret x = (\<lambda>w. (Inr x, w))"

definition raise :: "exn \<Rightarrow> 'a io" where
  "raise e = (\<lambda>w. (Inl e, w))"

definition bnd :: "'a io \<Rightarrow> ('a \<Rightarrow> 'b io) \<Rightarrow> 'b io" where
  "bnd m f = (\<lambda>w. case m w of (Inl e, w') \<Rightarrow> (Inl e, w') | (Inr x, w') \<Rightarrow> f x w')"

definition seq :: "unit io \<Rightarrow> 'b io \<Rightarrow> 'b io" where
  "seq m k = bnd m (\<lambda>_. k)"

definition lift :: "exn + 'a \<Rightarrow> 'a io" where
  "lift r = (\<lambda>w. (r, w))"

definition emit :: "event \<Rightarrow> unit io" where
  "emit ev = (\<lambda>w. (Inr (), w\<lparr>trace := trace w @ [ev]\<rparr>))"

text \<open>\<open>try: m except: h\<close> with a bare \<open>except\<close>, which catches everything.\<close>

definition try_except :: "'a io \<Rightarrow> (exn \<Rightarrow> 'a io) \<Rightarrow> 'a io" where
  "try_except m h = (\<lambda>w. case m w of (Inl e, w') \<Rightarrow> h e w' | (Inr x, w') \<Rightarrow> (Inr x, w'))"

text \<open>\<open>try: m except ValueError: pass\<close>.\<close>

definition try_except_ValueError_pass :: "unit io \<Rightarrow> unit io" where
  "try_except_ValueError_pass m =
     (\<lambda>w. case m w of (Inl ValueError, w') \<Rightarrow> (Inr (), w') | r \<Rightarrow> r)"

text \<open>\<open>for idx, x in enumerate(xs)\<close>, threading the variables the body assigns.\<close>

fun for_enumerate :: "nat \<Rightarrow> 'a list \<Rightarrow> 'b \<Rightarrow> (nat \<Rightarrow> 'a \<Rightarrow> 'b \<Rightarrow> 'b io) \<Rightarrow> 'b io" where
  "for_enumerate idx [] acc body = ret acc"
| "for_enumerate idx (x # xs) acc body =
     bnd (body idx x acc) (\<lambda>acc'. for_enumerate (Suc idx) xs acc' body)"

text \<open>\<open>a and b\<close>: \<open>b\<close> is evaluated only when \<open>a\<close> is true.\<close>

definition and_also :: "bool io \<Rightarrow> bool io \<Rightarrow> bool io" where
  "and_also a b = bnd a (\<lambda>x. if x then b else ret False)"

text \<open>\<open>xs[i]\<close> for a literal index \<open>i \<ge> 0\<close>.\<close>

definition subscript :: "'a list \<Rightarrow> nat \<Rightarrow> 'a io" where
  "subscript xs i = (if i < length xs then ret (xs ! i) else raise IndexError)"

text \<open>
  A module-level name such as \<open>sys\<close> is bound only if the module imports it; reading an
  unbound global raises NameError.
\<close>

definition global_name :: "string list \<Rightarrow> string \<Rightarrow> unit io" where
  "global_name module_names name =
     (if name \<in> set module_names then ret () else raise (NameError name))"

definition print :: "string \<Rightarrow> unit io" where
  "print s = emit (Print s)"

text \<open>\<open>os.path.join\<close> (POSIX) of two components, and \<open>os.path.isfile\<close>.\<close>

definition os_path_join :: "string \<Rightarrow> string \<Rightarrow> string" where
  "os_path_join a b =
     (if (case b of [] \<Rightarrow> False | c # _ \<Rightarrow> c = CHR ''/'') then b
      else if a = [] \<or> last a = CHR ''/'' then a @ b
      else a @ ''/'' @ b)"

definition os_path_isfile :: "string \<Rightarrow> bool io" where
  "os_path_isfile p = (\<lambda>w. (Inr (files w p \<noteq> None), w\<lparr>trace := trace w @ [IsFile p]\<rparr>))"

text \<open>
  Modelled from the spec: \<open>load_volume\<close> and \<open>save_volume\<close> of the package's \<open>io\<close> module
  are not among the sources. An input is a file path or an in-memory image object; a
  path is read from disk into a fresh image object, an image object is taken as it is.
  Saving persists an image under its path, overwriting what is there.
\<close>

fun load_volume :: "niimg \<Rightarrow> image io" where
  "load_volume (Obj i) = ret i"
| "load_volume (Path p) =
     (\<lambda>w. case files w p of
             None \<Rightarrow> (Inl (FileNotFoundError p), w\<lparr>trace := trace w @ [LoadVolume p]\<rparr>)
           | Some v \<Rightarrow>
               (Inr \<lparr>img_data = vol_data v, img_affine = vol_affine v, img_hdr = length (heap w)\<rparr>,
                w\<lparr>heap := heap w @ [vol_header v], trace := trace w @ [LoadVolume p]\<rparr>))"

definition save_volume :: "string \<Rightarrow> image \<Rightarrow> unit io" where
  "save_volume p i =
     (\<lambda>w. (Inr (),
           w\<lparr>files := (files w)(p \<mapsto> \<lparr>vol_data = img_data i, vol_affine = img_affine i,
                                       vol_header = heap w ! img_hdr i\<rparr>),
             trace := trace w @ [SaveVolume p]\<rparr>))"

text \<open>
  nibabel: \<open>header['cal_min'] = v\<close> assigns into the header object; \<open>get_zooms()\<close> reads it;
  \<open>nb.Nifti1Image(data, affine, header)\<close> builds an image with a header object of its own,
  a copy of the one it is given.
\<close>

definition set_cal_min :: "nat \<Rightarrow> sample \<Rightarrow> unit io" where
  "set_cal_min h v = (\<lambda>w. (Inr (), w\<lparr>heap := (heap w)[h := (heap w ! h)\<lparr>cal_min := v\<rparr>]\<rparr>))"

definition set_cal_max :: "nat \<Rightarrow> sample \<Rightarrow> unit io" where
  "set_cal_max h v = (\<lambda>w. (Inr (), w\<lparr>heap := (heap w)[h := (heap w ! h)\<lparr>cal_max := v\<rparr>]\<rparr>))"

definition get_zooms :: "nat \<Rightarrow> sample list io" where
  "get_zooms h = (\<lambda>w. (Inr (zooms (heap w ! h)), w))"

definition Nifti1Image :: "ndarray \<Rightarrow> affine \<Rightarrow> nat \<Rightarrow> image io" where
  "Nifti1Image d a h =
     (\<lambda>w. (Inr \<lparr>img_data = d, img_affine = a, img_hdr = length (heap w)\<rparr>,
           w\<lparr>heap := heap w @ [heap w ! h]\<rparr>))"

text \<open>
  The bridge. \<open>initVM\<close> raises ValueError when the virtual machine is already running.
  Setter and getter calls are recorded; they are taken not to throw. \<open>execute\<close> may throw.
\<close>

definition initVM :: "string \<Rightarrow> string \<Rightarrow> unit io" where
  "initVM initialheap maxheap =
     (\<lambda>w. if vm_running w
          then (Inl ValueError, w\<lparr>trace := trace w @ [InitVM initialheap maxheap]\<rparr>)
          else (Inr (), w\<lparr>vm_running := True,
                           trace := trace w @ [InitVM initialheap maxheap]\<rparr>))"

definition jnew :: "string \<Rightarrow> unit io" where
  "jnew cls = emit (New cls)"

definition jcall :: "string \<Rightarrow> jvalue list \<Rightarrow> unit io" where
  "jcall name args = emit (Call name args)"

definition jexecute :: "env \<Rightarrow> (string \<Rightarrow> jvalue list \<Rightarrow> sample list) io" where
  "jexecute env =
     (\<lambda>w. (native_execute env (filter is_native (trace w)), w\<lparr>trace := trace w @ [Execute]\<rparr>))"

definition jget :: "(string \<Rightarrow> jvalue list \<Rightarrow> sample list) \<Rightarrow> string \<Rightarrow> jvalue list
    \<Rightarrow> sample list io" where
  "jget out name args = seq (emit (Get name args)) (ret (out name args))"

text \<open>\<open>JArray('float')((data.flatten('F')).astype(float))\<close>.\<close>

definition JArray_float_flatten_F :: "env \<Rightarrow> ndarray \<Rightarrow> jvalue" where
  "JArray_float_flatten_F env d =
     JFloatArray (map (jarray_float env) (map (astype_float env) (flatten_F d)))"


section \<open>Idioms the four wrappers share\<close>

text \<open>The call \<open>_output_dir_4saving(output_dir, rootfile)\<close>, which may create the directory.\<close>

definition call_output_dir_4saving :: "env \<Rightarrow> string option \<Rightarrow> niimg \<Rightarrow> string io" where
  "call_output_dir_4saving env output_dir rootfile =
     bnd (lift (output_dir_4saving env output_dir rootfile)) (\<lambda>d.
     seq (emit (OutputDir d)) (ret d))"

text \<open>
  \<open>os.path.join(output_dir, _fname_4saving(file_name=file_name, rootfile=rootfile,
  suffix=suffix))\<close>.
\<close>

definition output_file :: "env \<Rightarrow> string \<Rightarrow> string option \<Rightarrow> niimg \<Rightarrow> string \<Rightarrow> string io" where
  "output_file env output_dir file_name rootfile suffix =
     bnd (lift (fname_4saving env file_name rootfile suffix)) (\<lambda>n.
     ret (os_path_join output_dir n))"

text \<open>
  The handler of every \<open>try: algorithm.execute()\<close>:
  \<^verbatim>\<open>
    except:
        print("\n The underlying Java code did not execute cleanly: ")
        print(sys.exc_info()[0])
        raise
        return
  \<close>
  \<open>imports\<close> are the names the module's import statements bind.
\<close>

definition execute_handler :: "string list \<Rightarrow> exn \<Rightarrow> 'a io" where
  "execute_handler imports e =
     seq (print (CHR 0x0A # '' The underlying Java code did not execute cleanly: ''))
    (seq (global_name imports ''sys'')
    (seq (emit (PrintExc e))
    (raise e)))"

text \<open>\<open>np.reshape(np.array(getter(args), dtype=np.float32), dimensions, 'F')\<close>.\<close>

definition reshape_output :: "(string \<Rightarrow> jvalue list \<Rightarrow> sample list) \<Rightarrow> string \<Rightarrow> jvalue list
    \<Rightarrow> nat list \<Rightarrow> ndarray io" where
  "reshape_output out getter args dimensions =
     bnd (jget out getter args) (\<lambda>flat.
     lift (reshape_F flat dimensions))"

text \<open>
  The three statements that wrap an output array:
  \<^verbatim>\<open>
    header['cal_min'] = np.nanmin(d)
    header['cal_max'] = np.nanmax(d)
    x = nb.Nifti1Image(d, affine, header)
  \<close>
\<close>

definition wrap_output :: "ndarray \<Rightarrow> affine \<Rightarrow> nat \<Rightarrow> image io" where
  "wrap_output d affine header =
     bnd (lift (nanmin d)) (\<lambda>lo.
     seq (set_cal_min header lo)
    (bnd (lift (nanmax d)) (\<lambda>hi.
     seq (set_cal_max header hi)
    (Nifti1Image d affine header))))"

text \<open>
  \<open>setDimensions(dimensions[0], dimensions[1], dimensions[2])\<close> and
  \<open>setResolutions(resolution[0], resolution[1], resolution[2])\<close>.
\<close>

definition setDimensions :: "nat list \<Rightarrow> unit io" where
  "setDimensions dimensions =
     bnd (subscript dimensions 0) (\<lambda>d0.
     bnd (subscript dimensions 1) (\<lambda>d1.
     bnd (subscript dimensions 2) (\<lambda>d2.
     jcall ''setDimensions'' [JInt (int d0), JInt (int d1), JInt (int d2)])))"

definition setResolutions :: "sample list \<Rightarrow> unit io" where
  "setResolutions resolution =
     bnd (subscript resolution 0) (\<lambda>r0.
     bnd (subscript resolution 1) (\<lambda>r1.
     bnd (subscript resolution 2) (\<lambda>r2.
     jcall ''setResolutions'' [JFloat r0, JFloat r1, JFloat r2])))"

section \<open>flash\_t2s\_fitting\<close>

definition flash_t2s_fitting_imports :: "string list" where
  "flash_t2s_fitting_imports =
     [''np'', ''nb'', ''os'', ''sys'', ''cbstools'', ''load_volume'', ''save_volume'',
      ''_output_dir_4saving'', ''_fname_4saving'', ''_check_topology_lut_dir'']"

text \<open>Lines 55 to 75: the output directory and the four output file names.\<close>

definition flash_t2s_fitting_files :: "env \<Rightarrow> niimg list \<Rightarrow> string option \<Rightarrow> string option
    \<Rightarrow> (string \<times> string \<times> string \<times> string) io" where
  "flash_t2s_fitting_files env image_list output_dir file_name =
     bnd (subscript image_list 0) (\<lambda>root.
     bnd (call_output_dir_4saving env output_dir root) (\<lambda>output_dir.
     bnd (subscript image_list 0) (\<lambda>root.
     bnd (output_file env output_dir file_name root ''qt2fit-t2s'') (\<lambda>t2s_file.
     bnd (subscript image_list 0) (\<lambda>root.
     bnd (output_file env output_dir file_name root ''qt2fit-r2s'') (\<lambda>r2s_file.
     bnd (subscript image_list 0) (\<lambda>root.
     bnd (output_file env output_dir file_name root ''qt2fit-s0'') (\<lambda>s0_file.
     bnd (subscript image_list 0) (\<lambda>root.
     bnd (output_file env output_dir file_name root ''qt2fit-err'') (\<lambda>err_file.
     ret (t2s_file, r2s_file, s0_file, err_file)))))))))))"

text \<open>
  Lines 77 to 87: the cache test and the cached result. The value is the dictionary
  to return at once, or None to go on.
\<close>

definition flash_t2s_fitting_cached :: "bool \<Rightarrow> string \<times> string \<times> string \<times> string
    \<Rightarrow> pydict option io" where
  "flash_t2s_fitting_cached overwrite fs =
     (case fs of (t2s_file, r2s_file, s0_file, err_file) \<Rightarrow>
     bnd (and_also (ret (overwrite = False))
         (and_also (os_path_isfile t2s_file)
         (and_also (os_path_isfile r2s_file)
         (and_also (os_path_isfile s0_file)
                   (os_path_isfile err_file))))) (\<lambda>hit.
     if hit then
       seq (print ''skip computation (use existing results)'')
      (bnd (load_volume (Path t2s_file)) (\<lambda>t2s.
       bnd (load_volume (Path r2s_file)) (\<lambda>r2s.
       bnd (load_volume (Path s0_file)) (\<lambda>s0.
       bnd (load_volume (Path err_file)) (\<lambda>err.
       ret (Some [(''t2s'', Img t2s), (''r2s'', Img r2s), (''s0'', Img s0),
                  (''residuals'', Img err)]))))))
     else ret None))"

text \<open>
  Lines 89 to 122: the virtual machine, the native object and its inputs. The value is
  what the rest of the function uses: \<open>dimensions\<close>, \<open>affine\<close> and \<open>header\<close>.
\<close>

definition flash_t2s_fitting_configure :: "env \<Rightarrow> niimg list \<Rightarrow> sample list \<Rightarrow> (nat list \<times> affine \<times> nat) io" where
  "flash_t2s_fitting_configure env image_list te_list =
     seq (try_except_ValueError_pass (initVM ''12000m'' ''12000m''))
    (seq (jnew ''IntensityFlashT2sFitting'')
    (seq (jcall ''setNumberOfEchoes'' [JInt (int (length image_list))])
    (bnd (subscript image_list 0) (\<lambda>first.
     bnd (load_volume first) (\<lambda>img.
     let data = img_data img; affine = img_affine img; header = img_hdr img in
     bnd (get_zooms header) (\<lambda>resolution.
     let dimensions = shape data in
     seq (setDimensions dimensions)
    (seq (setResolutions resolution)
    (bnd (for_enumerate 0 image_list () (\<lambda>idx image _.
            bnd (load_volume image) (\<lambda>i.
            jcall ''setEchoImageAt''
              [JInt (int idx), JArray_float_flatten_F env (img_data i)]))) (\<lambda>_.
     bnd (for_enumerate 0 te_list () (\<lambda>idx te _.
            jcall ''setEchoTimeAt'' [JInt (int idx), JFloat te])) (\<lambda>_.
     ret (dimensions, affine, header)))))))))))"

text \<open>
  Lines 135 to 172: the four results, reshaped, wrapped and (with \<open>save_data\<close>) saved.
  \<open>out_files\<close> is bound only when \<open>save_data\<close> held.
\<close>

definition flash_t2s_fitting_collect :: "(string \<Rightarrow> jvalue list \<Rightarrow> sample list) \<Rightarrow> nat list \<Rightarrow> affine \<Rightarrow> nat
    \<Rightarrow> bool \<Rightarrow> (string \<times> string \<times> string \<times> string) option \<Rightarrow> pydict option io" where
  "flash_t2s_fitting_collect out dimensions affine header save_data out_files =
     bnd (reshape_output out ''getT2sImage'' [] dimensions) (\<lambda>t2s_data.
     bnd (reshape_output out ''getR2sImage'' [] dimensions) (\<lambda>r2s_data.
     bnd (reshape_output out ''getS0Image'' [] dimensions) (\<lambda>s0_data.
     bnd (reshape_output out ''getResidualImage'' [] dimensions) (\<lambda>err_data.
     bnd (wrap_output t2s_data affine header) (\<lambda>t2s.
     bnd (wrap_output r2s_data affine header) (\<lambda>r2s.
     bnd (wrap_output s0_data affine header) (\<lambda>s0.
     bnd (wrap_output err_data affine header) (\<lambda>err.
     seq (if save_data then
            (case out_files of
               None \<Rightarrow> raise (UnboundLocalError ''t2s_file'')
             | Some (t2s_file, r2s_file, s0_file, err_file) \<Rightarrow>
                 seq (save_volume t2s_file t2s)
                (seq (save_volume r2s_file r2s)
                (seq (save_volume s0_file s0)
                     (save_volume err_file err))))
          else ret ())
    (ret (Some [(''t2s'', Img t2s), (''r2s'', Img r2s), (''s0'', Img s0),
                (''residuals'', Img err)]))))))))))"

text \<open>Lines 89 to 172: the computation, with the \<open>try\<close> around \<open>execute()\<close> in the middle.\<close>

definition flash_t2s_fitting_compute :: "env \<Rightarrow> niimg list \<Rightarrow> sample list \<Rightarrow> bool
    \<Rightarrow> (string \<times> string \<times> string \<times> string) option \<Rightarrow> pydict option io" where
  "flash_t2s_fitting_compute env image_list te_list save_data out_files =
     bnd (flash_t2s_fitting_configure env image_list te_list) (\<lambda>(dimensions, affine, header).
     bnd (try_except (jexecute env) (execute_handler flash_t2s_fitting_imports)) (\<lambda>out.
     flash_t2s_fitting_collect out dimensions affine header save_data out_files))"

definition flash_t2s_fitting :: "env \<Rightarrow> niimg list \<Rightarrow> sample list \<Rightarrow> bool \<Rightarrow> bool
    \<Rightarrow> string option \<Rightarrow> string option \<Rightarrow> pydict option io" where
  "flash_t2s_fitting env image_list te_list save_data overwrite output_dir file_name =
     seq (print (CHR 0x0A # ''T2* Fitting''))
    (if save_data then
       bnd (flash_t2s_fitting_files env image_list output_dir file_name) (\<lambda>fs.
       bnd (flash_t2s_fitting_cached overwrite fs) (\<lambda>early.
       case early of
         Some output \<Rightarrow> ret (Some output)
       | None \<Rightarrow> flash_t2s_fitting_compute env image_list te_list save_data (Some fs)))
     else flash_t2s_fitting_compute env image_list te_list save_data None)"

section \<open>mp2rage\_t1\_mapping\<close>

definition mp2rage_t1_mapping_imports :: "string list" where
  "mp2rage_t1_mapping_imports =
     [''np'', ''nb'', ''os'', ''sys'', ''cbstools'', ''load_volume'', ''save_volume'',
      ''_output_dir_4saving'', ''_fname_4saving'', ''_check_topology_lut_dir'']"

text \<open>Lines 78 to 93: the output directory and the three output file names.\<close>

definition mp2rage_t1_mapping_files :: "env \<Rightarrow> niimg list \<Rightarrow> string option \<Rightarrow> string option
    \<Rightarrow> (string \<times> string \<times> string) io" where
  "mp2rage_t1_mapping_files env first_inversion output_dir file_name =
     bnd (subscript first_inversion 0) (\<lambda>root.
     bnd (call_output_dir_4saving env output_dir root) (\<lambda>output_dir.
     bnd (subscript first_inversion 0) (\<lambda>root.
     bnd (output_file env output_dir file_name root ''qt1map-t1'') (\<lambda>t1_file.
     bnd (subscript first_inversion 0) (\<lambda>root.
     bnd (output_file env output_dir file_name root ''qt1map-r1'') (\<lambda>r1_file.
     bnd (subscript first_inversion 0) (\<lambda>root.
     bnd (output_file env output_dir file_name root ''qt1map-uni'') (\<lambda>uni_file.
     ret (t1_file, r1_file, uni_file)))))))))"

text \<open>Lines 95 to 103: the cache test and the cached result.\<close>

definition mp2rage_t1_mapping_cached :: "bool \<Rightarrow> string \<times> string \<times> string \<Rightarrow> pydict option io" where
  "mp2rage_t1_mapping_cached overwrite fs =
     (case fs of (t1_file, r1_file, uni_file) \<Rightarrow>
     bnd (and_also (ret (overwrite = False))
         (and_also (os_path_isfile t1_file)
         (and_also (os_path_isfile r1_file)
                   (os_path_isfile uni_file)))) (\<lambda>hit.
     if hit then
       seq (print ''skip computation (use existing results)'')
      (bnd (load_volume (Path t1_file)) (\<lambda>t1.
       bnd (load_volume (Path r1_file)) (\<lambda>r1.
       bnd (load_volume (Path uni_file)) (\<lambda>uni.
       ret (Some [(''t1'', Img t1), (''r1'', Img r1), (''uni'', Img uni)])))))
     else ret None))"

text \<open>
  Lines 105 to 156: the virtual machine, the native object, its parameters and its
  inputs. \<open>B1_map\<close> defaults to None, which \<open>load_volume\<close> rejects with ValueError.
\<close>

definition mp2rage_t1_mapping_configure :: "env \<Rightarrow> niimg list \<Rightarrow> niimg list \<Rightarrow> sample list \<Rightarrow> sample list
    \<Rightarrow> sample \<Rightarrow> sample list \<Rightarrow> int \<Rightarrow> sample \<Rightarrow> bool \<Rightarrow> niimg option
    \<Rightarrow> (nat list \<times> affine \<times> nat) io" where
  "mp2rage_t1_mapping_configure env first_inversion second_inversion inversion_times flip_angles
     inversion_TR excitation_TR N_excitations efficiency correct_B1 B1_map =
     seq (try_except_ValueError_pass (initVM ''12000m'' ''12000m''))
    (seq (jnew ''IntensityMp2rageT1Fitting'')
    (bnd (subscript inversion_times 0) (\<lambda>v.
     seq (jcall ''setFirstInversionTime'' [JFloat v])
    (bnd (subscript inversion_times 1) (\<lambda>v.
     seq (jcall ''setSecondInversionTime'' [JFloat v])
    (bnd (subscript flip_angles 0) (\<lambda>v.
     seq (jcall ''setFirstFlipAngle'' [JFloat v])
    (bnd (subscript flip_angles 1) (\<lambda>v.
     seq (jcall ''setSecondFlipAngle'' [JFloat v])
    (seq (jcall ''setInversionRepetitionTime'' [JFloat inversion_TR])
    (bnd (subscript excitation_TR 0) (\<lambda>v.
     seq (jcall ''setFirstExcitationRepetitionTime'' [JFloat v])
    (bnd (subscript excitation_TR 1) (\<lambda>v.
     seq (jcall ''setSecondExcitationRepetitionTime'' [JFloat v])
    (seq (jcall ''setNumberExcitations'' [JInt N_excitations])
    (seq (jcall ''setInversionEfficiency'' [JFloat efficiency])
    (seq (jcall ''setCorrectB1inhomogeneities'' [JBool correct_B1])
    (bnd (subscript first_inversion 0) (\<lambda>first.
     bnd (load_volume first) (\<lambda>img.
     let data1 = img_data img; affine = img_affine img; header = img_hdr img in
     bnd (get_zooms header) (\<lambda>resolution.
     let dimensions = shape data1 in
     seq (setDimensions dimensions)
    (seq (setResolutions resolution)
    (seq (jcall ''setFirstInversionMagnitude'' [JArray_float_flatten_F env data1])
    (bnd (subscript first_inversion 1) (\<lambda>x.
     bnd (load_volume x) (\<lambda>i2.
     seq (jcall ''setFirstInversionPhase'' [JArray_float_flatten_F env (img_data i2)])
    (bnd (subscript second_inversion 0) (\<lambda>x.
     bnd (load_volume x) (\<lambda>i3.
     seq (jcall ''setSecondInversionMagnitude'' [JArray_float_flatten_F env (img_data i3)])
    (bnd (subscript second_inversion 1) (\<lambda>x.
     bnd (load_volume x) (\<lambda>i4.
     seq (jcall ''setSecondInversionPhase'' [JArray_float_flatten_F env (img_data i4)])
    (seq (if correct_B1 then
            bnd (case B1_map of None \<Rightarrow> raise ValueError | Some b \<Rightarrow> load_volume b) (\<lambda>i5.
            jcall ''setB1mapImage'' [JArray_float_flatten_F env (img_data i5)])
          else ret ())
    (ret (dimensions, affine, header)))))))))))))))))))))))))))))))))))"

text \<open>Lines 169 to 198: the three results, reshaped, wrapped and (with \<open>save_data\<close>) saved.\<close>

definition mp2rage_t1_mapping_collect :: "(string \<Rightarrow> jvalue list \<Rightarrow> sample list) \<Rightarrow> nat list \<Rightarrow> affine \<Rightarrow> nat
    \<Rightarrow> bool \<Rightarrow> (string \<times> string \<times> string) option \<Rightarrow> pydict option io" where
  "mp2rage_t1_mapping_collect out dimensions affine header save_data out_files =
     bnd (reshape_output out ''getQuantitativeT1mapImage'' [] dimensions) (\<lambda>t1_data.
     bnd (reshape_output out ''getQuantitativeR1mapImage'' [] dimensions) (\<lambda>r1_data.
     bnd (reshape_output out ''getUniformT1weightedImage'' [] dimensions) (\<lambda>uni_data.
     bnd (wrap_output t1_data affine header) (\<lambda>t1.
     bnd (wrap_output r1_data affine header) (\<lambda>r1.
     bnd (wrap_output uni_data affine header) (\<lambda>uni.
     seq (if save_data then
            (case out_files of
               None \<Rightarrow> raise (UnboundLocalError ''t1_file'')
             | Some (t1_file, r1_file, uni_file) \<Rightarrow>
                 seq (save_volume t1_file t1)
                (seq (save_volume r1_file r1)
                     (save_volume uni_file uni)))
          else ret ())
    (ret (Some [(''t1'', Img t1), (''r1'', Img r1), (''uni'', Img uni)]))))))))"

text \<open>Lines 105 to 198: the computation.\<close>

definition mp2rage_t1_mapping_compute :: "env \<Rightarrow> niimg list \<Rightarrow> niimg list \<Rightarrow> sample list
    \<Rightarrow> sample list \<Rightarrow> sample \<Rightarrow> sample list \<Rightarrow> int \<Rightarrow> sample \<Rightarrow> bool \<Rightarrow> niimg option
    \<Rightarrow> bool \<Rightarrow> (string \<times> string \<times> string) option \<Rightarrow> pydict option io" where
  "mp2rage_t1_mapping_compute env first_inversion second_inversion inversion_times flip_angles
     inversion_TR excitation_TR N_excitations efficiency correct_B1 B1_map save_data out_files =
     bnd (mp2rage_t1_mapping_configure env first_inversion second_inversion inversion_times
            flip_angles inversion_TR excitation_TR N_excitations efficiency correct_B1 B1_map)
       (\<lambda>(dimensions, affine, header).
     bnd (try_except (jexecute env) (execute_handler mp2rage_t1_mapping_imports)) (\<lambda>out.
     mp2rage_t1_mapping_collect out dimensions affine header save_data out_files))"

definition mp2rage_t1_mapping :: "env \<Rightarrow> niimg list \<Rightarrow> niimg list \<Rightarrow> sample list \<Rightarrow> sample list
    \<Rightarrow> sample \<Rightarrow> sample list \<Rightarrow> int \<Rightarrow> sample \<Rightarrow> bool \<Rightarrow> niimg option
    \<Rightarrow> bool \<Rightarrow> bool \<Rightarrow> string option \<Rightarrow> string option \<Rightarrow> pydict option io" where
  "mp2rage_t1_mapping env first_inversion second_inversion inversion_times flip_angles
     inversion_TR excitation_TR N_excitations efficiency correct_B1 B1_map
     save_data overwrite output_dir file_name =
     seq (print (CHR 0x0A # ''T1 Mapping''))
    (if save_data then
       bnd (mp2rage_t1_mapping_files env first_inversion output_dir file_name) (\<lambda>fs.
       bnd (mp2rage_t1_mapping_cached overwrite fs) (\<lambda>early.
       case early of
         Some output \<Rightarrow> ret (Some output)
       | None \<Rightarrow>
           mp2rage_t1_mapping_compute env first_inversion second_inversion inversion_times
             flip_angles inversion_TR excitation_TR N_excitations efficiency correct_B1 B1_map
             save_data (Some fs)))
     else
       mp2rage_t1_mapping_compute env first_inversion second_inversion inversion_times
         flip_angles inversion_TR excitation_TR N_excitations efficiency correct_B1 B1_map
         save_data None)"

section \<open>levelset\_fusion\<close>

text \<open>The module's import statements (lines 1 to 7) bind these names; \<open>sys\<close> is not one.\<close>

definition levelset_fusion_imports :: "string list" where
  "levelset_fusion_imports =
     [''os'', ''np'', ''nb'', ''cbstools'', ''load_volume'', ''save_volume'',
      ''_output_dir_4saving'', ''_fname_4saving'', ''_check_topology_lut_dir'']"

text \<open>Lines 56 to 61: the output directory and the output file name.\<close>

definition levelset_fusion_files :: "env \<Rightarrow> niimg list \<Rightarrow> string option \<Rightarrow> string option \<Rightarrow> string io" where
  "levelset_fusion_files env levelset_images output_dir file_name =
     bnd (subscript levelset_images 0) (\<lambda>root.
     bnd (call_output_dir_4saving env output_dir root) (\<lambda>output_dir.
     bnd (subscript levelset_images 0) (\<lambda>root.
     output_file env output_dir file_name root ''lsf-avg'')))"

text \<open>Lines 62 to 68: the cache test and the cached result.\<close>

definition levelset_fusion_cached :: "bool \<Rightarrow> string \<Rightarrow> pydict option io" where
  "levelset_fusion_cached overwrite levelset_file =
     seq (print (''output file: '' @ levelset_file))
    (bnd (and_also (ret (overwrite = False)) (os_path_isfile levelset_file)) (\<lambda>hit.
     if hit then
       seq (print ''skip computation (use existing results)'')
      (bnd (load_volume (Path levelset_file)) (\<lambda>result.
       ret (Some [(''result'', Img result)])))
     else ret None))"

text \<open>Lines 70 to 100: the virtual machine, the native object and its inputs.\<close>

definition levelset_fusion_configure :: "env \<Rightarrow> niimg list \<Rightarrow> bool \<Rightarrow> string \<Rightarrow> (nat list \<times> affine \<times> nat) io" where
  "levelset_fusion_configure env levelset_images correct_topology topology_lut_dir =
     seq (try_except_ValueError_pass (initVM ''6000m'' ''6000m''))
    (seq (jnew ''ShapeLevelsetFusion'')
    (let nsubjects = length levelset_images in
     bnd (subscript levelset_images 0) (\<lambda>first.
     bnd (load_volume first) (\<lambda>img.
     let hdr = img_hdr img; aff = img_affine img in
     bnd (get_zooms hdr) (\<lambda>resolution.
     let dimensions = shape (img_data img) in
     seq (jcall ''setNumberOfImages'' [JInt (int nsubjects)])
    (seq (setResolutions resolution)
    (seq (setDimensions dimensions)
    (bnd (for_enumerate 0 levelset_images () (\<lambda>idx image _.
            bnd (load_volume image) (\<lambda>img.
            jcall ''setLevelsetImageAt''
              [JInt (int idx), JArray_float_flatten_F env (img_data img)]))) (\<lambda>_.
     seq (jcall ''setCorrectSkeletonTopology'' [JBool correct_topology])
    (seq (jcall ''setTopologyLUTdirectory'' [JStr topology_lut_dir])
    (ret (dimensions, aff, hdr))))))))))))"

text \<open>Lines 113 to 124: the result, reshaped, wrapped and (with \<open>save_data\<close>) saved.\<close>

definition levelset_fusion_collect :: "(string \<Rightarrow> jvalue list \<Rightarrow> sample list) \<Rightarrow> nat list \<Rightarrow> affine \<Rightarrow> nat
    \<Rightarrow> bool \<Rightarrow> string option \<Rightarrow> pydict option io" where
  "levelset_fusion_collect out dimensions aff hdr save_data out_files =
     bnd (reshape_output out ''getLevelsetAverage'' [] dimensions) (\<lambda>levelset_data.
     bnd (wrap_output levelset_data aff hdr) (\<lambda>levelset.
     seq (if save_data then
            (case out_files of
               None \<Rightarrow> raise (UnboundLocalError ''levelset_file'')
             | Some levelset_file \<Rightarrow> save_volume levelset_file levelset)
          else ret ())
    (ret (Some [(''result'', Img levelset)]))))"

text \<open>Lines 70 to 124: the computation.\<close>

definition levelset_fusion_compute :: "env \<Rightarrow> niimg list \<Rightarrow> bool \<Rightarrow> string \<Rightarrow> bool \<Rightarrow> string option
    \<Rightarrow> pydict option io" where
  "levelset_fusion_compute env levelset_images correct_topology topology_lut_dir save_data
     out_files =
     bnd (levelset_fusion_configure env levelset_images correct_topology topology_lut_dir)
       (\<lambda>(dimensions, aff, hdr).
     bnd (try_except (jexecute env) (execute_handler levelset_fusion_imports)) (\<lambda>out.
     levelset_fusion_collect out dimensions aff hdr save_data out_files))"

definition levelset_fusion :: "env \<Rightarrow> niimg list \<Rightarrow> bool \<Rightarrow> string option
    \<Rightarrow> bool \<Rightarrow> bool \<Rightarrow> string option \<Rightarrow> string option \<Rightarrow> pydict option io" where
  "levelset_fusion env levelset_images correct_topology topology_lut_dir
     save_data overwrite output_dir file_name =
     seq (print (CHR 0x0A # ''Levelset Shape Fusion''))
    (bnd (lift (check_topology_lut_dir env topology_lut_dir)) (\<lambda>topology_lut_dir.
     if save_data then
       bnd (levelset_fusion_files env levelset_images output_dir file_name) (\<lambda>levelset_file.
       bnd (levelset_fusion_cached overwrite levelset_file) (\<lambda>early.
       case early of
         Some output \<Rightarrow> ret (Some output)
       | None \<Rightarrow>
           levelset_fusion_compute env levelset_images correct_topology topology_lut_dir
             save_data (Some levelset_file)))
     else
       levelset_fusion_compute env levelset_images correct_topology topology_lut_dir
         save_data None))"

section \<open>lcpca\_denoising\<close>

definition lcpca_denoising_imports :: "string list" where
  "lcpca_denoising_imports =
     [''np'', ''nb'', ''os'', ''sys'', ''nighresjava'', ''load_volume'', ''save_volume'',
      ''_output_dir_4saving'', ''_fname_4saving'', ''_check_topology_lut_dir'']"

text \<open>
  Lines 76 to 102: the output directory, one file name for each magnitude image and then
  one for each phase image, and the names of the dimension and residual maps.
\<close>

definition lcpca_denoising_files :: "env \<Rightarrow> niimg list \<Rightarrow> niimg list option \<Rightarrow> string option
    \<Rightarrow> string option \<Rightarrow> (string list \<times> string \<times> string) io" where
  "lcpca_denoising_files env image_list phase_list output_dir file_name =
     bnd (subscript image_list 0) (\<lambda>root.
     bnd (call_output_dir_4saving env output_dir root) (\<lambda>output_dir.
     bnd (for_enumerate 0 image_list [] (\<lambda>idx image den_files.
            bnd (output_file env output_dir file_name image ''lcpca-den'') (\<lambda>den_file.
            ret (den_files @ [den_file])))) (\<lambda>den_files.
     bnd (case phase_list of
            None \<Rightarrow> ret den_files
          | Some phase_list \<Rightarrow>
              for_enumerate 0 phase_list den_files (\<lambda>idx image den_files.
                bnd (output_file env output_dir file_name image ''lcpca-den'') (\<lambda>den_file.
                ret (den_files @ [den_file])))) (\<lambda>den_files.
     bnd (subscript image_list 0) (\<lambda>root.
     bnd (output_file env output_dir file_name root ''lcpca-dim'') (\<lambda>dim_file.
     bnd (subscript image_list 0) (\<lambda>root.
     bnd (output_file env output_dir file_name root ''lcpca-res'') (\<lambda>err_file.
     ret (den_files, dim_file, err_file)))))))))"

text \<open>
  Lines 103 to 119: the cache test and the cached result. The loop over \<open>den_files\<close>
  probes every file; it has no \<open>break\<close>.
\<close>

definition lcpca_denoising_cached :: "bool \<Rightarrow> string list \<times> string \<times> string
    \<Rightarrow> pydict option io" where
  "lcpca_denoising_cached overwrite fs =
     (case fs of (den_files, dim_file, err_file) \<Rightarrow>
     bnd (and_also (ret (overwrite = False))
         (and_also (os_path_isfile dim_file)
                   (os_path_isfile err_file))) (\<lambda>present.
     if present then
       bnd (for_enumerate 0 den_files False (\<lambda>_ den_file missing.
              bnd (os_path_isfile den_file) (\<lambda>there.
              ret (if \<not> there then True else missing)))) (\<lambda>missing.
       if \<not> missing then
         seq (print ''skip computation (use existing results)'')
        (bnd (for_enumerate 0 den_files [] (\<lambda>_ den_file denoised.
                bnd (load_volume (Path den_file)) (\<lambda>i.
                ret (denoised @ [i])))) (\<lambda>denoised.
         bnd (load_volume (Path dim_file)) (\<lambda>dim.
         bnd (load_volume (Path err_file)) (\<lambda>err.
         ret (Some [(''denoised'', ImgList denoised), (''dimensions'', Img dim),
                    (''residuals'', Img err)])))))
       else ret None)
     else ret None))"

text \<open>
  Lines 136 to 170: the first image's dimensions, resolution, affine and header, the
  magnitude and phase inputs and the parameters.
\<close>

definition lcpca_denoising_configure :: "env \<Rightarrow> niimg list \<Rightarrow> niimg list option \<Rightarrow> int \<Rightarrow> sample \<Rightarrow> int
    \<Rightarrow> int \<Rightarrow> (nat list \<times> affine \<times> nat) io" where
  "lcpca_denoising_configure env image_list phase_list ngb_size stdev_cutoff min_dimension
     max_dimension =
     bnd (subscript image_list 0) (\<lambda>first.
     bnd (load_volume first) (\<lambda>img.
     let data = img_data img; affine = img_affine img; header = img_hdr img in
     bnd (get_zooms header) (\<lambda>resolution.
     let dimensions = shape data in
     seq (setDimensions dimensions)
    (seq (setResolutions resolution)
    (bnd (for_enumerate 0 image_list () (\<lambda>idx image _.
            bnd (load_volume image) (\<lambda>i.
            jcall ''setMagnitudeImageAt''
              [JInt (int idx), JArray_float_flatten_F env (img_data i)]))) (\<lambda>_.
     seq (case phase_list of
            None \<Rightarrow> ret ()
          | Some phase_list \<Rightarrow>
              for_enumerate 0 phase_list () (\<lambda>idx image _.
                bnd (load_volume image) (\<lambda>i.
                jcall ''setPhaseImageAt''
                  [JInt (int idx), JArray_float_flatten_F env (img_data i)])))
    (seq (jcall ''setPatchSize'' [JInt ngb_size])
    (seq (jcall ''setStdevCutoff'' [JFloat stdev_cutoff])
    (seq (jcall ''setMinimumDimension'' [JInt min_dimension])
    (seq (jcall ''setMaximumDimension'' [JInt max_dimension])
    (ret (dimensions, affine, header))))))))))))"

text \<open>
  Lines 186 to 195 and 198 to 207: one denoised image per input, wrapped, appended to
  \<open>denoised_list\<close> and (with \<open>save_data\<close>) saved under \<open>den_files[idx + offset]\<close>.
\<close>

definition lcpca_denoised_loop :: "(string \<Rightarrow> jvalue list \<Rightarrow> sample list) \<Rightarrow> string \<Rightarrow> nat list
    \<Rightarrow> affine \<Rightarrow> nat \<Rightarrow> bool \<Rightarrow> (string list \<times> string \<times> string) option \<Rightarrow> nat
    \<Rightarrow> niimg list \<Rightarrow> image list \<Rightarrow> image list io" where
  "lcpca_denoised_loop out getter dimensions affine header save_data out_files offset
     images denoised_list =
     for_enumerate 0 images denoised_list (\<lambda>idx image denoised_list.
       bnd (reshape_output out getter [JInt (int idx)] dimensions) (\<lambda>den_data.
       bnd (wrap_output den_data affine header) (\<lambda>denoised.
       seq (if save_data then
              (case out_files of
                 None \<Rightarrow> raise (UnboundLocalError ''den_files'')
               | Some (den_files, dim_file, err_file) \<Rightarrow>
                   bnd (subscript den_files (idx + offset)) (\<lambda>den_file.
                   save_volume den_file denoised))
            else ret ())
      (ret (denoised_list @ [denoised])))))"

text \<open>
  Lines 209 to 229: the dimension and residual maps, reshaped, wrapped and (with
  \<open>save_data\<close>) saved, and the returned dictionary.
\<close>

definition lcpca_denoising_maps :: "(string \<Rightarrow> jvalue list \<Rightarrow> sample list) \<Rightarrow> nat list \<Rightarrow> affine \<Rightarrow> nat \<Rightarrow> bool
    \<Rightarrow> (string list \<times> string \<times> string) option \<Rightarrow> image list \<Rightarrow> pydict option io" where
  "lcpca_denoising_maps out dimensions affine header save_data out_files denoised_list =
     bnd (reshape_output out ''getLocalDimensionImage'' [] dimensions) (\<lambda>dim_data.
     bnd (reshape_output out ''getNoiseFitImage'' [] dimensions) (\<lambda>err_data.
     bnd (wrap_output dim_data affine header) (\<lambda>dim.
     bnd (wrap_output err_data affine header) (\<lambda>err.
     seq (if save_data then
            (case out_files of
               None \<Rightarrow> raise (UnboundLocalError ''dim_file'')
             | Some (den_files, dim_file, err_file) \<Rightarrow>
                 seq (save_volume dim_file dim) (save_volume err_file err))
          else ret ())
    (ret (Some [(''denoised'', ImgList denoised_list), (''dimensions'', Img dim),
                (''residuals'', Img err)]))))))"

text \<open>Lines 184 to 229: the results.\<close>

definition lcpca_denoising_collect :: "(string \<Rightarrow> jvalue list \<Rightarrow> sample list) \<Rightarrow> niimg list \<Rightarrow> niimg list option
    \<Rightarrow> nat list \<Rightarrow> affine \<Rightarrow> nat \<Rightarrow> bool \<Rightarrow> (string list \<times> string \<times> string) option
    \<Rightarrow> pydict option io" where
  "lcpca_denoising_collect out image_list phase_list dimensions affine header save_data out_files =
     bnd (lcpca_denoised_loop out ''getDenoisedMagnitudeImageAt'' dimensions affine header
            save_data out_files 0 image_list []) (\<lambda>denoised_list.
     bnd (case phase_list of
            None \<Rightarrow> ret denoised_list
          | Some phase_list \<Rightarrow>
              lcpca_denoised_loop out ''getDenoisedPhaseImageAt'' dimensions affine header
                save_data out_files (length image_list) phase_list denoised_list) (\<lambda>denoised_list.
     lcpca_denoising_maps out dimensions affine header save_data out_files denoised_list))"

text \<open>
  Lines 121 to 229: the computation. A phase list of another length than the image list
  makes the function print and \<open>return\<close>, that is, return None.
\<close>

definition lcpca_denoising_compute :: "env \<Rightarrow> niimg list \<Rightarrow> niimg list option \<Rightarrow> int \<Rightarrow> sample \<Rightarrow> int
    \<Rightarrow> int \<Rightarrow> bool \<Rightarrow> (string list \<times> string \<times> string) option \<Rightarrow> pydict option io" where
  "lcpca_denoising_compute env image_list phase_list ngb_size stdev_cutoff min_dimension
     max_dimension save_data out_files =
     seq (try_except_ValueError_pass (initVM ''12000m'' ''12000m''))
    (seq (jnew ''IntensityComplexPCADenoising'')
    (seq (jcall ''setImageNumber'' [JInt (int (length image_list))])
    (if (case phase_list of None \<Rightarrow> False
          | Some phase_list \<Rightarrow> length phase_list \<noteq> length image_list) then
       seq (print (CHR 0x0A # ''mismatch of magnitude and phase images: abort'')) (ret None)
     else
       bnd (lcpca_denoising_configure env image_list phase_list ngb_size stdev_cutoff
              min_dimension max_dimension) (\<lambda>(dimensions, affine, header).
       bnd (try_except (jexecute env) (execute_handler lcpca_denoising_imports)) (\<lambda>out.
       lcpca_denoising_collect out image_list phase_list dimensions affine header save_data
         out_files)))))"

definition lcpca_denoising :: "env \<Rightarrow> niimg list \<Rightarrow> niimg list option \<Rightarrow> int \<Rightarrow> sample \<Rightarrow> int
    \<Rightarrow> int \<Rightarrow> bool \<Rightarrow> bool \<Rightarrow> string option \<Rightarrow> string option \<Rightarrow> pydict option io" where
  "lcpca_denoising env image_list phase_list ngb_size stdev_cutoff min_dimension max_dimension
     save_data overwrite output_dir file_name =
     seq (print (CHR 0x0A # ''LCPCA denoising''))
    (if save_data then
       bnd (lcpca_denoising_files env image_list phase_list output_dir file_name) (\<lambda>fs.
       bnd (lcpca_denoising_cached overwrite fs) (\<lambda>early.
       case early of
         Some output \<Rightarrow> ret (Some output)
       | None \<Rightarrow>
           lcpca_denoising_compute env image_list phase_list ngb_size stdev_cutoff
             min_dimension max_dimension save_data (Some fs)))
     else
       lcpca_denoising_compute env image_list phase_list ngb_size stdev_cutoff
         min_dimension max_dimension save_data None)"

section \<open>The four entry points together\<close>

text \<open>A call of one of the four public functions, with its arguments in source order.\<close>

datatype call =
    FlashT2sFitting "niimg list" "sample list" bool bool "string option" "string option"
  | LcpcaDenoising "niimg list" "niimg list option" int sample int int
      bool bool "string option" "string option"
  | Mp2rageT1Mapping "niimg list" "niimg list" "sample list" "sample list" sample "sample list"
      int sample bool "niimg option" bool bool "string option" "string option"
  | LevelsetFusion "niimg list" bool "string option" bool bool "string option" "string option"

fun run :: "env \<Rightarrow> call \<Rightarrow> pydict option io" where
  "run env (FlashT2sFitting image_list te_list save_data overwrite output_dir file_name) =
     flash_t2s_fitting env image_list te_list save_data overwrite output_dir file_name"
| "run env (LcpcaDenoising image_list phase_list ngb_size stdev_cutoff min_dimension
      max_dimension save_data overwrite output_dir file_name) =
     lcpca_denoising env image_list phase_list ngb_size stdev_cutoff min_dimension
       max_dimension save_data overwrite output_dir file_name"
| "run env (Mp2rageT1Mapping first_inversion second_inversion inversion_times flip_angles
      inversion_TR excitation_TR N_excitations efficiency correct_B1 B1_map
      save_data overwrite output_dir file_name) =
     mp2rage_t1_mapping env first_inversion second_inversion inversion_times flip_angles
       inversion_TR excitation_TR N_excitations efficiency correct_B1 B1_map
       save_data overwrite output_dir file_name"
| "run env (LevelsetFusion levelset_images correct_topology topology_lut_dir
      save_data overwrite output_dir file_name) =
     levelset_fusion env levelset_images correct_topology topology_lut_dir
       save_data overwrite output_dir file_name"

fun save_data_of :: "call \<Rightarrow> bool" where
  "save_data_of (FlashT2sFitting _ _ save_data _ _ _) = save_data"
| "save_data_of (LcpcaDenoising _ _ _ _ _ _ save_data _ _ _) = save_data"
| "save_data_of (Mp2rageT1Mapping _ _ _ _ _ _ _ _ _ _ save_data _ _ _) = save_data"
| "save_data_of (LevelsetFusion _ _ _ save_data _ _ _) = save_data"

fun overwrite_of :: "call \<Rightarrow> bool" where
  "overwrite_of (FlashT2sFitting _ _ _ overwrite _ _) = overwrite"
| "overwrite_of (LcpcaDenoising _ _ _ _ _ _ _ overwrite _ _) = overwrite"
| "overwrite_of (Mp2rageT1Mapping _ _ _ _ _ _ _ _ _ _ _ overwrite _ _) = overwrite"
| "overwrite_of (LevelsetFusion _ _ _ _ overwrite _ _) = overwrite"

fun with_overwrite :: "bool \<Rightarrow> call \<Rightarrow> call" where
  "with_overwrite b (FlashT2sFitting il te sd _ od fn) = FlashT2sFitting il te sd b od fn"
| "with_overwrite b (LcpcaDenoising il pl n c mn mx sd _ od fn) =
     LcpcaDenoising il pl n c mn mx sd b od fn"
| "with_overwrite b (Mp2rageT1Mapping fi si it fa tr etr n eff cb b1 sd _ od fn) =
     Mp2rageT1Mapping fi si it fa tr etr n eff cb b1 sd b od fn"
| "with_overwrite b (LevelsetFusion ls ct tld sd _ od fn) = LevelsetFusion ls ct tld sd b od fn"

text \<open>The native class a call instantiates.\<close>

fun native_class :: "call \<Rightarrow> string" where
  "native_class (FlashT2sFitting _ _ _ _ _ _) = ''IntensityFlashT2sFitting''"
| "native_class (LcpcaDenoising _ _ _ _ _ _ _ _ _ _) = ''IntensityComplexPCADenoising''"
| "native_class (Mp2rageT1Mapping _ _ _ _ _ _ _ _ _ _ _ _ _ _) = ''IntensityMp2rageT1Fitting''"
| "native_class (LevelsetFusion _ _ _ _ _ _ _) = ''ShapeLevelsetFusion''"

text \<open>
  The list whose first element gives dimensions, resolution, affine and header, and
  every image a call pushes to the native object.
\<close>

fun first_list :: "call \<Rightarrow> niimg list" where
  "first_list (FlashT2sFitting image_list _ _ _ _ _) = image_list"
| "first_list (LcpcaDenoising image_list _ _ _ _ _ _ _ _ _) = image_list"
| "first_list (Mp2rageT1Mapping first_inversion _ _ _ _ _ _ _ _ _ _ _ _ _) = first_inversion"
| "first_list (LevelsetFusion levelset_images _ _ _ _ _ _) = levelset_images"

fun input_images :: "call \<Rightarrow> niimg list" where
  "input_images (FlashT2sFitting image_list _ _ _ _ _) = image_list"
| "input_images (LcpcaDenoising image_list phase_list _ _ _ _ _ _ _ _) =
     image_list @ (case phase_list of None \<Rightarrow> [] | Some pl \<Rightarrow> pl)"
| "input_images (Mp2rageT1Mapping first_inversion second_inversion _ _ _ _ _ _ _ B1_map _ _ _ _) =
     first_inversion @ second_inversion @ (case B1_map of None \<Rightarrow> [] | Some b \<Rightarrow> [b])"
| "input_images (LevelsetFusion levelset_images _ _ _ _ _ _) = levelset_images"

text \<open>
  The output files a call with \<open>save_data\<close> expects, computed as the function computes
  them and listed in the order of the returned dictionary.
\<close>

fun output_files :: "env \<Rightarrow> call \<Rightarrow> string list io" where
  "output_files env (FlashT2sFitting image_list _ _ _ output_dir file_name) =
     bnd (flash_t2s_fitting_files env image_list output_dir file_name)
       (\<lambda>(t2s_file, r2s_file, s0_file, err_file). ret [t2s_file, r2s_file, s0_file, err_file])"
| "output_files env (LcpcaDenoising image_list phase_list _ _ _ _ _ _ output_dir file_name) =
     bnd (lcpca_denoising_files env image_list phase_list output_dir file_name)
       (\<lambda>(den_files, dim_file, err_file). ret (den_files @ [dim_file, err_file]))"
| "output_files env (Mp2rageT1Mapping first_inversion _ _ _ _ _ _ _ _ _ _ _ output_dir file_name) =
     bnd (mp2rage_t1_mapping_files env first_inversion output_dir file_name)
       (\<lambda>(t1_file, r1_file, uni_file). ret [t1_file, r1_file, uni_file])"
| "output_files env (LevelsetFusion levelset_images _ topology_lut_dir _ _ output_dir file_name) =
     bnd (lift (check_topology_lut_dir env topology_lut_dir)) (\<lambda>_.
     bnd (levelset_fusion_files env levelset_images output_dir file_name) (\<lambda>levelset_file.
     ret [levelset_file]))"

text \<open>The images a returned dictionary holds, in order.\<close>

fun images_of_value :: "pyval \<Rightarrow> image list" where
  "images_of_value (Img i) = [i]"
| "images_of_value (ImgList is) = is"

definition images_of :: "pydict \<Rightarrow> image list" where
  "images_of d = concat (map (\<lambda>kv. images_of_value (snd kv)) d)"

text \<open>What an image object would be on disk, and what an input holds before the call.\<close>

definition volume_of :: "world \<Rightarrow> image \<Rightarrow> volume" where
  "volume_of w i =
     \<lparr>vol_data = img_data i, vol_affine = img_affine i, vol_header = heap w ! img_hdr i\<rparr>"

fun input_data :: "(string \<rightharpoonup> volume) \<Rightarrow> niimg \<Rightarrow> ndarray option" where
  "input_data fs (Obj i) = Some (img_data i)"
| "input_data fs (Path p) = map_option vol_data (fs p)"

fun input_affine :: "(string \<rightharpoonup> volume) \<Rightarrow> niimg \<Rightarrow> affine option" where
  "input_affine fs (Obj i) = Some (img_affine i)"
| "input_affine fs (Path p) = map_option vol_affine (fs p)"

text \<open>An image object handed in by the caller has its header in the store.\<close>

fun valid_input :: "world \<Rightarrow> niimg \<Rightarrow> bool" where
  "valid_input w (Obj i) = (img_hdr i < length (heap w))"
| "valid_input w (Path p) = True"

text \<open>Events that write to the file system, and events that consult the cache.\<close>

fun is_write :: "event \<Rightarrow> bool" where
  "is_write (OutputDir _) = True"
| "is_write (SaveVolume _) = True"
| "is_write _ = False"

fun is_cache_use :: "event \<Rightarrow> bool" where
  "is_cache_use (IsFile _) = True"
| "is_cache_use (Print s) = (s = ''skip computation (use existing results)'')"
| "is_cache_use _ = False"

text \<open>The events a statement adds to the trace.\<close>

definition new_events :: "world \<Rightarrow> world \<Rightarrow> event list" where
  "new_events w w' = drop (length (trace w)) (trace w')"

section \<open>Concrete inputs\<close>

text \<open>
  A small setting to run the wrappers in: helpers that always succeed, casts that change
  nothing, a native library whose getters all return two samples, and one image object of
  shape (1,1,2) whose header sits at address 0 of the store.
\<close>

definition demo_env :: env where
  "demo_env =
     \<lparr>output_dir_4saving = (\<lambda>output_dir rootfile.
          Inr (case output_dir of None \<Rightarrow> ''/out/'' | Some d \<Rightarrow> d)),
      fname_4saving = (\<lambda>file_name rootfile suffix.
          Inr ((case file_name of None \<Rightarrow> ''img'' | Some n \<Rightarrow> n) @ ''_'' @ suffix)),
      check_topology_lut_dir = (\<lambda>d. Inr (case d of None \<Rightarrow> ''/lut/'' | Some x \<Rightarrow> x)),
      astype_float = (\<lambda>x. x),
      jarray_float = (\<lambda>x. x),
      native_execute = (\<lambda>tr. Inr (\<lambda>name args. [Num 3, Num 5]))\<rparr>"

text \<open>The same setting with a native library whose \<open>execute\<close> throws.\<close>

definition failing_env :: env where
  "failing_env = demo_env\<lparr>native_execute := (\<lambda>tr. Inl (JavaError ''java.lang.RuntimeException''))\<rparr>"

definition demo_header :: header where
  "demo_header = \<lparr>zooms = [Num 1, Num 1, Num 1], cal_min = Num 0, cal_max = Num 0\<rparr>"

definition demo_array :: ndarray where
  "demo_array = \<lparr>shape = [1, 1, 2], cdata = [Num 7, NaN]\<rparr>"

definition demo_image :: image where
  "demo_image = \<lparr>img_data = demo_array, img_affine = [1, 0, 0, 0], img_hdr = 0\<rparr>"

definition demo_world :: world where
  "demo_world = \<lparr>files = Map.empty, heap = [demo_header], vm_running = False, trace = []\<rparr>"

section \<open>Frames: what a statement may change\<close>

text \<open>
  \<open>frame R m\<close>: whatever \<open>m\<close> does and however it ends, the world it leaves is related
  by \<open>R\<close> to the world it started in.
\<close>

definition frame :: "(world \<Rightarrow> world \<Rightarrow> bool) \<Rightarrow> 'a io \<Rightarrow> bool" where
  "frame R m \<longleftrightarrow> (\<forall>w. R w (snd (m w)))"

definition preorder :: "(world \<Rightarrow> world \<Rightarrow> bool) \<Rightarrow> bool" where
  "preorder R \<longleftrightarrow> (\<forall>w. R w w) \<and> (\<forall>a b c. R a b \<longrightarrow> R b c \<longrightarrow> R a c)"

text \<open>The files on disk are the same.\<close>

definition same_files :: "world \<Rightarrow> world \<Rightarrow> bool" where
  "same_files w w' \<longleftrightarrow> files w' = files w"

text \<open>The trace has only grown, and by events of kind \<open>P\<close>.\<close>

definition adds_only :: "(event \<Rightarrow> bool) \<Rightarrow> world \<Rightarrow> world \<Rightarrow> bool" where
  "adds_only P w w' \<longleftrightarrow>
     take (length (trace w)) (trace w') = trace w \<and> list_all P (new_events w w')"

text \<open>
  Two worlds that differ only in which files were probed: \<open>os.path.isfile\<close> leaves nothing
  behind but its entry in the trace.
\<close>

definition unprobed :: "event list \<Rightarrow> event list" where
  "unprobed evs = filter (\<lambda>e. case e of IsFile _ \<Rightarrow> False | _ \<Rightarrow> True) evs"

definition same_but_probes :: "world \<Rightarrow> world \<Rightarrow> bool" where
  "same_but_probes w v \<longleftrightarrow>
     files w = files v \<and> heap w = heap v \<and> vm_running w = vm_running v \<and>
     unprobed (trace w) = unprobed (trace v)"

text \<open>\<open>probe_blind m\<close>: \<open>m\<close> cannot tell such worlds apart.\<close>

definition probe_blind :: "'a io \<Rightarrow> bool" where
  "probe_blind m \<longleftrightarrow>
     (\<forall>w v. same_but_probes w v \<longrightarrow>
        fst (m w) = fst (m v) \<and> same_but_probes (snd (m w)) (snd (m v)))"

text \<open>Events that neither write nor consult the cache.\<close>

definition quiet :: "event \<Rightarrow> bool" where
  "quiet e \<longleftrightarrow> \<not> is_write e \<and> \<not> is_cache_use e"

text \<open>\<open>always_emits ev m\<close>: however \<open>m\<close> ends, it has added \<open>ev\<close> to the trace.\<close>

definition always_emits :: "event \<Rightarrow> 'a io \<Rightarrow> bool" where
  "always_emits ev m \<longleftrightarrow> (\<forall>w. ev \<in> set (new_events w (snd (m w))))"

text \<open>
  \<open>levelset_fusion\<close> checks its \<open>topology_lut_dir\<close> argument before anything else; the
  helper may reject it.
\<close>

fun topology_dir_accepted :: "env \<Rightarrow> call \<Rightarrow> bool" where
  "topology_dir_accepted env (LevelsetFusion _ _ topology_lut_dir _ _ _ _) =
     (case check_topology_lut_dir env topology_lut_dir of Inl _ \<Rightarrow> False | Inr _ \<Rightarrow> True)"
| "topology_dir_accepted env _ = True"

text \<open>
  A world in which a \<open>flash_t2s_fitting\<close> run in the small setting finds all four of its
  output files, and the call that finds them.
\<close>

definition demo_volume :: volume where
  "demo_volume = \<lparr>vol_data = demo_array, vol_affine = [1, 0, 0, 0], vol_header = demo_header\<rparr>"

definition cached_world :: world where
  "cached_world =
     \<lparr>files = [''/out/img_qt2fit-t2s'' \<mapsto> demo_volume, ''/out/img_qt2fit-r2s'' \<mapsto> demo_volume,
               ''/out/img_qt2fit-s0'' \<mapsto> demo_volume, ''/out/img_qt2fit-err'' \<mapsto> demo_volume],
      heap = [demo_header], vm_running = False, trace = []\<rparr>"

definition demo_call :: "bool \<Rightarrow> bool \<Rightarrow> call" where
  "demo_call save_data overwrite =
     FlashT2sFitting [Obj demo_image] [Num 10] save_data overwrite None None"

text \<open>
  \<open>pure_io m\<close>: \<open>m\<close> neither reads nor changes the world; it only adds the same events to
  the trace wherever it runs.
\<close>

definition pure_io :: "'a io \<Rightarrow> bool" where
  "pure_io m \<longleftrightarrow> (\<exists>r evs. \<forall>w. m w = (r, w\<lparr>trace := trace w @ evs\<rparr>))"

text \<open>
  What a failed cache test may leave in the trace: no call into the native library, no
  write, and not the skip message.
\<close>

definition miss_event :: "event \<Rightarrow> bool" where
  "miss_event e \<longleftrightarrow> \<not> is_native e \<and> \<not> is_write e
     \<and> e \<noteq> Print ''skip computation (use existing results)''"

text \<open>What computing the output file names may leave in the trace.\<close>

definition naming_event :: "event \<Rightarrow> bool" where
  "naming_event e \<longleftrightarrow> \<not> is_native e \<and> \<not> is_cache_use e"

text \<open>The same world with one of the four files deleted.\<close>

definition partial_world :: world where
  "partial_world = cached_world\<lparr>files := (files cached_world)(''/out/img_qt2fit-s0'' := None)\<rparr>"

text \<open>
  A call of \<open>lcpca_denoising\<close> with one magnitude image and two phase images, and a world
  in which its output files exist. \<open>native_before ev evs\<close>: some call into the native
  library stands in \<open>evs\<close> before the first \<open>ev\<close>.
\<close>

definition mismatch_call :: "bool \<Rightarrow> bool \<Rightarrow> call" where
  "mismatch_call save_data overwrite =
     LcpcaDenoising [Obj demo_image] (Some [Obj demo_image, Obj demo_image]) 4 (Num (21 / 20)) 0 (- 1)
       save_data overwrite None None"

definition lcpca_cached_world :: world where
  "lcpca_cached_world =
     \<lparr>files = [''/out/img_lcpca-den'' \<mapsto> demo_volume, ''/out/img_lcpca-dim'' \<mapsto> demo_volume,
               ''/out/img_lcpca-res'' \<mapsto> demo_volume],
      heap = [demo_header], vm_running = False, trace = []\<rparr>"

definition mismatch_message :: string where
  "mismatch_message = CHR 0x0A # ''mismatch of magnitude and phase images: abort''"

definition native_before :: "event \<Rightarrow> event list \<Rightarrow> bool" where
  "native_before ev evs = list_ex is_native (takeWhile (\<lambda>e. e \<noteq> ev) evs)"

section \<open>Returned images\<close>

text \<open>
  \<open>calibrated w i\<close>: in world \<open>w\<close>, the header of image \<open>i\<close> carries the NaN-excluded minimum
  and maximum of the image's own array. \<open>from_native out dims i\<close>: the array of \<open>i\<close> is a
  result of the native getters \<open>out\<close>, reshaped in column-major order to \<open>dims\<close>.
\<close>

definition calibrated :: "world \<Rightarrow> image \<Rightarrow> bool" where
  "calibrated w i \<longleftrightarrow>
     img_hdr i < length (heap w) \<and>
     nanmin (img_data i) = Inr (cal_min (heap w ! img_hdr i)) \<and>
     nanmax (img_data i) = Inr (cal_max (heap w ! img_hdr i))"

definition from_native :: "(string \<Rightarrow> jvalue list \<Rightarrow> sample list) \<Rightarrow> nat list \<Rightarrow> image \<Rightarrow> bool" where
  "from_native out dims i \<longleftrightarrow> (\<exists>getter args. reshape_F (out getter args) dims = Inr (img_data i))"

text \<open>
  What is asked of the header of a returned image: the image carries the affine \<open>aff\<close>,
  its header is an object of its own, not the input's header \<open>h\<close>, and it is calibrated.
\<close>

definition wrapped :: "affine \<Rightarrow> nat \<Rightarrow> world \<Rightarrow> image \<Rightarrow> bool" where
  "wrapped aff h w i \<longleftrightarrow> img_affine i = aff \<and> img_hdr i \<noteq> h \<and> calibrated w i"

text \<open>
  \<open>keeps_headers_but h w w'\<close>: from \<open>w\<close> to \<open>w'\<close> the store has only grown, and no header
  object but the one at \<open>h\<close> was assigned to.
\<close>

definition keeps_headers_but :: "nat \<Rightarrow> world \<Rightarrow> world \<Rightarrow> bool" where
  "keeps_headers_but h w w' \<longleftrightarrow>
     length (heap w) \<le> length (heap w') \<and>
     (\<forall>k<length (heap w). k \<noteq> h \<longrightarrow> heap w' ! k = heap w ! k)"

section \<open>Column-major and row-major positions\<close>

text \<open>
  Inside the shape, a position and an index determine each other, in both orders. This
  is what makes \<open>flatten('F')\<close> and \<open>reshape(..., 'F')\<close> inverse to each other.
\<close>

lemma ravel_unravel_F: "m < prod_list dims \<Longrightarrow> ravel_F dims (unravel_F dims m) = m"
proof (induction dims arbitrary: m)
  case Nil then show ?case by simp
next
  case (Cons n ns)
  have npos: "0 < n" using Cons.prems by (cases n) auto
  have "m div n < prod_list ns"
    using Cons.prems npos by (simp add: less_mult_imp_div_less mult.commute)
  then have "ravel_F ns (unravel_F ns (m div n)) = m div n" by (rule Cons.IH)
  then show ?case by simp
qed

lemma unravel_F_valid: "m < prod_list dims \<Longrightarrow> list_all2 (<) (unravel_F dims m) dims"
proof (induction dims arbitrary: m)
  case Nil then show ?case by simp
next
  case (Cons n ns)
  have npos: "0 < n" using Cons.prems by (cases n) auto
  have "m div n < prod_list ns"
    using Cons.prems npos by (simp add: less_mult_imp_div_less mult.commute)
  then show ?case using Cons.IH npos by simp
qed

lemma ravel_F_less: "list_all2 (<) idx dims \<Longrightarrow> ravel_F dims idx < prod_list dims"
proof (induction idx dims rule: list_all2_induct)
  case Nil then show ?case by simp
next
  case (Cons i idx n ns)
  have "i + n * ravel_F ns idx < n + n * ravel_F ns idx" using Cons by simp
  also have "\<dots> = n * Suc (ravel_F ns idx)" by simp
  also have "\<dots> \<le> n * prod_list ns"
    using Cons by (intro mult_le_mono2) (simp add: Suc_leI)
  finally show ?case by simp
qed

lemma unravel_ravel_F: "list_all2 (<) idx dims \<Longrightarrow> unravel_F dims (ravel_F dims idx) = idx"
  by (induction idx dims rule: list_all2_induct) auto

lemma ravel_unravel_C: "m < prod_list dims \<Longrightarrow> ravel_C dims (unravel_C dims m) = m"
proof (induction dims arbitrary: m)
  case Nil then show ?case by simp
next
  case (Cons n ns)
  have ppos: "0 < prod_list ns" using Cons.prems by (cases "prod_list ns") auto
  have "m mod prod_list ns < prod_list ns" using ppos by simp
  then have "ravel_C ns (unravel_C ns (m mod prod_list ns)) = m mod prod_list ns" by (rule Cons.IH)
  then show ?case by simp
qed

lemma unravel_C_valid: "m < prod_list dims \<Longrightarrow> list_all2 (<) (unravel_C dims m) dims"
proof (induction dims arbitrary: m)
  case Nil then show ?case by simp
next
  case (Cons n ns)
  have ppos: "0 < prod_list ns" using Cons.prems by (cases "prod_list ns") auto
  have "m div prod_list ns < n"
    using Cons.prems ppos by (simp add: less_mult_imp_div_less)
  then show ?case using Cons.IH ppos by simp
qed

lemma ravel_C_less: "list_all2 (<) idx dims \<Longrightarrow> ravel_C dims idx < prod_list dims"
proof (induction idx dims rule: list_all2_induct)
  case Nil then show ?case by simp
next
  case (Cons i idx n ns)
  have "i * prod_list ns + ravel_C ns idx < i * prod_list ns + prod_list ns" using Cons by simp
  also have "\<dots> = Suc i * prod_list ns" by simp
  also have "\<dots> \<le> n * prod_list ns"
    using Cons by (intro mult_le_mono1) (simp add: Suc_leI)
  finally show ?case by simp
qed

lemma unravel_ravel_C: "list_all2 (<) idx dims \<Longrightarrow> unravel_C dims (ravel_C dims idx) = idx"
proof (induction idx dims rule: list_all2_induct)
  case Nil then show ?case by simp
next
  case (Cons i idx n ns)
  have "ravel_C ns idx < prod_list ns" using Cons by (simp add: ravel_C_less)
  then show ?case using Cons by simp
qed

lemma reshape_F_shape: "reshape_F flat dims = Inr a \<Longrightarrow> shape a = dims"
  by (auto simp: reshape_F_def split: if_splits)

lemma reshape_F_length: "reshape_F flat dims = Inr a \<Longrightarrow> length flat = prod_list dims"
  by (auto simp: reshape_F_def split: if_splits)

lemma reshape_F_wf: "reshape_F flat dims = Inr a \<Longrightarrow> wf_ndarray a"
  by (auto simp: reshape_F_def wf_ndarray_def split: if_splits)

lemma reshape_F_item:
  assumes "reshape_F flat dims = Inr a" and "list_all2 (<) idx dims"
  shows "item a idx = flat ! ravel_F dims idx"
proof -
  have a: "a = \<lparr>shape = dims,
      cdata = map (\<lambda>m. flat ! ravel_F dims (unravel_C dims m)) [0..<prod_list dims]\<rparr>"
    using assms(1) by (auto simp: reshape_F_def split: if_splits)
  have "ravel_C dims idx < prod_list dims" using assms(2) by (rule ravel_C_less)
  then show ?thesis
    using assms(2) by (simp add: a item_def unravel_ravel_C)
qed

lemma reshape_F_flatten:
  assumes "reshape_F flat dims = Inr a"
  shows "flatten_F a = flat"
proof -
  have len: "length flat = prod_list dims" using assms by (rule reshape_F_length)
  have a: "a = \<lparr>shape = dims,
      cdata = map (\<lambda>m. flat ! ravel_F dims (unravel_C dims m)) [0..<prod_list dims]\<rparr>"
    using assms by (auto simp: reshape_F_def split: if_splits)
  have "flatten_F a = map (\<lambda>m. flat ! m) [0..<prod_list dims]"
    unfolding flatten_F_def
  proof (rule map_cong)
    show "[0..<prod_list (shape a)] = [0..<prod_list dims]" by (simp add: a)
  next
    fix m assume "m \<in> set [0..<prod_list dims]"
    then have m: "m < prod_list dims" by simp
    have v: "list_all2 (<) (unravel_F dims m) dims" using m by (rule unravel_F_valid)
    have "ravel_C dims (unravel_F dims m) < prod_list dims" using v by (rule ravel_C_less)
    then show "cdata a ! ravel_C (shape a) (unravel_F (shape a) m) = flat ! m"
      using v m by (simp add: a unravel_ravel_C ravel_unravel_F)
  qed
  also have "\<dots> = flat" using len by (metis map_nth)
  finally show ?thesis .
qed

lemma flatten_F_length: "length (flatten_F a) = prod_list (shape a)"
  by (simp add: flatten_F_def)

lemma flatten_F_nth:
  assumes "list_all2 (<) idx (shape a)"
  shows "flatten_F a ! ravel_F (shape a) idx = item a idx"
proof -
  have "ravel_F (shape a) idx < prod_list (shape a)" using assms by (rule ravel_F_less)
  then show ?thesis using assms by (simp add: flatten_F_def item_def unravel_ravel_F)
qed

lemma ravel_F_3: "ravel_F [X, Y, Z] [i, j, k] = i + X * (j + Y * k)"
  by simp


section \<open>Unfolding the effects\<close>

lemmas io_defs = ret_def raise_def bnd_def seq_def lift_def emit_def try_except_def
  try_except_ValueError_pass_def and_also_def subscript_def global_name_def print_def
  os_path_join_def os_path_isfile_def save_volume_def set_cal_min_def set_cal_max_def
  get_zooms_def Nifti1Image_def initVM_def jnew_def jcall_def jexecute_def jget_def
  JArray_float_flatten_F_def call_output_dir_4saving_def output_file_def execute_handler_def
  reshape_output_def wrap_output_def setDimensions_def setResolutions_def Let_def
  load_volume.simps

lemmas demo_defs = demo_env_def failing_env_def demo_header_def demo_array_def demo_image_def
  demo_volume_def cached_world_def demo_call_def partial_world_def mismatch_call_def
  lcpca_cached_world_def mismatch_message_def native_before_def
  demo_world_def

lemmas wrapper_defs = print_def jnew_def jcall_def jget_def call_output_dir_4saving_def
  output_file_def execute_handler_def reshape_output_def wrap_output_def setDimensions_def
  setResolutions_def


section \<open>Running a statement\<close>

text \<open>
  The definitions of the effects, applied to a world. Unlike the definitions themselves,
  these rewrite a statement only where it runs, and leave loop bodies as they are written.
\<close>

lemma ret_app: "ret x w = (Inr x, w)"
  by (simp add: ret_def)

lemma raise_app: "raise e w = (Inl e, w)"
  by (simp add: raise_def)

lemma bnd_app: "bnd m f w = (case m w of (Inl e, w') \<Rightarrow> (Inl e, w') | (Inr x, w') \<Rightarrow> f x w')"
  by (simp add: bnd_def)

lemma seq_app: "seq m k w = (case m w of (Inl e, w') \<Rightarrow> (Inl e, w') | (Inr x, w') \<Rightarrow> k w')"
  by (simp add: seq_def bnd_def)

lemma lift_app: "lift r w = (r, w)"
  by (simp add: lift_def)

lemma emit_app: "emit ev w = (Inr (), w\<lparr>trace := trace w @ [ev]\<rparr>)"
  by (simp add: emit_def)

lemma try_except_app:
  "try_except m h w = (case m w of (Inl e, w') \<Rightarrow> h e w' | (Inr x, w') \<Rightarrow> (Inr x, w'))"
  by (simp add: try_except_def)

lemma os_path_isfile_app:
  "os_path_isfile p w = (Inr (files w p \<noteq> None), w\<lparr>trace := trace w @ [IsFile p]\<rparr>)"
  by (simp add: os_path_isfile_def)

lemma load_volume_Obj_app: "load_volume (Obj i) w = (Inr i, w)"
  by (simp add: ret_def)

lemma load_volume_Path_app:
  "load_volume (Path p) w =
     (case files w p of
        None \<Rightarrow> (Inl (FileNotFoundError p), w\<lparr>trace := trace w @ [LoadVolume p]\<rparr>)
      | Some v \<Rightarrow>
          (Inr \<lparr>img_data = vol_data v, img_affine = vol_affine v, img_hdr = length (heap w)\<rparr>,
           w\<lparr>heap := heap w @ [vol_header v], trace := trace w @ [LoadVolume p]\<rparr>))"
  by simp

lemma save_volume_app:
  "save_volume p i w =
     (Inr (), w\<lparr>files := (files w)(p \<mapsto> volume_of w i), trace := trace w @ [SaveVolume p]\<rparr>)"
  by (simp add: save_volume_def volume_of_def)

lemma set_cal_min_app:
  "set_cal_min h v w = (Inr (), w\<lparr>heap := (heap w)[h := (heap w ! h)\<lparr>cal_min := v\<rparr>]\<rparr>)"
  by (simp add: set_cal_min_def)

lemma set_cal_max_app:
  "set_cal_max h v w = (Inr (), w\<lparr>heap := (heap w)[h := (heap w ! h)\<lparr>cal_max := v\<rparr>]\<rparr>)"
  by (simp add: set_cal_max_def)

lemma get_zooms_app: "get_zooms h w = (Inr (zooms (heap w ! h)), w)"
  by (simp add: get_zooms_def)

lemma Nifti1Image_app:
  "Nifti1Image d a h w =
     (Inr \<lparr>img_data = d, img_affine = a, img_hdr = length (heap w)\<rparr>,
      w\<lparr>heap := heap w @ [heap w ! h]\<rparr>)"
  by (simp add: Nifti1Image_def)

lemma try_initVM:
  "try_except_ValueError_pass (initVM a b) (w :: world) =
     (Inr (), w\<lparr>vm_running := True, trace := trace w @ [InitVM a b]\<rparr>)"
  by (cases w) (simp add: try_except_ValueError_pass_def initVM_def)

lemma jexecute_app:
  "jexecute env w =
     (native_execute env (filter is_native (trace w)), w\<lparr>trace := trace w @ [Execute]\<rparr>)"
  by (simp add: jexecute_def)

lemmas io_app = ret_app raise_app bnd_app seq_app lift_app emit_app try_except_app
  os_path_isfile_app load_volume_Obj_app load_volume_Path_app save_volume_app set_cal_min_app
  set_cal_max_app get_zooms_app Nifti1Image_app try_initVM jexecute_app
  and_also_def subscript_def global_name_def wrapper_defs

declare load_volume.simps [simp del]

text \<open>Loop bodies are rewritten only when the loop runs them.\<close>

lemma for_enumerate_cong [cong]:
  "i = i' \<Longrightarrow> xs = xs' \<Longrightarrow> acc = acc'
   \<Longrightarrow> for_enumerate i xs acc body = for_enumerate i' xs' acc' body"
  by simp


section \<open>Frame rules\<close>

text \<open>
  A frame that is a preorder holds of a statement when it holds of its parts. Each rule
  below is for one construct of the model, so that a frame of a whole function follows
  its text.
\<close>

lemma frame_ret: "preorder R \<Longrightarrow> frame R (ret x)"
  by (simp add: frame_def preorder_def ret_def)

lemma frame_raise: "preorder R \<Longrightarrow> frame R (raise e)"
  by (simp add: frame_def preorder_def raise_def)

lemma frame_lift: "preorder R \<Longrightarrow> frame R (lift r)"
  by (simp add: frame_def preorder_def lift_def)

lemma frame_bnd:
  assumes "preorder R" and "frame R m" and "\<And>x. frame R (f x)"
  shows "frame R (bnd m f)"
  unfolding frame_def
proof
  fix w
  obtain r w1 where m: "m w = (r, w1)" by (cases "m w")
  have 1: "R w w1" using assms(2) m by (auto simp: frame_def dest: spec[of _ w])
  show "R w (snd (bnd m f w))"
  proof (cases r)
    case (Inl e)
    then show ?thesis using m 1 by (simp add: bnd_def)
  next
    case (Inr x)
    have "R w1 (snd (f x w1))" using assms(3) by (simp add: frame_def)
    then have "R w (snd (f x w1))" using assms(1) 1 unfolding preorder_def by blast
    then show ?thesis using m Inr by (simp add: bnd_def)
  qed
qed

lemma frame_seq:
  assumes "preorder R" and "frame R m" and "frame R k"
  shows "frame R (seq m k)"
  unfolding seq_def using assms by (intro frame_bnd) auto

lemma frame_try_except:
  assumes "preorder R" and "frame R m" and "\<And>e. frame R (h e)"
  shows "frame R (try_except m h)"
  unfolding frame_def
proof
  fix w
  obtain r w1 where m: "m w = (r, w1)" by (cases "m w")
  have 1: "R w w1" using assms(2) m by (auto simp: frame_def dest: spec[of _ w])
  show "R w (snd (try_except m h w))"
  proof (cases r)
    case (Inr x)
    then show ?thesis using m 1 by (simp add: try_except_def)
  next
    case (Inl e)
    have "R w1 (snd (h e w1))" using assms(3) by (simp add: frame_def)
    then have "R w (snd (h e w1))" using assms(1) 1 unfolding preorder_def by blast
    then show ?thesis using m Inl by (simp add: try_except_def)
  qed
qed

lemma frame_try_except_ValueError_pass:
  assumes "frame R m"
  shows "frame R (try_except_ValueError_pass m)"
  unfolding frame_def
proof
  fix w
  obtain r w1 where m: "m w = (r, w1)" by (cases "m w")
  have 1: "R w w1" using assms m by (auto simp: frame_def dest: spec[of _ w])
  show "R w (snd (try_except_ValueError_pass m w))"
    using m 1 by (auto simp: try_except_ValueError_pass_def split: sum.splits exn.splits)
qed

lemma frame_and_also:
  assumes "preorder R" and "frame R a" and "frame R b"
  shows "frame R (and_also a b)"
  unfolding and_also_def using assms by (intro frame_bnd) (auto intro: frame_ret)

lemma frame_for_enumerate:
  assumes "preorder R" and "\<And>idx x acc. frame R (body idx x acc)"
  shows "frame R (for_enumerate i xs acc body)"
proof (induction xs arbitrary: i acc)
  case Nil
  show ?case using assms(1) by (simp add: frame_ret)
next
  case (Cons x xs)
  show ?case using assms Cons by (simp add: frame_bnd)
qed

lemma frame_if: "(c \<Longrightarrow> frame R a) \<Longrightarrow> (\<not> c \<Longrightarrow> frame R b) \<Longrightarrow> frame R (if c then a else b)"
  by simp

lemma frame_case_option:
  "(x = None \<Longrightarrow> frame R a) \<Longrightarrow> (\<And>y. x = Some y \<Longrightarrow> frame R (b y))
   \<Longrightarrow> frame R (case x of None \<Rightarrow> a | Some y \<Rightarrow> b y)"
  by (cases x) auto

lemma frame_case_prod:
  "(\<And>a b. p = (a, b) \<Longrightarrow> frame R (f a b)) \<Longrightarrow> frame R (case p of (a, b) \<Rightarrow> f a b)"
  by (cases p) auto

lemma frame_subscript: "preorder R \<Longrightarrow> frame R (subscript xs i)"
  by (simp add: subscript_def frame_ret frame_raise)

lemma frame_global_name: "preorder R \<Longrightarrow> frame R (global_name ns n)"
  by (simp add: global_name_def frame_ret frame_raise)

lemma frame_get_zooms: "preorder R \<Longrightarrow> frame R (get_zooms h)"
  by (simp add: frame_def preorder_def get_zooms_def)

lemma frame_Let: "frame R (f x) \<Longrightarrow> frame R (Let x f)"
  by simp

lemma frame_emit: "(\<And>w. R w (w\<lparr>trace := trace w @ [ev]\<rparr>)) \<Longrightarrow> frame R (emit ev)"
  by (simp add: frame_def emit_def)

lemma frame_os_path_isfile:
  "(\<And>w. R w (w\<lparr>trace := trace w @ [IsFile p]\<rparr>)) \<Longrightarrow> frame R (os_path_isfile p)"
  by (simp add: frame_def os_path_isfile_def)

lemma frame_load_volume:
  assumes "preorder R"
    and "\<And>w p. R w (w\<lparr>trace := trace w @ [LoadVolume p]\<rparr>)"
    and "\<And>w p h. R w (w\<lparr>heap := heap w @ [h], trace := trace w @ [LoadVolume p]\<rparr>)"
  shows "frame R (load_volume x)"
proof (cases x)
  case (Obj i)
  then show ?thesis using assms(1) by (simp add: frame_ret load_volume.simps)
next
  case (Path p)
  then show ?thesis
    using assms(2,3) by (simp add: frame_def load_volume.simps split: option.splits)
qed

lemma frame_save_volume:
  "(\<And>w v. R w (w\<lparr>files := (files w)(p \<mapsto> v), trace := trace w @ [SaveVolume p]\<rparr>))
   \<Longrightarrow> frame R (save_volume p i)"
  by (simp add: frame_def save_volume_def)

lemma frame_set_cal_min:
  "(\<And>w hs. R w (w\<lparr>heap := hs\<rparr>)) \<Longrightarrow> frame R (set_cal_min h v)"
  by (simp add: frame_def set_cal_min_def)

lemma frame_set_cal_max:
  "(\<And>w hs. R w (w\<lparr>heap := hs\<rparr>)) \<Longrightarrow> frame R (set_cal_max h v)"
  by (simp add: frame_def set_cal_max_def)

lemma frame_Nifti1Image:
  "(\<And>w hs. R w (w\<lparr>heap := hs\<rparr>)) \<Longrightarrow> frame R (Nifti1Image d a h)"
  by (simp add: frame_def Nifti1Image_def)

lemma frame_initVM:
  assumes "\<And>w. R w (w\<lparr>trace := trace w @ [InitVM a b]\<rparr>)"
    and "\<And>w. R w (w\<lparr>vm_running := True, trace := trace w @ [InitVM a b]\<rparr>)"
  shows "frame R (initVM a b)"
  using assms by (simp add: frame_def initVM_def)

lemma frame_jexecute:
  "(\<And>w. R w (w\<lparr>trace := trace w @ [Execute]\<rparr>)) \<Longrightarrow> frame R (jexecute env)"
  by (simp add: frame_def jexecute_def)

lemmas frame_rules = frame_ret frame_raise frame_lift frame_bnd frame_seq frame_try_except
  frame_try_except_ValueError_pass frame_and_also frame_for_enumerate frame_if
  frame_case_option frame_case_prod frame_subscript frame_global_name frame_get_zooms
  frame_emit frame_os_path_isfile frame_load_volume frame_save_volume frame_set_cal_min
  frame_set_cal_max frame_Nifti1Image frame_initVM frame_jexecute

lemma preorder_same_files: "preorder same_files"
  by (simp add: preorder_def same_files_def)

lemma preorder_adds_only: "preorder (adds_only P)"
  unfolding preorder_def adds_only_def new_events_def
proof (intro conjI allI impI)
  fix w show "take (length (trace w)) (trace w) = trace w" by simp
  show "list_all P (drop (length (trace w)) (trace w))" by simp
next
  fix a b c
  assume ab: "take (length (trace a)) (trace b) = trace a \<and> list_all P (drop (length (trace a)) (trace b))"
    and bc: "take (length (trace b)) (trace c) = trace b \<and> list_all P (drop (length (trace b)) (trace c))"
  obtain e1 where e1: "trace b = trace a @ e1" "list_all P e1"
    using ab by (metis append_take_drop_id)
  obtain e2 where e2: "trace c = trace b @ e2" "list_all P e2"
    using bc by (metis append_take_drop_id)
  show "take (length (trace a)) (trace c) = trace a" using e1 e2 by simp
  show "list_all P (drop (length (trace a)) (trace c))" using e1 e2 by simp
qed

lemma adds_only_simps [simp]:
  "adds_only P w (w\<lparr>trace := trace w @ evs\<rparr>) = list_all P evs"
  "adds_only P w (w\<lparr>heap := hs\<rparr>)"
  "adds_only P w (w\<lparr>heap := hs, trace := trace w @ evs\<rparr>) = list_all P evs"
  "adds_only P w (w\<lparr>vm_running := b, trace := trace w @ evs\<rparr>) = list_all P evs"
  "adds_only P w (w\<lparr>files := fs, trace := trace w @ evs\<rparr>) = list_all P evs"
  by (simp_all add: adds_only_def new_events_def)

lemma same_files_simps [simp]:
  "same_files w (w\<lparr>trace := t\<rparr>)"
  "same_files w (w\<lparr>heap := hs\<rparr>)"
  "same_files w (w\<lparr>heap := hs, trace := t\<rparr>)"
  "same_files w (w\<lparr>vm_running := b, trace := t\<rparr>)"
  by (simp_all add: same_files_def)

lemma adds_only_mono:
  "adds_only P w w' \<Longrightarrow> (\<And>e. P e \<Longrightarrow> Q e) \<Longrightarrow> adds_only Q w w'"
  unfolding adds_only_def by (auto simp: list_all_iff)


section \<open>Unfolding the four functions\<close>

lemmas flash_t2s_fitting_defs = flash_t2s_fitting_def flash_t2s_fitting_files_def
  flash_t2s_fitting_cached_def flash_t2s_fitting_compute_def flash_t2s_fitting_configure_def
  flash_t2s_fitting_collect_def

lemmas lcpca_denoising_defs = lcpca_denoising_def lcpca_denoising_files_def
  lcpca_denoising_cached_def lcpca_denoising_compute_def lcpca_denoising_configure_def
  lcpca_denoising_collect_def lcpca_denoised_loop_def lcpca_denoising_maps_def

lemmas mp2rage_t1_mapping_defs = mp2rage_t1_mapping_def mp2rage_t1_mapping_files_def
  mp2rage_t1_mapping_cached_def mp2rage_t1_mapping_compute_def mp2rage_t1_mapping_configure_def
  mp2rage_t1_mapping_collect_def

lemmas levelset_fusion_defs = levelset_fusion_def levelset_fusion_files_def
  levelset_fusion_cached_def levelset_fusion_compute_def levelset_fusion_configure_def
  levelset_fusion_collect_def

section \<open>Calls without \<open>save_data\<close>\<close>

text \<open>Without \<open>save_data\<close>, nothing is written and the cache is not consulted.\<close>

lemma quiet_simps [simp]:
  "quiet (Print s) = (s \<noteq> ''skip computation (use existing results)'')"
  "quiet (PrintExc e)" "\<not> quiet (OutputDir d)" "\<not> quiet (IsFile p)" "quiet (LoadVolume p)"
  "\<not> quiet (SaveVolume p)" "quiet (InitVM a b)" "quiet (New c)" "quiet (Call n args)"
  "quiet Execute" "quiet (Get n args)"
  by (simp_all add: quiet_def)

lemma flash_t2s_fitting_quiet:
  "frame (adds_only quiet)
     (flash_t2s_fitting env image_list te_list False overwrite output_dir file_name)"
  unfolding flash_t2s_fitting_defs wrapper_defs Let_def
  by (simp only: if_False) (intro frame_rules preorder_adds_only; simp)

lemma lcpca_denoising_quiet:
  "frame (adds_only quiet)
     (lcpca_denoising env image_list phase_list ngb_size stdev_cutoff min_dimension
        max_dimension False overwrite output_dir file_name)"
  unfolding lcpca_denoising_defs wrapper_defs Let_def
  by (simp only: if_False) (intro frame_rules preorder_adds_only; simp)

lemma mp2rage_t1_mapping_quiet:
  "frame (adds_only quiet)
     (mp2rage_t1_mapping env first_inversion second_inversion inversion_times flip_angles
        inversion_TR excitation_TR N_excitations efficiency correct_B1 B1_map
        False overwrite output_dir file_name)"
  unfolding mp2rage_t1_mapping_defs wrapper_defs Let_def
  by (simp only: if_False) (intro frame_rules preorder_adds_only; simp)

lemma levelset_fusion_quiet:
  "frame (adds_only quiet)
     (levelset_fusion env levelset_images correct_topology topology_lut_dir
        False overwrite output_dir file_name)"
  unfolding levelset_fusion_defs wrapper_defs Let_def
  by (simp only: if_False) (intro frame_rules preorder_adds_only; simp)

lemma flash_t2s_fitting_same_files:
  "frame same_files
     (flash_t2s_fitting env image_list te_list False overwrite output_dir file_name)"
  unfolding flash_t2s_fitting_defs wrapper_defs Let_def
  by (simp only: if_False) (intro frame_rules preorder_same_files; simp)

lemma lcpca_denoising_same_files:
  "frame same_files
     (lcpca_denoising env image_list phase_list ngb_size stdev_cutoff min_dimension
        max_dimension False overwrite output_dir file_name)"
  unfolding lcpca_denoising_defs wrapper_defs Let_def
  by (simp only: if_False) (intro frame_rules preorder_same_files; simp)

lemma mp2rage_t1_mapping_same_files:
  "frame same_files
     (mp2rage_t1_mapping env first_inversion second_inversion inversion_times flip_angles
        inversion_TR excitation_TR N_excitations efficiency correct_B1 B1_map
        False overwrite output_dir file_name)"
  unfolding mp2rage_t1_mapping_defs wrapper_defs Let_def
  by (simp only: if_False) (intro frame_rules preorder_same_files; simp)

lemma levelset_fusion_same_files:
  "frame same_files
     (levelset_fusion env levelset_images correct_topology topology_lut_dir
        False overwrite output_dir file_name)"
  unfolding levelset_fusion_defs wrapper_defs Let_def
  by (simp only: if_False) (intro frame_rules preorder_same_files; simp)

lemma run_quiet: "\<not> save_data_of c \<Longrightarrow> frame (adds_only quiet) (run env c)"
  by (cases c)
    (simp_all add: flash_t2s_fitting_quiet lcpca_denoising_quiet mp2rage_t1_mapping_quiet
      levelset_fusion_quiet)

lemma run_same_files: "\<not> save_data_of c \<Longrightarrow> frame same_files (run env c)"
  by (cases c)
    (simp_all add: flash_t2s_fitting_same_files lcpca_denoising_same_files
      mp2rage_t1_mapping_same_files levelset_fusion_same_files)

lemma run_ignores_overwrite:
  "\<not> save_data_of c \<Longrightarrow> run env (with_overwrite b c) = run env c"
  by (cases c)
    (simp_all add: flash_t2s_fitting_def lcpca_denoising_def mp2rage_t1_mapping_def
      levelset_fusion_def)

section \<open>The native object is created\<close>

text \<open>
  Every computation block starts the virtual machine and creates its native object before
  anything can fail.
\<close>

lemma new_events_append:
  assumes "trace w1 = trace w @ pre" and "adds_only P w1 w2"
  shows "new_events w w2 = pre @ new_events w1 w2"
proof -
  obtain evs where "trace w2 = trace w1 @ evs"
    using assms(2) unfolding adds_only_def by (metis append_take_drop_id)
  then show ?thesis using assms(1) by (simp add: new_events_def)
qed

lemma bnd_seq_assoc: "bnd (seq m k) f = seq m (bnd k f)"
  by (auto simp: bnd_def seq_def fun_eq_iff split: prod.splits sum.splits)

lemma always_emits_New:
  assumes "frame (adds_only (\<lambda>_. True)) k"
  shows "always_emits (New c) (seq (try_except_ValueError_pass (initVM a b)) (seq (jnew c) k))"
  unfolding always_emits_def
proof
  fix w :: world
  let ?w2 = "w\<lparr>vm_running := True, trace := trace w @ [InitVM a b, New c]\<rparr>"
  have run: "seq (try_except_ValueError_pass (initVM a b)) (seq (jnew c) k) w = k ?w2"
    by (simp add: seq_def bnd_def try_initVM jnew_def emit_def)
  have "adds_only (\<lambda>_. True) ?w2 (snd (k ?w2))" using assms by (simp add: frame_def)
  then have "new_events w (snd (k ?w2)) = [InitVM a b, New c] @ new_events ?w2 (snd (k ?w2))"
    by (intro new_events_append) simp_all
  then show "New c \<in> set (new_events w (snd (seq (try_except_ValueError_pass (initVM a b))
      (seq (jnew c) k) w)))"
    using run by simp
qed

lemma always_emits_after:
  assumes "trace w1 = trace w @ pre" and "always_emits ev m" and "frame (adds_only (\<lambda>_. True)) m"
  shows "ev \<in> set (new_events w (snd (m w1)))"
proof -
  have "adds_only (\<lambda>_. True) w1 (snd (m w1))" using assms(3) by (simp add: frame_def)
  then have "new_events w (snd (m w1)) = pre @ new_events w1 (snd (m w1))"
    using assms(1) by (intro new_events_append)
  then show ?thesis using assms(2) by (simp add: always_emits_def)
qed

lemma flash_t2s_fitting_compute_grows:
  "frame (adds_only (\<lambda>_. True)) (flash_t2s_fitting_compute env image_list te_list save_data fs)"
  unfolding flash_t2s_fitting_defs wrapper_defs Let_def
  by (intro frame_rules preorder_adds_only; simp)

lemma flash_t2s_fitting_compute_New:
  "always_emits (New ''IntensityFlashT2sFitting'')
     (flash_t2s_fitting_compute env image_list te_list save_data fs)"
  unfolding flash_t2s_fitting_compute_def flash_t2s_fitting_configure_def bnd_seq_assoc
  by (rule always_emits_New) (unfold flash_t2s_fitting_defs wrapper_defs Let_def,
      intro frame_rules preorder_adds_only; simp)

lemma lcpca_denoising_compute_grows:
  "frame (adds_only (\<lambda>_. True)) (lcpca_denoising_compute env image_list phase_list ngb_size
     stdev_cutoff min_dimension max_dimension save_data fs)"
  unfolding lcpca_denoising_defs wrapper_defs Let_def
  by (intro frame_rules preorder_adds_only; simp)

lemma lcpca_denoising_compute_New:
  "always_emits (New ''IntensityComplexPCADenoising'')
     (lcpca_denoising_compute env image_list phase_list ngb_size stdev_cutoff min_dimension
        max_dimension save_data fs)"
  unfolding lcpca_denoising_compute_def
  by (rule always_emits_New) (unfold lcpca_denoising_defs wrapper_defs Let_def,
      intro frame_rules preorder_adds_only; simp)

lemma mp2rage_t1_mapping_compute_grows:
  "frame (adds_only (\<lambda>_. True)) (mp2rage_t1_mapping_compute env first_inversion
     second_inversion inversion_times flip_angles inversion_TR excitation_TR N_excitations
     efficiency correct_B1 B1_map save_data fs)"
  unfolding mp2rage_t1_mapping_defs wrapper_defs Let_def
  by (intro frame_rules preorder_adds_only; simp)

lemma mp2rage_t1_mapping_compute_New:
  "always_emits (New ''IntensityMp2rageT1Fitting'')
     (mp2rage_t1_mapping_compute env first_inversion second_inversion inversion_times
        flip_angles inversion_TR excitation_TR N_excitations efficiency correct_B1 B1_map
        save_data fs)"
  unfolding mp2rage_t1_mapping_compute_def mp2rage_t1_mapping_configure_def bnd_seq_assoc
  by (rule always_emits_New) (unfold mp2rage_t1_mapping_defs wrapper_defs Let_def,
      intro frame_rules preorder_adds_only; simp)

lemma levelset_fusion_compute_grows:
  "frame (adds_only (\<lambda>_. True)) (levelset_fusion_compute env levelset_images
     correct_topology topology_lut_dir save_data fs)"
  unfolding levelset_fusion_defs wrapper_defs Let_def
  by (intro frame_rules preorder_adds_only; simp)

lemma levelset_fusion_compute_New:
  "always_emits (New ''ShapeLevelsetFusion'')
     (levelset_fusion_compute env levelset_images correct_topology topology_lut_dir
        save_data fs)"
  unfolding levelset_fusion_compute_def levelset_fusion_configure_def bnd_seq_assoc
  by (rule always_emits_New) (unfold levelset_fusion_defs wrapper_defs Let_def,
      intro frame_rules preorder_adds_only; simp)

lemma run_New_without_save_data:
  assumes "\<not> save_data_of c" and "topology_dir_accepted env c"
  shows "New (native_class c) \<in> set (new_events w (snd (run env c w)))"
proof (cases c)
  case (FlashT2sFitting il te sd ow od fn)
  have "run env c w = flash_t2s_fitting_compute env il te False None
      (w\<lparr>trace := trace w @ [Print (CHR 0x0A # ''T2* Fitting'')]\<rparr>)"
    using assms FlashT2sFitting by (simp add: flash_t2s_fitting_def seq_def bnd_def print_def emit_def)
  then show ?thesis
    using FlashT2sFitting
      always_emits_after[OF _ flash_t2s_fitting_compute_New flash_t2s_fitting_compute_grows,
        of _ w "[Print (CHR 0x0A # ''T2* Fitting'')]"]
    by simp
next
  case (LcpcaDenoising il pl n sc mn mx sd ow od fn)
  have "run env c w = lcpca_denoising_compute env il pl n sc mn mx False None
      (w\<lparr>trace := trace w @ [Print (CHR 0x0A # ''LCPCA denoising'')]\<rparr>)"
    using assms LcpcaDenoising by (simp add: lcpca_denoising_def seq_def bnd_def print_def emit_def)
  then show ?thesis
    using LcpcaDenoising
      always_emits_after[OF _ lcpca_denoising_compute_New lcpca_denoising_compute_grows,
        of _ w "[Print (CHR 0x0A # ''LCPCA denoising'')]"]
    by simp
next
  case (Mp2rageT1Mapping fi si it fa tr etr ne eff cb b1 sd ow od fn)
  have "run env c w = mp2rage_t1_mapping_compute env fi si it fa tr etr ne eff cb b1 False None
      (w\<lparr>trace := trace w @ [Print (CHR 0x0A # ''T1 Mapping'')]\<rparr>)"
    using assms Mp2rageT1Mapping
    by (simp add: mp2rage_t1_mapping_def seq_def bnd_def print_def emit_def)
  then show ?thesis
    using Mp2rageT1Mapping
      always_emits_after[OF _ mp2rage_t1_mapping_compute_New mp2rage_t1_mapping_compute_grows,
        of _ w "[Print (CHR 0x0A # ''T1 Mapping'')]"]
    by simp
next
  case (LevelsetFusion ls ct tld sd ow od fn)
  obtain d where d: "check_topology_lut_dir env tld = Inr d"
    using assms(2) LevelsetFusion by (auto split: sum.splits)
  have "run env c w = levelset_fusion_compute env ls ct d False None
      (w\<lparr>trace := trace w @ [Print (CHR 0x0A # ''Levelset Shape Fusion'')]\<rparr>)"
    using assms LevelsetFusion d
    by (simp add: levelset_fusion_def seq_def bnd_def print_def emit_def lift_def)
  then show ?thesis
    using LevelsetFusion
      always_emits_after[OF _ levelset_fusion_compute_New levelset_fusion_compute_grows,
        of _ w "[Print (CHR 0x0A # ''Levelset Shape Fusion'')]"]
    by simp
qed


section \<open>The file names do not depend on the world\<close>

lemma world_trace_nil [simp]: "(w :: world)\<lparr>trace := trace w @ []\<rparr> = w"
  by simp

lemma pure_io_ret: "pure_io (ret x)"
  unfolding pure_io_def ret_def by (intro exI[of _ "Inr x"] exI[of _ "[]"]) simp

lemma pure_io_raise: "pure_io (raise e)"
  unfolding pure_io_def raise_def by (intro exI[of _ "Inl e"] exI[of _ "[]"]) simp

lemma pure_io_lift: "pure_io (lift r)"
  unfolding pure_io_def lift_def by (intro exI[of _ r] exI[of _ "[]"]) simp

lemma pure_io_emit: "pure_io (emit ev)"
  unfolding pure_io_def emit_def by (intro exI[of _ "Inr ()"] exI[of _ "[ev]"]) simp

lemma pure_io_subscript: "pure_io (subscript xs i)"
  by (simp add: subscript_def pure_io_ret pure_io_raise)

lemma pure_io_bnd:
  assumes "pure_io m" and "\<And>x. pure_io (f x)"
  shows "pure_io (bnd m f)"
proof -
  obtain r evs where m: "\<And>w. m w = (r, w\<lparr>trace := trace w @ evs\<rparr>)"
    using assms(1) unfolding pure_io_def by blast
  show ?thesis
  proof (cases r)
    case (Inl e)
    then have "\<forall>w. bnd m f w = (Inl e, w\<lparr>trace := trace w @ evs\<rparr>)"
      by (simp add: bnd_def m)
    then show ?thesis unfolding pure_io_def by blast
  next
    case (Inr x)
    obtain r' evs' where f: "\<And>w. f x w = (r', w\<lparr>trace := trace w @ evs'\<rparr>)"
      using assms(2)[of x] unfolding pure_io_def by blast
    have "\<forall>w. bnd m f w = (r', w\<lparr>trace := trace w @ (evs @ evs')\<rparr>)"
      by (simp add: bnd_def m Inr f)
    then show ?thesis unfolding pure_io_def by blast
  qed
qed

lemma pure_io_seq: "pure_io m \<Longrightarrow> pure_io k \<Longrightarrow> pure_io (seq m k)"
  unfolding seq_def by (rule pure_io_bnd)

lemma pure_io_for_enumerate:
  assumes "\<And>idx x acc. pure_io (body idx x acc)"
  shows "pure_io (for_enumerate i xs acc body)"
proof (induction xs arbitrary: i acc)
  case Nil
  show ?case by (simp add: pure_io_ret)
next
  case (Cons x xs)
  show ?case using assms Cons by (simp add: pure_io_bnd)
qed

lemma pure_io_case_option:
  "pure_io a \<Longrightarrow> (\<And>y. pure_io (b y)) \<Longrightarrow> pure_io (case x of None \<Rightarrow> a | Some y \<Rightarrow> b y)"
  by (cases x) auto

lemmas pure_io_rules = pure_io_ret pure_io_raise pure_io_lift pure_io_emit pure_io_subscript
  pure_io_bnd pure_io_seq pure_io_for_enumerate pure_io_case_option

lemma pure_io_moves:
  assumes "pure_io m" and "m w = (r, w1)"
  shows "\<exists>evs. w1 = w\<lparr>trace := trace w @ evs\<rparr> \<and> (\<forall>v. m v = (r, v\<lparr>trace := trace v @ evs\<rparr>))"
  using assms unfolding pure_io_def by (metis prod.inject)

lemma flash_t2s_fitting_files_pure:
  "pure_io (flash_t2s_fitting_files env image_list output_dir file_name)"
  unfolding flash_t2s_fitting_files_def wrapper_defs by (intro pure_io_rules)

lemma lcpca_denoising_files_pure:
  "pure_io (lcpca_denoising_files env image_list phase_list output_dir file_name)"
  unfolding lcpca_denoising_files_def wrapper_defs by (intro pure_io_rules)

lemma mp2rage_t1_mapping_files_pure:
  "pure_io (mp2rage_t1_mapping_files env first_inversion output_dir file_name)"
  unfolding mp2rage_t1_mapping_files_def wrapper_defs by (intro pure_io_rules)

lemma levelset_fusion_files_pure:
  "pure_io (levelset_fusion_files env levelset_images output_dir file_name)"
  unfolding levelset_fusion_files_def wrapper_defs by (intro pure_io_rules)

section \<open>A cache hit\<close>

lemma volume_of_heap_append:
  "img_hdr i < length (heap w) \<Longrightarrow> heap w' = heap w @ hs \<Longrightarrow> volume_of w' i = volume_of w i"
  by (simp add: volume_of_def nth_append)

text \<open>The probing loop of \<open>lcpca_denoising\<close> looks at every file.\<close>

lemma lcpca_probe_loop:
  "for_enumerate i ps acc (\<lambda>_ den_file missing.
      bnd (os_path_isfile den_file) (\<lambda>there. ret (if \<not> there then True else missing))) w
   = (Inr (acc \<or> \<not> list_all (\<lambda>p. files w p \<noteq> None) ps), w\<lparr>trace := trace w @ map IsFile ps\<rparr>)"
proof (induction ps arbitrary: i acc w)
  case Nil
  show ?case by (simp add: io_app)
next
  case (Cons p ps)
  show ?case by (auto simp: Cons io_app)
qed

text \<open>The loading loop of \<open>lcpca_denoising\<close>, when every file is there.\<close>

lemma lcpca_load_loop:
  assumes "list_all (\<lambda>p. files w p \<noteq> None) ps"
  shows "\<exists>imgs hs. for_enumerate i ps acc (\<lambda>_ den_file denoised.
      bnd (load_volume (Path den_file)) (\<lambda>i. ret (denoised @ [i]))) w
     = (Inr (acc @ imgs), w\<lparr>heap := heap w @ hs, trace := trace w @ map LoadVolume ps\<rparr>)
     \<and> map (\<lambda>i. Some (volume_of (w\<lparr>heap := heap w @ hs\<rparr>) i)) imgs = map (files w) ps
     \<and> list_all (\<lambda>i. img_hdr i < length (heap w @ hs)) imgs"
  using assms
proof (induction ps arbitrary: i acc w)
  case Nil
  show ?case
    by (rule exI[of _ "[]"], rule exI[of _ "[]"]) (simp add: io_app)
next
  case (Cons p ps)
  obtain v where v: "files w p = Some v" using Cons.prems by auto
  let ?i = "\<lparr>img_data = vol_data v, img_affine = vol_affine v, img_hdr = length (heap w)\<rparr>"
  let ?w1 = "w\<lparr>heap := heap w @ [vol_header v], trace := trace w @ [LoadVolume p]\<rparr>"
  have "list_all (\<lambda>p. files ?w1 p \<noteq> None) ps" using Cons.prems by simp
  from Cons.IH[OF this, of "Suc i" "acc @ [?i]"] obtain imgs hs where
    loop: "for_enumerate (Suc i) ps (acc @ [?i]) (\<lambda>_ den_file denoised.
      bnd (load_volume (Path den_file)) (\<lambda>i. ret (denoised @ [i]))) ?w1
     = (Inr ((acc @ [?i]) @ imgs),
        ?w1\<lparr>heap := heap ?w1 @ hs, trace := trace ?w1 @ map LoadVolume ps\<rparr>)"
    and vols: "map (\<lambda>i. Some (volume_of (?w1\<lparr>heap := heap ?w1 @ hs\<rparr>) i)) imgs = map (files ?w1) ps"
    and inb: "list_all (\<lambda>i. img_hdr i < length (heap ?w1 @ hs)) imgs"
    by blast
  have step: "for_enumerate i (p # ps) acc (\<lambda>_ den_file denoised.
      bnd (load_volume (Path den_file)) (\<lambda>i. ret (denoised @ [i]))) w
     = (Inr (acc @ (?i # imgs)),
        w\<lparr>heap := heap w @ (vol_header v # hs), trace := trace w @ map LoadVolume (p # ps)\<rparr>)"
    using loop by (simp add: io_app v)
  have hd: "Some (volume_of (w\<lparr>heap := heap w @ (vol_header v # hs)\<rparr>) ?i) = files w p"
    by (simp add: volume_of_def v nth_append)
  have tl: "map (\<lambda>i. Some (volume_of (w\<lparr>heap := heap w @ (vol_header v # hs)\<rparr>) i)) imgs
      = map (files w) ps"
    using vols by (simp add: volume_of_def)
  show ?case
    apply (rule exI[of _ "?i # imgs"])
    apply (rule exI[of _ "vol_header v # hs"])
    using step hd tl inb by simp
qed

lemma flash_t2s_fitting_cached_hit:
  assumes "list_all (\<lambda>p. files w p \<noteq> None) [a, b, c, d]"
  shows "\<exists>out w'. flash_t2s_fitting_cached False (a, b, c, d) w = (Inr (Some out), w')
    \<and> map (\<lambda>i. Some (volume_of w' i)) (images_of out) = map (files w) [a, b, c, d]
    \<and> adds_only (\<lambda>e. \<not> is_native e) w w' \<and> same_files w w'"
proof -
  obtain va vb vc vd where v: "files w a = Some va" "files w b = Some vb" "files w c = Some vc"
      "files w d = Some vd"
    using assms by auto
  obtain out w' where run: "flash_t2s_fitting_cached False (a, b, c, d) w = (Inr (Some out), w')"
    and out: "out = [(''t2s'', Img \<lparr>img_data = vol_data va, img_affine = vol_affine va,
          img_hdr = length (heap w)\<rparr>),
        (''r2s'', Img \<lparr>img_data = vol_data vb, img_affine = vol_affine vb,
          img_hdr = Suc (length (heap w))\<rparr>),
        (''s0'', Img \<lparr>img_data = vol_data vc, img_affine = vol_affine vc,
          img_hdr = Suc (Suc (length (heap w)))\<rparr>),
        (''residuals'', Img \<lparr>img_data = vol_data vd, img_affine = vol_affine vd,
          img_hdr = Suc (Suc (Suc (length (heap w))))\<rparr>)]"
    and w': "w' = w\<lparr>heap := heap w @ [vol_header va, vol_header vb, vol_header vc, vol_header vd],
        trace := trace w @ [IsFile a, IsFile b, IsFile c, IsFile d,
          Print ''skip computation (use existing results)'',
          LoadVolume a, LoadVolume b, LoadVolume c, LoadVolume d]\<rparr>"
    by (simp add: flash_t2s_fitting_cached_def io_app v)
  have "map (\<lambda>i. Some (volume_of w' i)) (images_of out) = map (files w) [a, b, c, d]"
    by (simp add: out w' images_of_def volume_of_def nth_append v)
  moreover have "adds_only (\<lambda>e. \<not> is_native e) w w'" by (simp add: w')
  moreover have "same_files w w'" by (simp add: w' same_files_def)
  ultimately show ?thesis using run by blast
qed

lemma mp2rage_t1_mapping_cached_hit:
  assumes "list_all (\<lambda>p. files w p \<noteq> None) [a, b, c]"
  shows "\<exists>out w'. mp2rage_t1_mapping_cached False (a, b, c) w = (Inr (Some out), w')
    \<and> map (\<lambda>i. Some (volume_of w' i)) (images_of out) = map (files w) [a, b, c]
    \<and> adds_only (\<lambda>e. \<not> is_native e) w w' \<and> same_files w w'"
proof -
  obtain va vb vc where v: "files w a = Some va" "files w b = Some vb" "files w c = Some vc"
    using assms by auto
  obtain out w' where run: "mp2rage_t1_mapping_cached False (a, b, c) w = (Inr (Some out), w')"
    and out: "out = [(''t1'', Img \<lparr>img_data = vol_data va, img_affine = vol_affine va,
          img_hdr = length (heap w)\<rparr>),
        (''r1'', Img \<lparr>img_data = vol_data vb, img_affine = vol_affine vb,
          img_hdr = Suc (length (heap w))\<rparr>),
        (''uni'', Img \<lparr>img_data = vol_data vc, img_affine = vol_affine vc,
          img_hdr = Suc (Suc (length (heap w)))\<rparr>)]"
    and w': "w' = w\<lparr>heap := heap w @ [vol_header va, vol_header vb, vol_header vc],
        trace := trace w @ [IsFile a, IsFile b, IsFile c,
          Print ''skip computation (use existing results)'',
          LoadVolume a, LoadVolume b, LoadVolume c]\<rparr>"
    by (simp add: mp2rage_t1_mapping_cached_def io_app v)
  have "map (\<lambda>i. Some (volume_of w' i)) (images_of out) = map (files w) [a, b, c]"
    by (simp add: out w' images_of_def volume_of_def nth_append v)
  moreover have "adds_only (\<lambda>e. \<not> is_native e) w w'" by (simp add: w')
  moreover have "same_files w w'" by (simp add: w' same_files_def)
  ultimately show ?thesis using run by blast
qed

lemma levelset_fusion_cached_hit:
  assumes "list_all (\<lambda>p. files w p \<noteq> None) [a]"
  shows "\<exists>out w'. levelset_fusion_cached False a w = (Inr (Some out), w')
    \<and> map (\<lambda>i. Some (volume_of w' i)) (images_of out) = map (files w) [a]
    \<and> adds_only (\<lambda>e. \<not> is_native e) w w' \<and> same_files w w'"
proof -
  obtain va where v: "files w a = Some va"
    using assms by auto
  obtain out w' where run: "levelset_fusion_cached False a w = (Inr (Some out), w')"
    and out: "out = [(''result'', Img \<lparr>img_data = vol_data va, img_affine = vol_affine va,
          img_hdr = length (heap w)\<rparr>)]"
    and w': "w' = w\<lparr>heap := heap w @ [vol_header va],
        trace := trace w @ [Print (''output file: '' @ a), IsFile a,
          Print ''skip computation (use existing results)'', LoadVolume a]\<rparr>"
    by (simp add: levelset_fusion_cached_def io_app v)
  have "map (\<lambda>i. Some (volume_of w' i)) (images_of out) = map (files w) [a]"
    by (simp add: out w' images_of_def volume_of_def nth_append v)
  moreover have "adds_only (\<lambda>e. \<not> is_native e) w w'" by (simp add: w')
  moreover have "same_files w w'" by (simp add: w' same_files_def)
  ultimately show ?thesis using run by blast
qed

lemma lcpca_denoising_cached_hit:
  assumes "list_all (\<lambda>p. files w p \<noteq> None) (dens @ [dimf, errf])"
  shows "\<exists>out w'. lcpca_denoising_cached False (dens, dimf, errf) w = (Inr (Some out), w')
    \<and> map (\<lambda>i. Some (volume_of w' i)) (images_of out) = map (files w) (dens @ [dimf, errf])
    \<and> adds_only (\<lambda>e. \<not> is_native e) w w' \<and> same_files w w'"
proof -
  obtain vd ve where vd: "files w dimf = Some vd" and ve: "files w errf = Some ve"
    using assms by auto
  have all: "list_all (\<lambda>p. files w p \<noteq> None) dens" using assms by simp
  let ?w1 = "w\<lparr>trace := trace w @ [IsFile dimf, IsFile errf] @ map IsFile dens
      @ [Print ''skip computation (use existing results)'']\<rparr>"
  have all1: "list_all (\<lambda>p. files ?w1 p \<noteq> None) dens" using all by simp
  from lcpca_load_loop[OF all1, of 0 "[]"] obtain imgs hs where
    loop: "for_enumerate 0 dens [] (\<lambda>_ den_file denoised.
      bnd (load_volume (Path den_file)) (\<lambda>i. ret (denoised @ [i]))) ?w1
     = (Inr imgs, ?w1\<lparr>heap := heap ?w1 @ hs, trace := trace ?w1 @ map LoadVolume dens\<rparr>)"
    and vols: "map (\<lambda>i. Some (volume_of (?w1\<lparr>heap := heap ?w1 @ hs\<rparr>) i)) imgs
        = map (files ?w1) dens"
    and inb: "list_all (\<lambda>i. img_hdr i < length (heap ?w1 @ hs)) imgs"
    by auto
  let ?di = "\<lparr>img_data = vol_data vd, img_affine = vol_affine vd, img_hdr = length (heap w @ hs)\<rparr>"
  let ?ei = "\<lparr>img_data = vol_data ve, img_affine = vol_affine ve,
      img_hdr = Suc (length (heap w @ hs))\<rparr>"
  let ?w' = "w\<lparr>heap := heap w @ hs @ [vol_header vd, vol_header ve],
      trace := trace w @ [IsFile dimf, IsFile errf] @ map IsFile dens
        @ [Print ''skip computation (use existing results)''] @ map LoadVolume dens
        @ [LoadVolume dimf, LoadVolume errf]\<rparr>"
  have run: "lcpca_denoising_cached False (dens, dimf, errf) w
      = (Inr (Some [(''denoised'', ImgList imgs), (''dimensions'', Img ?di),
           (''residuals'', Img ?ei)]), ?w')"
    using all loop
    by (simp add: lcpca_denoising_cached_def io_app vd ve lcpca_probe_loop)
  have "map (\<lambda>i. Some (volume_of ?w' i)) imgs = map (files w) dens"
  proof -
    have "map (\<lambda>i. Some (volume_of ?w' i)) imgs
        = map (\<lambda>i. Some (volume_of (?w1\<lparr>heap := heap ?w1 @ hs\<rparr>) i)) imgs"
      using inb by (intro map_cong) (auto simp: volume_of_def nth_append list_all_iff)
    also have "\<dots> = map (files w) dens" using vols by simp
    finally show ?thesis .
  qed
  then have "map (\<lambda>i. Some (volume_of ?w' i))
      (images_of [(''denoised'', ImgList imgs), (''dimensions'', Img ?di), (''residuals'', Img ?ei)])
      = map (files w) (dens @ [dimf, errf])"
    by (simp add: images_of_def volume_of_def nth_append vd ve)
  moreover have "adds_only (\<lambda>e. \<not> is_native e) w ?w'"
    by (auto simp: list_all_iff)
  moreover have "same_files w ?w'" by (simp add: same_files_def)
  ultimately show ?thesis using run by blast
qed

section \<open>Probing a file leaves no mark\<close>

text \<open>
  No statement of the model can tell two worlds apart that differ only in the probes
  recorded in the trace; so a computation block does the same after any cache test.
\<close>

lemma unprobed_append [simp]: "unprobed (xs @ ys) = unprobed xs @ unprobed ys"
  by (simp add: unprobed_def)

lemma unprobed_simps [simp]:
  "unprobed [] = []"
  "unprobed (IsFile p # evs) = unprobed evs"
  "unprobed (Print s # evs) = Print s # unprobed evs"
  "unprobed (LoadVolume p # evs) = LoadVolume p # unprobed evs"
  "unprobed (SaveVolume p # evs) = SaveVolume p # unprobed evs"
  "unprobed (InitVM a b # evs) = InitVM a b # unprobed evs"
  "unprobed (Execute # evs) = Execute # unprobed evs"
  by (simp_all add: unprobed_def)

lemma unprobed_snoc: "unprobed xs = unprobed ys \<Longrightarrow> unprobed (xs @ [e]) = unprobed (ys @ [e])"
  by simp

lemma native_unprobed: "filter is_native (unprobed evs) = filter is_native evs"
  unfolding unprobed_def filter_filter
  by (rule filter_cong) (auto split: event.splits)

lemma same_but_probes_native:
  "same_but_probes w v \<Longrightarrow> filter is_native (trace w) = filter is_native (trace v)"
  by (metis native_unprobed same_but_probes_def)

lemma same_but_probes_refl: "same_but_probes w w"
  by (simp add: same_but_probes_def)

lemma probe_blind_ret: "probe_blind (ret x)"
  by (simp add: probe_blind_def ret_def)

lemma probe_blind_raise: "probe_blind (raise e)"
  by (simp add: probe_blind_def raise_def)

lemma probe_blind_lift: "probe_blind (lift r)"
  by (simp add: probe_blind_def lift_def)

lemma probe_blind_bnd:
  assumes "probe_blind m" and "\<And>x. probe_blind (f x)"
  shows "probe_blind (bnd m f)"
  unfolding probe_blind_def
proof (intro allI impI)
  fix w v assume s: "same_but_probes w v"
  obtain r w1 where mw: "m w = (r, w1)" by (cases "m w")
  obtain r' v1 where mv: "m v = (r', v1)" by (cases "m v")
  have rr: "r' = r" and s1: "same_but_probes w1 v1"
    using assms(1) s mw mv unfolding probe_blind_def by (metis fst_conv, metis snd_conv)
  show "fst (bnd m f w) = fst (bnd m f v)
      \<and> same_but_probes (snd (bnd m f w)) (snd (bnd m f v))"
  proof (cases r)
    case (Inl e)
    then show ?thesis using mw mv rr s1 by (simp add: bnd_def)
  next
    case (Inr x)
    then show ?thesis
      using mw mv rr s1 assms(2)[of x] unfolding probe_blind_def by (simp add: bnd_def)
  qed
qed

lemma probe_blind_seq: "probe_blind m \<Longrightarrow> probe_blind k \<Longrightarrow> probe_blind (seq m k)"
  unfolding seq_def by (rule probe_blind_bnd)

lemma probe_blind_try_except:
  assumes "probe_blind m" and "\<And>e. probe_blind (h e)"
  shows "probe_blind (try_except m h)"
  unfolding probe_blind_def
proof (intro allI impI)
  fix w v assume s: "same_but_probes w v"
  obtain r w1 where mw: "m w = (r, w1)" by (cases "m w")
  obtain r' v1 where mv: "m v = (r', v1)" by (cases "m v")
  have rr: "r' = r" and s1: "same_but_probes w1 v1"
    using assms(1) s mw mv unfolding probe_blind_def by (metis fst_conv, metis snd_conv)
  show "fst (try_except m h w) = fst (try_except m h v)
      \<and> same_but_probes (snd (try_except m h w)) (snd (try_except m h v))"
  proof (cases r)
    case (Inr x)
    then show ?thesis using mw mv rr s1 by (simp add: try_except_def)
  next
    case (Inl e)
    then show ?thesis
      using mw mv rr s1 assms(2)[of e] unfolding probe_blind_def by (simp add: try_except_def)
  qed
qed

lemma probe_blind_try_initVM: "probe_blind (try_except_ValueError_pass (initVM a b))"
  unfolding probe_blind_def by (simp add: try_initVM same_but_probes_def)

lemma probe_blind_and_also: "probe_blind a \<Longrightarrow> probe_blind b \<Longrightarrow> probe_blind (and_also a b)"
  unfolding and_also_def by (intro probe_blind_bnd) (auto intro: probe_blind_ret)

lemma probe_blind_for_enumerate:
  assumes "\<And>idx x acc. probe_blind (body idx x acc)"
  shows "probe_blind (for_enumerate i xs acc body)"
proof (induction xs arbitrary: i acc)
  case Nil
  show ?case by (simp add: probe_blind_ret)
next
  case (Cons x xs)
  show ?case using assms Cons by (simp add: probe_blind_bnd)
qed

lemma probe_blind_if:
  "(c \<Longrightarrow> probe_blind a) \<Longrightarrow> (\<not> c \<Longrightarrow> probe_blind b) \<Longrightarrow> probe_blind (if c then a else b)"
  by simp

lemma probe_blind_case_option:
  "(x = None \<Longrightarrow> probe_blind a) \<Longrightarrow> (\<And>y. x = Some y \<Longrightarrow> probe_blind (b y))
   \<Longrightarrow> probe_blind (case x of None \<Rightarrow> a | Some y \<Rightarrow> b y)"
  by (cases x) auto

lemma probe_blind_case_prod:
  "(\<And>a b. p = (a, b) \<Longrightarrow> probe_blind (f a b)) \<Longrightarrow> probe_blind (case p of (a, b) \<Rightarrow> f a b)"
  by (cases p) auto

lemma probe_blind_subscript: "probe_blind (subscript xs i)"
  by (simp add: subscript_def probe_blind_ret probe_blind_raise)

lemma probe_blind_global_name: "probe_blind (global_name ns n)"
  by (simp add: global_name_def probe_blind_ret probe_blind_raise)

lemma probe_blind_get_zooms: "probe_blind (get_zooms h)"
  by (simp add: probe_blind_def get_zooms_app same_but_probes_def)

lemma probe_blind_emit: "probe_blind (emit ev)"
  by (simp add: probe_blind_def emit_app same_but_probes_def)

lemma probe_blind_os_path_isfile: "probe_blind (os_path_isfile p)"
  by (simp add: probe_blind_def os_path_isfile_app same_but_probes_def)

lemma probe_blind_load_volume: "probe_blind (load_volume x)"
proof (cases x)
  case (Obj i)
  then show ?thesis by (simp add: probe_blind_def load_volume_Obj_app)
next
  case (Path p)
  then show ?thesis
    by (simp add: probe_blind_def load_volume_Path_app same_but_probes_def split: option.splits)
qed

lemma probe_blind_save_volume: "probe_blind (save_volume p i)"
  by (simp add: probe_blind_def save_volume_app same_but_probes_def volume_of_def)

lemma probe_blind_set_cal_min: "probe_blind (set_cal_min h x)"
  by (simp add: probe_blind_def set_cal_min_app same_but_probes_def)

lemma probe_blind_set_cal_max: "probe_blind (set_cal_max h x)"
  by (simp add: probe_blind_def set_cal_max_app same_but_probes_def)

lemma probe_blind_Nifti1Image: "probe_blind (Nifti1Image d a h)"
  by (simp add: probe_blind_def Nifti1Image_app same_but_probes_def)

lemma probe_blind_jexecute: "probe_blind (jexecute env)"
  unfolding probe_blind_def
proof (intro allI impI)
  fix w v assume s: "same_but_probes w v"
  have "filter is_native (trace w) = filter is_native (trace v)"
    using s by (rule same_but_probes_native)
  then show "fst (jexecute env w) = fst (jexecute env v)
      \<and> same_but_probes (snd (jexecute env w)) (snd (jexecute env v))"
    using s by (simp add: jexecute_app same_but_probes_def)
qed

lemmas probe_blind_rules = probe_blind_ret probe_blind_raise probe_blind_lift probe_blind_bnd
  probe_blind_seq probe_blind_try_except probe_blind_try_initVM probe_blind_and_also
  probe_blind_for_enumerate probe_blind_if probe_blind_case_option probe_blind_case_prod
  probe_blind_subscript probe_blind_global_name probe_blind_get_zooms probe_blind_emit
  probe_blind_os_path_isfile probe_blind_load_volume probe_blind_save_volume
  probe_blind_set_cal_min probe_blind_set_cal_max probe_blind_Nifti1Image probe_blind_jexecute

lemma flash_t2s_fitting_compute_blind:
  "probe_blind (flash_t2s_fitting_compute env image_list te_list save_data fs)"
  unfolding flash_t2s_fitting_defs wrapper_defs Let_def by (intro probe_blind_rules)

lemma lcpca_denoising_compute_blind:
  "probe_blind (lcpca_denoising_compute env image_list phase_list ngb_size stdev_cutoff
     min_dimension max_dimension save_data fs)"
  unfolding lcpca_denoising_defs wrapper_defs Let_def by (intro probe_blind_rules)

lemma mp2rage_t1_mapping_compute_blind:
  "probe_blind (mp2rage_t1_mapping_compute env first_inversion second_inversion inversion_times
     flip_angles inversion_TR excitation_TR N_excitations efficiency correct_B1 B1_map
     save_data fs)"
  unfolding mp2rage_t1_mapping_defs wrapper_defs Let_def by (intro probe_blind_rules)

lemma levelset_fusion_compute_blind:
  "probe_blind (levelset_fusion_compute env levelset_images correct_topology topology_lut_dir
     save_data fs)"
  unfolding levelset_fusion_defs wrapper_defs Let_def by (intro probe_blind_rules)

section \<open>A cache miss\<close>

text \<open>
  When the cache test fails, it leaves only its probes (and, in \<open>levelset_fusion\<close>, the
  line naming the output file).
\<close>

lemma flash_t2s_fitting_cached_miss:
  assumes "overwrite \<or> \<not> list_all (\<lambda>p. files w p \<noteq> None) [a, b, c, d]"
  shows "\<exists>evs. flash_t2s_fitting_cached overwrite (a, b, c, d) w
      = (Inr None, w\<lparr>trace := trace w @ evs\<rparr>) \<and> unprobed evs = [] \<and> list_all miss_event evs
      \<and> (overwrite \<longrightarrow> evs = [])"
proof (cases overwrite)
  case True
  then show ?thesis by (simp add: flash_t2s_fitting_cached_def io_app)
next
  case False
  then have "files w a = None \<or> files w b = None \<or> files w c = None \<or> files w d = None"
    using assms by auto
  then consider "files w a = None"
    | "files w a \<noteq> None" "files w b = None"
    | "files w a \<noteq> None" "files w b \<noteq> None" "files w c = None"
    | "files w a \<noteq> None" "files w b \<noteq> None" "files w c \<noteq> None" "files w d = None"
    by auto
  then show ?thesis
  proof cases
    case 1
    show ?thesis
      by (rule exI[of _ "[IsFile a]"])
        (simp add: flash_t2s_fitting_cached_def io_app False 1 miss_event_def)
  next
    case 2
    show ?thesis
      by (rule exI[of _ "[IsFile a, IsFile b]"])
        (simp add: flash_t2s_fitting_cached_def io_app False 2 miss_event_def)
  next
    case 3
    show ?thesis
      by (rule exI[of _ "[IsFile a, IsFile b, IsFile c]"])
        (simp add: flash_t2s_fitting_cached_def io_app False 3 miss_event_def)
  next
    case 4
    show ?thesis
      by (rule exI[of _ "[IsFile a, IsFile b, IsFile c, IsFile d]"])
        (simp add: flash_t2s_fitting_cached_def io_app False 4 miss_event_def)
  qed
qed

lemma mp2rage_t1_mapping_cached_miss:
  assumes "overwrite \<or> \<not> list_all (\<lambda>p. files w p \<noteq> None) [a, b, c]"
  shows "\<exists>evs. mp2rage_t1_mapping_cached overwrite (a, b, c) w
      = (Inr None, w\<lparr>trace := trace w @ evs\<rparr>) \<and> unprobed evs = [] \<and> list_all miss_event evs
      \<and> (overwrite \<longrightarrow> evs = [])"
proof (cases overwrite)
  case True
  then show ?thesis by (simp add: mp2rage_t1_mapping_cached_def io_app)
next
  case False
  then have "files w a = None \<or> files w b = None \<or> files w c = None"
    using assms by auto
  then consider "files w a = None"
    | "files w a \<noteq> None" "files w b = None"
    | "files w a \<noteq> None" "files w b \<noteq> None" "files w c = None"
    by auto
  then show ?thesis
  proof cases
    case 1
    show ?thesis
      by (rule exI[of _ "[IsFile a]"])
        (simp add: mp2rage_t1_mapping_cached_def io_app False 1 miss_event_def)
  next
    case 2
    show ?thesis
      by (rule exI[of _ "[IsFile a, IsFile b]"])
        (simp add: mp2rage_t1_mapping_cached_def io_app False 2 miss_event_def)
  next
    case 3
    show ?thesis
      by (rule exI[of _ "[IsFile a, IsFile b, IsFile c]"])
        (simp add: mp2rage_t1_mapping_cached_def io_app False 3 miss_event_def)
  qed
qed

lemma levelset_fusion_cached_miss:
  assumes "overwrite \<or> \<not> list_all (\<lambda>p. files w p \<noteq> None) [a]"
  shows "\<exists>evs. levelset_fusion_cached overwrite a w
      = (Inr None, w\<lparr>trace := trace w @ evs\<rparr>)
      \<and> unprobed evs = [Print (''output file: '' @ a)] \<and> list_all miss_event evs
      \<and> (overwrite \<longrightarrow> evs = [Print (''output file: '' @ a)])"
proof (cases overwrite)
  case True
  then show ?thesis
    by (simp add: levelset_fusion_cached_def io_app miss_event_def)
next
  case False
  then have 1: "files w a = None" using assms by auto
  show ?thesis
    by (rule exI[of _ "[Print (''output file: '' @ a), IsFile a]"])
      (simp add: levelset_fusion_cached_def io_app False 1 miss_event_def)
qed

lemma unprobed_map_IsFile [simp]: "unprobed (map IsFile ps) = []"
  by (induction ps) simp_all

lemma lcpca_denoising_cached_miss:
  assumes "overwrite \<or> \<not> list_all (\<lambda>p. files w p \<noteq> None) (dens @ [dimf, errf])"
  shows "\<exists>evs. lcpca_denoising_cached overwrite (dens, dimf, errf) w
      = (Inr None, w\<lparr>trace := trace w @ evs\<rparr>) \<and> unprobed evs = [] \<and> list_all miss_event evs
      \<and> (overwrite \<longrightarrow> evs = [])"
proof (cases overwrite)
  case True
  then show ?thesis by (simp add: lcpca_denoising_cached_def io_app)
next
  case False
  then have "files w dimf = None \<or> files w errf = None
      \<or> \<not> list_all (\<lambda>p. files w p \<noteq> None) dens"
    using assms by auto
  then consider "files w dimf = None"
    | "files w dimf \<noteq> None" "files w errf = None"
    | "files w dimf \<noteq> None" "files w errf \<noteq> None" "\<not> list_all (\<lambda>p. files w p \<noteq> None) dens"
    by auto
  then show ?thesis
  proof cases
    case 1
    show ?thesis
      by (rule exI[of _ "[IsFile dimf]"])
        (simp add: lcpca_denoising_cached_def io_app False 1 miss_event_def)
  next
    case 2
    show ?thesis
      by (rule exI[of _ "[IsFile dimf, IsFile errf]"])
        (simp add: lcpca_denoising_cached_def io_app False 2 miss_event_def)
  next
    case 3
    show ?thesis
      by (rule exI[of _ "[IsFile dimf, IsFile errf] @ map IsFile dens"])
        (use 3 in \<open>auto simp: lcpca_denoising_cached_def io_app False lcpca_probe_loop miss_event_def
          list_all_iff\<close>)
  qed
qed

section \<open>The body of a saving call\<close>

text \<open>The body every function runs when \<open>save_data\<close> holds.\<close>

lemma saving_body_miss:
  assumes pure: "pure_io F" and F: "F w = (Inr fs, w1)"
    and C: "\<And>v. files v = files w \<Longrightarrow>
      \<exists>evs. C fs v = (Inr None, v\<lparr>trace := trace v @ evs\<rparr>) \<and> P evs"
    and v0: "files v0 = files w"
  shows "\<exists>e1 e2. bnd F (\<lambda>fs. bnd (C fs) (\<lambda>early.
        case early of Some output \<Rightarrow> ret (Some output) | None \<Rightarrow> K fs)) v0
      = K fs (v0\<lparr>trace := trace v0 @ e1 @ e2\<rparr>)
    \<and> w1 = w\<lparr>trace := trace w @ e1\<rparr> \<and> P e2"
proof -
  from pure_io_moves[OF pure F] obtain e1 where
    w1: "w1 = w\<lparr>trace := trace w @ e1\<rparr>" and
    mv: "\<And>v. F v = (Inr fs, v\<lparr>trace := trace v @ e1\<rparr>)"
    by blast
  have "files (v0\<lparr>trace := trace v0 @ e1\<rparr>) = files w" using v0 by simp
  from C[OF this] obtain e2 where
    c: "C fs (v0\<lparr>trace := trace v0 @ e1\<rparr>)
        = (Inr None, v0\<lparr>trace := trace v0 @ e1 @ e2\<rparr>)" and p: "P e2"
    by auto
  have "bnd F (\<lambda>fs. bnd (C fs) (\<lambda>early.
        case early of Some output \<Rightarrow> ret (Some output) | None \<Rightarrow> K fs)) v0
      = K fs (v0\<lparr>trace := trace v0 @ e1 @ e2\<rparr>)"
    by (simp add: bnd_app mv c)
  then show ?thesis using w1 p by blast
qed

lemma saving_body_hit:
  assumes pure: "pure_io F" and F: "F w = (Inr fs, w1)"
    and C: "\<And>v. files v = files w \<Longrightarrow>
      \<exists>out v'. C fs v = (Inr (Some out), v') \<and> Q v' out
        \<and> adds_only (\<lambda>e. \<not> is_native e) v v' \<and> same_files v v'"
    and v0: "files v0 = files w"
  shows "\<exists>e1 out v'. bnd F (\<lambda>fs. bnd (C fs) (\<lambda>early.
        case early of Some output \<Rightarrow> ret (Some output) | None \<Rightarrow> K fs)) v0
      = (Inr (Some out), v') \<and> Q v' out
    \<and> adds_only (\<lambda>e. \<not> is_native e) (v0\<lparr>trace := trace v0 @ e1\<rparr>) v' \<and> files v' = files w
    \<and> w1 = w\<lparr>trace := trace w @ e1\<rparr>"
proof -
  from pure_io_moves[OF pure F] obtain e1 where
    w1: "w1 = w\<lparr>trace := trace w @ e1\<rparr>" and
    mv: "\<And>v. F v = (Inr fs, v\<lparr>trace := trace v @ e1\<rparr>)"
    by blast
  have fv: "files (v0\<lparr>trace := trace v0 @ e1\<rparr>) = files w" using v0 by simp
  from C[OF this] obtain out v' where
    c: "C fs (v0\<lparr>trace := trace v0 @ e1\<rparr>) = (Inr (Some out), v')" and q: "Q v' out"
    and a: "adds_only (\<lambda>e. \<not> is_native e) (v0\<lparr>trace := trace v0 @ e1\<rparr>) v'"
    and s: "same_files (v0\<lparr>trace := trace v0 @ e1\<rparr>) v'"
    by auto
  have "bnd F (\<lambda>fs. bnd (C fs) (\<lambda>early.
        case early of Some output \<Rightarrow> ret (Some output) | None \<Rightarrow> K fs)) v0
      = (Inr (Some out), v')"
    by (simp add: bnd_app mv c ret_app)
  moreover have "files v' = files w" using s fv by (simp add: same_files_def)
  ultimately show ?thesis using w1 q a by blast
qed

text \<open>The events of the file-name blocks: the output directory, nothing else.\<close>

lemma flash_t2s_fitting_files_events:
  "frame (adds_only naming_event) (flash_t2s_fitting_files env image_list output_dir file_name)"
  unfolding flash_t2s_fitting_files_def wrapper_defs
  by (intro frame_rules preorder_adds_only; simp add: naming_event_def)

lemma lcpca_denoising_files_events:
  "frame (adds_only naming_event)
     (lcpca_denoising_files env image_list phase_list output_dir file_name)"
  unfolding lcpca_denoising_files_def wrapper_defs
  by (intro frame_rules preorder_adds_only; simp add: naming_event_def)

lemma mp2rage_t1_mapping_files_events:
  "frame (adds_only naming_event)
     (mp2rage_t1_mapping_files env first_inversion output_dir file_name)"
  unfolding mp2rage_t1_mapping_files_def wrapper_defs
  by (intro frame_rules preorder_adds_only; simp add: naming_event_def)

lemma levelset_fusion_files_events:
  "frame (adds_only naming_event)
     (levelset_fusion_files env levelset_images output_dir file_name)"
  unfolding levelset_fusion_files_def wrapper_defs
  by (intro frame_rules preorder_adds_only; simp add: naming_event_def)

lemma frame_events:
  assumes "frame (adds_only P) m" and "m w = (r, w\<lparr>trace := trace w @ evs\<rparr>)"
  shows "list_all P evs"
proof -
  have "adds_only P w (snd (m w))" using assms(1) by (simp add: frame_def)
  then show ?thesis using assms(2) by simp
qed

section \<open>Saving calls that compute\<close>

lemma frame_mono:
  "frame (adds_only P) m \<Longrightarrow> (\<And>e. P e \<Longrightarrow> Q e) \<Longrightarrow> frame (adds_only Q) m"
  unfolding frame_def by (blast intro: adds_only_mono)

lemma adds_only_trans:
  "adds_only P a b \<Longrightarrow> adds_only P b c \<Longrightarrow> adds_only P a c"
  using preorder_adds_only[of P] unfolding preorder_def by blast

lemma saving_body_partial:
  assumes pure: "pure_io F" and F: "F w = (Inr fs, w1)"
    and C: "\<And>ow v. files v = files w \<Longrightarrow>
      \<exists>evs. C ow fs v = (Inr None, v\<lparr>trace := trace v @ evs\<rparr>) \<and> unprobed evs = pre"
    and blind: "probe_blind (K fs)"
    and v0: "files v0 = files w"
  shows "fst (bnd F (\<lambda>fs. bnd (C False fs) (\<lambda>early.
        case early of Some output \<Rightarrow> ret (Some output) | None \<Rightarrow> K fs)) v0)
      = fst (bnd F (\<lambda>fs. bnd (C True fs) (\<lambda>early.
        case early of Some output \<Rightarrow> ret (Some output) | None \<Rightarrow> K fs)) v0)
    \<and> same_but_probes
        (snd (bnd F (\<lambda>fs. bnd (C False fs) (\<lambda>early.
          case early of Some output \<Rightarrow> ret (Some output) | None \<Rightarrow> K fs)) v0))
        (snd (bnd F (\<lambda>fs. bnd (C True fs) (\<lambda>early.
          case early of Some output \<Rightarrow> ret (Some output) | None \<Rightarrow> K fs)) v0))"
proof -
  from saving_body_miss[where C = "C False" and P = "\<lambda>evs. unprobed evs = pre" and K = K,
      OF pure F C v0] obtain e1 e2 where
    a: "bnd F (\<lambda>fs. bnd (C False fs) (\<lambda>early.
        case early of Some output \<Rightarrow> ret (Some output) | None \<Rightarrow> K fs)) v0
      = K fs (v0\<lparr>trace := trace v0 @ e1 @ e2\<rparr>)"
    and a1: "w1 = w\<lparr>trace := trace w @ e1\<rparr>" and a2: "unprobed e2 = pre"
    by blast
  from saving_body_miss[where C = "C True" and P = "\<lambda>evs. unprobed evs = pre" and K = K,
      OF pure F C v0] obtain e1' e2' where
    b: "bnd F (\<lambda>fs. bnd (C True fs) (\<lambda>early.
        case early of Some output \<Rightarrow> ret (Some output) | None \<Rightarrow> K fs)) v0
      = K fs (v0\<lparr>trace := trace v0 @ e1' @ e2'\<rparr>)"
    and b1: "w1 = w\<lparr>trace := trace w @ e1'\<rparr>" and b2: "unprobed e2' = pre"
    by blast
  have "trace w @ e1 = trace w @ e1'"
    using a1 b1 by (metis world.select_convs(4) world.surjective world.update_convs(4))
  then have e: "e1' = e1" by simp
  have "same_but_probes (v0\<lparr>trace := trace v0 @ e1 @ e2\<rparr>) (v0\<lparr>trace := trace v0 @ e1 @ e2'\<rparr>)"
    by (simp add: same_but_probes_def a2 b2)
  then show ?thesis
    using blind a b e unfolding probe_blind_def by simp
qed

lemma saving_body_enters:
  assumes pure: "pure_io F" and F: "F w = (Inr fs, w1)"
    and Fev: "frame (adds_only P) F"
    and C: "\<And>v. files v = files w \<Longrightarrow>
      \<exists>evs. C fs v = (Inr None, v\<lparr>trace := trace v @ evs\<rparr>) \<and> list_all P evs"
    and K: "frame (adds_only P) (K fs)" and New: "always_emits ev (K fs)"
    and v0: "files v0 = files w" "trace v0 = trace w @ e0" "list_all P e0"
  shows "adds_only P w (snd (bnd F (\<lambda>fs. bnd (C fs) (\<lambda>early.
        case early of Some output \<Rightarrow> ret (Some output) | None \<Rightarrow> K fs)) v0))
    \<and> ev \<in> set (new_events w (snd (bnd F (\<lambda>fs. bnd (C fs) (\<lambda>early.
        case early of Some output \<Rightarrow> ret (Some output) | None \<Rightarrow> K fs)) v0)))"
proof -
  from saving_body_miss[where C = C and P = "list_all P" and K = K, OF pure F C v0(1)]
  obtain e1 e2 where
    a: "bnd F (\<lambda>fs. bnd (C fs) (\<lambda>early.
        case early of Some output \<Rightarrow> ret (Some output) | None \<Rightarrow> K fs)) v0
      = K fs (v0\<lparr>trace := trace v0 @ e1 @ e2\<rparr>)"
    and a1: "w1 = w\<lparr>trace := trace w @ e1\<rparr>" and a2: "list_all P e2"
    by blast
  let ?v2 = "v0\<lparr>trace := trace v0 @ e1 @ e2\<rparr>"
  have e1: "list_all P e1" using frame_events[OF Fev] F a1 by simp
  have t2: "trace ?v2 = trace w @ (e0 @ e1 @ e2)" using v0(2) by simp
  have k: "adds_only P ?v2 (snd (K fs ?v2))" using K by (simp add: frame_def)
  have "new_events w (snd (K fs ?v2)) = (e0 @ e1 @ e2) @ new_events ?v2 (snd (K fs ?v2))"
    using t2 k by (rule new_events_append)
  moreover have "ev \<in> set (new_events ?v2 (snd (K fs ?v2)))"
    using New by (simp add: always_emits_def)
  moreover have "take (length (trace w)) (trace (snd (K fs ?v2))) = trace w"
  proof -
    obtain evs where "trace (snd (K fs ?v2)) = trace ?v2 @ evs"
      using k unfolding adds_only_def by (metis append_take_drop_id)
    then show ?thesis using t2 by simp
  qed
  moreover have "list_all P (new_events ?v2 (snd (K fs ?v2)))"
    using k by (simp add: adds_only_def)
  ultimately show ?thesis
    using a e1 a2 v0(3) by (simp add: adds_only_def)
qed


lemma miss_events_ok:
  assumes "list_all miss_event evs" and "overwrite \<longrightarrow> evs = pre"
    and "list_all (\<lambda>e. \<forall>p. e \<noteq> IsFile p) pre"
    and P1: "\<And>e. miss_event e \<Longrightarrow> (\<forall>p. e \<noteq> IsFile p) \<Longrightarrow> P e"
    and P3: "overwrite \<or> (\<forall>p. P (IsFile p))"
  shows "list_all P evs"
  unfolding list_all_iff
proof
  fix e assume e: "e \<in> set evs"
  then have m: "miss_event e" using assms(1) by (simp add: list_all_iff)
  show "P e"
  proof (cases "\<exists>p. e = IsFile p")
    case False
    then show ?thesis using P1 m by blast
  next
    case True
    then have "\<not> overwrite" using assms(2,3) e by (auto simp: list_all_iff)
    then show ?thesis using P3 True by blast
  qed
qed

lemma flash_t2s_fitting_compute_no_cache:
  "frame (adds_only (\<lambda>e. \<not> is_cache_use e))
     (flash_t2s_fitting_compute env image_list te_list save_data fs)"
  unfolding flash_t2s_fitting_defs wrapper_defs Let_def
  by (intro frame_rules preorder_adds_only; simp)

lemma flash_t2s_fitting_saving:
  "flash_t2s_fitting env image_list te_list True overwrite output_dir file_name w =
     bnd (flash_t2s_fitting_files env image_list output_dir file_name) (\<lambda>fs.
     bnd (flash_t2s_fitting_cached overwrite fs) (\<lambda>early.
       case early of Some output \<Rightarrow> ret (Some output)
       | None \<Rightarrow> flash_t2s_fitting_compute env image_list te_list True (Some fs)))
     (w\<lparr>trace := trace w @ [Print (CHR 0x0A # ''T2* Fitting'')]\<rparr>)"
  by (simp add: flash_t2s_fitting_def seq_app print_def emit_app)

lemma flash_t2s_fitting_partial:
  assumes F: "flash_t2s_fitting_files env image_list output_dir file_name w = (Inr (a, b, c, d), w1)"
    and miss: "\<not> list_all (\<lambda>p. files w p \<noteq> None) [a, b, c, d]"
  shows "fst (flash_t2s_fitting env image_list te_list True False output_dir file_name w)
      = fst (flash_t2s_fitting env image_list te_list True True output_dir file_name w)
    \<and> same_but_probes
        (snd (flash_t2s_fitting env image_list te_list True False output_dir file_name w))
        (snd (flash_t2s_fitting env image_list te_list True True output_dir file_name w))"
  unfolding flash_t2s_fitting_saving
proof (rule saving_body_partial[OF flash_t2s_fitting_files_pure F, where pre = "[]"])
  fix ow and v :: world assume "files v = files w"
  then have "ow \<or> \<not> list_all (\<lambda>p. files v p \<noteq> None) [a, b, c, d]" using miss by simp
  from flash_t2s_fitting_cached_miss[OF this]
  show "\<exists>evs. flash_t2s_fitting_cached ow (a, b, c, d) v
      = (Inr None, v\<lparr>trace := trace v @ evs\<rparr>) \<and> unprobed evs = []"
    by blast
next
  show "probe_blind (flash_t2s_fitting_compute env image_list te_list True (Some (a, b, c, d)))"
    by (rule flash_t2s_fitting_compute_blind)
next
  show "files (w\<lparr>trace := trace w @ [Print (CHR 0x0A # ''T2* Fitting'')]\<rparr>) = files w" by simp
qed

lemma flash_t2s_fitting_enters:
  assumes F: "flash_t2s_fitting_files env image_list output_dir file_name w = (Inr (a, b, c, d), w1)"
    and miss: "overwrite \<or> \<not> list_all (\<lambda>p. files w p \<noteq> None) [a, b, c, d]"
    and P: "\<And>e. miss_event e \<Longrightarrow> (\<forall>p. e \<noteq> IsFile p) \<Longrightarrow> P e"
      "\<And>e. \<not> is_cache_use e \<Longrightarrow> P e"
      "overwrite \<or> (\<forall>p. P (IsFile p))"
  shows "adds_only P w
      (snd (flash_t2s_fitting env image_list te_list True overwrite output_dir file_name w))
    \<and> New ''IntensityFlashT2sFitting'' \<in> set (new_events w
      (snd (flash_t2s_fitting env image_list te_list True overwrite output_dir file_name w)))"
  unfolding flash_t2s_fitting_saving
proof (rule saving_body_enters[OF flash_t2s_fitting_files_pure F])
  show "frame (adds_only P) (flash_t2s_fitting_files env image_list output_dir file_name)"
    by (rule frame_mono[OF flash_t2s_fitting_files_events]) (simp add: naming_event_def P(2))
next
  fix v :: world assume "files v = files w"
  then have "overwrite \<or> \<not> list_all (\<lambda>p. files v p \<noteq> None) [a, b, c, d]" using miss by simp
  from flash_t2s_fitting_cached_miss[OF this] obtain evs where
    c: "flash_t2s_fitting_cached overwrite (a, b, c, d) v = (Inr None, v\<lparr>trace := trace v @ evs\<rparr>)"
    and m: "list_all miss_event evs" and o: "overwrite \<longrightarrow> evs = []"
    by blast
  have "list_all P evs"
    by (rule miss_events_ok[OF m o _ P(1) P(3)]) simp_all
  then show "\<exists>evs. flash_t2s_fitting_cached overwrite (a, b, c, d) v
      = (Inr None, v\<lparr>trace := trace v @ evs\<rparr>) \<and> list_all P evs"
    using c by blast
next
  show "frame (adds_only P)
      (flash_t2s_fitting_compute env image_list te_list True (Some (a, b, c, d)))"
    by (rule frame_mono[OF flash_t2s_fitting_compute_no_cache]) (rule P(2))
next
  show "always_emits (New ''IntensityFlashT2sFitting'')
      (flash_t2s_fitting_compute env image_list te_list True (Some (a, b, c, d)))"
    by (rule flash_t2s_fitting_compute_New)
next
  show "files (w\<lparr>trace := trace w @ [Print (CHR 0x0A # ''T2* Fitting'')]\<rparr>) = files w" by simp
  show "trace (w\<lparr>trace := trace w @ [Print (CHR 0x0A # ''T2* Fitting'')]\<rparr>)
      = trace w @ [Print (CHR 0x0A # ''T2* Fitting'')]" by simp
  show "list_all P [Print (CHR 0x0A # ''T2* Fitting'')]" by (simp add: P(2))
qed

lemma lcpca_denoising_compute_no_cache:
  "frame (adds_only (\<lambda>e. \<not> is_cache_use e))
     (lcpca_denoising_compute env image_list phase_list ngb_size stdev_cutoff min_dimension
       max_dimension save_data fs)"
  unfolding lcpca_denoising_defs wrapper_defs Let_def
  by (intro frame_rules preorder_adds_only; simp)

lemma lcpca_denoising_saving:
  "lcpca_denoising env image_list phase_list ngb_size stdev_cutoff min_dimension
       max_dimension True overwrite output_dir file_name w =
     bnd (lcpca_denoising_files env image_list phase_list output_dir file_name) (\<lambda>fs.
     bnd (lcpca_denoising_cached overwrite fs) (\<lambda>early.
       case early of Some output \<Rightarrow> ret (Some output)
       | None \<Rightarrow> lcpca_denoising_compute env image_list phase_list ngb_size stdev_cutoff min_dimension
       max_dimension True (Some fs)))
     (w\<lparr>trace := trace w @ [Print (CHR 0x0A # ''LCPCA denoising'')]\<rparr>)"
  by (simp add: lcpca_denoising_def seq_app print_def emit_app)

lemma lcpca_denoising_partial:
  assumes F: "lcpca_denoising_files env image_list phase_list output_dir file_name w = (Inr (dens, dimf, errf), w1)"
    and miss: "\<not> list_all (\<lambda>p. files w p \<noteq> None) (dens @ [dimf, errf])"
  shows "fst (lcpca_denoising env image_list phase_list ngb_size stdev_cutoff min_dimension
       max_dimension True False output_dir file_name w)
      = fst (lcpca_denoising env image_list phase_list ngb_size stdev_cutoff min_dimension
       max_dimension True True output_dir file_name w)
    \<and> same_but_probes
        (snd (lcpca_denoising env image_list phase_list ngb_size stdev_cutoff min_dimension
       max_dimension True False output_dir file_name w))
        (snd (lcpca_denoising env image_list phase_list ngb_size stdev_cutoff min_dimension
       max_dimension True True output_dir file_name w))"
  unfolding lcpca_denoising_saving
proof (rule saving_body_partial[OF lcpca_denoising_files_pure F, where pre = "[]"])
  fix ow and v :: world assume "files v = files w"
  then have "ow \<or> \<not> list_all (\<lambda>p. files v p \<noteq> None) (dens @ [dimf, errf])" using miss by simp
  from lcpca_denoising_cached_miss[OF this]
  show "\<exists>evs. lcpca_denoising_cached ow (dens, dimf, errf) v
      = (Inr None, v\<lparr>trace := trace v @ evs\<rparr>) \<and> unprobed evs = []"
    by blast
next
  show "probe_blind (lcpca_denoising_compute env image_list phase_list ngb_size stdev_cutoff min_dimension
       max_dimension True (Some (dens, dimf, errf)))"
    by (rule lcpca_denoising_compute_blind)
next
  show "files (w\<lparr>trace := trace w @ [Print (CHR 0x0A # ''LCPCA denoising'')]\<rparr>) = files w" by simp
qed

lemma lcpca_denoising_enters:
  assumes F: "lcpca_denoising_files env image_list phase_list output_dir file_name w = (Inr (dens, dimf, errf), w1)"
    and miss: "overwrite \<or> \<not> list_all (\<lambda>p. files w p \<noteq> None) (dens @ [dimf, errf])"
    and P: "\<And>e. miss_event e \<Longrightarrow> (\<forall>p. e \<noteq> IsFile p) \<Longrightarrow> P e"
      "\<And>e. \<not> is_cache_use e \<Longrightarrow> P e"
      "overwrite \<or> (\<forall>p. P (IsFile p))"
  shows "adds_only P w
      (snd (lcpca_denoising env image_list phase_list ngb_size stdev_cutoff min_dimension
       max_dimension True overwrite output_dir file_name w))
    \<and> New ''IntensityComplexPCADenoising'' \<in> set (new_events w
      (snd (lcpca_denoising env image_list phase_list ngb_size stdev_cutoff min_dimension
       max_dimension True overwrite output_dir file_name w)))"
  unfolding lcpca_denoising_saving
proof (rule saving_body_enters[OF lcpca_denoising_files_pure F])
  show "frame (adds_only P) (lcpca_denoising_files env image_list phase_list output_dir file_name)"
    by (rule frame_mono[OF lcpca_denoising_files_events]) (simp add: naming_event_def P(2))
next
  fix v :: world assume "files v = files w"
  then have "overwrite \<or> \<not> list_all (\<lambda>p. files v p \<noteq> None) (dens @ [dimf, errf])" using miss by simp
  from lcpca_denoising_cached_miss[OF this] obtain evs where
    c: "lcpca_denoising_cached overwrite (dens, dimf, errf) v = (Inr None, v\<lparr>trace := trace v @ evs\<rparr>)"
    and m: "list_all miss_event evs" and o: "overwrite \<longrightarrow> evs = []"
    by blast
  have "list_all P evs"
    by (rule miss_events_ok[OF m o _ P(1) P(3)]) simp_all
  then show "\<exists>evs. lcpca_denoising_cached overwrite (dens, dimf, errf) v
      = (Inr None, v\<lparr>trace := trace v @ evs\<rparr>) \<and> list_all P evs"
    using c by blast
next
  show "frame (adds_only P)
      (lcpca_denoising_compute env image_list phase_list ngb_size stdev_cutoff min_dimension
       max_dimension True (Some (dens, dimf, errf)))"
    by (rule frame_mono[OF lcpca_denoising_compute_no_cache]) (rule P(2))
next
  show "always_emits (New ''IntensityComplexPCADenoising'')
      (lcpca_denoising_compute env image_list phase_list ngb_size stdev_cutoff min_dimension
       max_dimension True (Some (dens, dimf, errf)))"
    by (rule lcpca_denoising_compute_New)
next
  show "files (w\<lparr>trace := trace w @ [Print (CHR 0x0A # ''LCPCA denoising'')]\<rparr>) = files w" by simp
  show "trace (w\<lparr>trace := trace w @ [Print (CHR 0x0A # ''LCPCA denoising'')]\<rparr>)
      = trace w @ [Print (CHR 0x0A # ''LCPCA denoising'')]" by simp
  show "list_all P [Print (CHR 0x0A # ''LCPCA denoising'')]" by (simp add: P(2))
qed

lemma mp2rage_t1_mapping_compute_no_cache:
  "frame (adds_only (\<lambda>e. \<not> is_cache_use e))
     (mp2rage_t1_mapping_compute env first_inversion second_inversion inversion_times flip_angles
       inversion_TR excitation_TR N_excitations efficiency correct_B1 B1_map save_data fs)"
  unfolding mp2rage_t1_mapping_defs wrapper_defs Let_def
  by (intro frame_rules preorder_adds_only; simp)

lemma mp2rage_t1_mapping_saving:
  "mp2rage_t1_mapping env first_inversion second_inversion inversion_times flip_angles
       inversion_TR excitation_TR N_excitations efficiency correct_B1 B1_map True overwrite output_dir file_name w =
     bnd (mp2rage_t1_mapping_files env first_inversion output_dir file_name) (\<lambda>fs.
     bnd (mp2rage_t1_mapping_cached overwrite fs) (\<lambda>early.
       case early of Some output \<Rightarrow> ret (Some output)
       | None \<Rightarrow> mp2rage_t1_mapping_compute env first_inversion second_inversion inversion_times flip_angles
       inversion_TR excitation_TR N_excitations efficiency correct_B1 B1_map True (Some fs)))
     (w\<lparr>trace := trace w @ [Print (CHR 0x0A # ''T1 Mapping'')]\<rparr>)"
  by (simp add: mp2rage_t1_mapping_def seq_app print_def emit_app)

lemma mp2rage_t1_mapping_partial:
  assumes F: "mp2rage_t1_mapping_files env first_inversion output_dir file_name w = (Inr (a, b, c), w1)"
    and miss: "\<not> list_all (\<lambda>p. files w p \<noteq> None) [a, b, c]"
  shows "fst (mp2rage_t1_mapping env first_inversion second_inversion inversion_times flip_angles
       inversion_TR excitation_TR N_excitations efficiency correct_B1 B1_map True False output_dir file_name w)
      = fst (mp2rage_t1_mapping env first_inversion second_inversion inversion_times flip_angles
       inversion_TR excitation_TR N_excitations efficiency correct_B1 B1_map True True output_dir file_name w)
    \<and> same_but_probes
        (snd (mp2rage_t1_mapping env first_inversion second_inversion inversion_times flip_angles
       inversion_TR excitation_TR N_excitations efficiency correct_B1 B1_map True False output_dir file_name w))
        (snd (mp2rage_t1_mapping env first_inversion second_inversion inversion_times flip_angles
       inversion_TR excitation_TR N_excitations efficiency correct_B1 B1_map True True output_dir file_name w))"
  unfolding mp2rage_t1_mapping_saving
proof (rule saving_body_partial[OF mp2rage_t1_mapping_files_pure F, where pre = "[]"])
  fix ow and v :: world assume "files v = files w"
  then have "ow \<or> \<not> list_all (\<lambda>p. files v p \<noteq> None) [a, b, c]" using miss by simp
  from mp2rage_t1_mapping_cached_miss[OF this]
  show "\<exists>evs. mp2rage_t1_mapping_cached ow (a, b, c) v
      = (Inr None, v\<lparr>trace := trace v @ evs\<rparr>) \<and> unprobed evs = []"
    by blast
next
  show "probe_blind (mp2rage_t1_mapping_compute env first_inversion second_inversion inversion_times flip_angles
       inversion_TR excitation_TR N_excitations efficiency correct_B1 B1_map True (Some (a, b, c)))"
    by (rule mp2rage_t1_mapping_compute_blind)
next
  show "files (w\<lparr>trace := trace w @ [Print (CHR 0x0A # ''T1 Mapping'')]\<rparr>) = files w" by simp
qed

lemma mp2rage_t1_mapping_enters:
  assumes F: "mp2rage_t1_mapping_files env first_inversion output_dir file_name w = (Inr (a, b, c), w1)"
    and miss: "overwrite \<or> \<not> list_all (\<lambda>p. files w p \<noteq> None) [a, b, c]"
    and P: "\<And>e. miss_event e \<Longrightarrow> (\<forall>p. e \<noteq> IsFile p) \<Longrightarrow> P e"
      "\<And>e. \<not> is_cache_use e \<Longrightarrow> P e"
      "overwrite \<or> (\<forall>p. P (IsFile p))"
  shows "adds_only P w
      (snd (mp2rage_t1_mapping env first_inversion second_inversion inversion_times flip_angles
       inversion_TR excitation_TR N_excitations efficiency correct_B1 B1_map True overwrite output_dir file_name w))
    \<and> New ''IntensityMp2rageT1Fitting'' \<in> set (new_events w
      (snd (mp2rage_t1_mapping env first_inversion second_inversion inversion_times flip_angles
       inversion_TR excitation_TR N_excitations efficiency correct_B1 B1_map True overwrite output_dir file_name w)))"
  unfolding mp2rage_t1_mapping_saving
proof (rule saving_body_enters[OF mp2rage_t1_mapping_files_pure F])
  show "frame (adds_only P) (mp2rage_t1_mapping_files env first_inversion output_dir file_name)"
    by (rule frame_mono[OF mp2rage_t1_mapping_files_events]) (simp add: naming_event_def P(2))
next
  fix v :: world assume "files v = files w"
  then have "overwrite \<or> \<not> list_all (\<lambda>p. files v p \<noteq> None) [a, b, c]" using miss by simp
  from mp2rage_t1_mapping_cached_miss[OF this] obtain evs where
    c: "mp2rage_t1_mapping_cached overwrite (a, b, c) v = (Inr None, v\<lparr>trace := trace v @ evs\<rparr>)"
    and m: "list_all miss_event evs" and o: "overwrite \<longrightarrow> evs = []"
    by blast
  have "list_all P evs"
    by (rule miss_events_ok[OF m o _ P(1) P(3)]) simp_all
  then show "\<exists>evs. mp2rage_t1_mapping_cached overwrite (a, b, c) v
      = (Inr None, v\<lparr>trace := trace v @ evs\<rparr>) \<and> list_all P evs"
    using c by blast
next
  show "frame (adds_only P)
      (mp2rage_t1_mapping_compute env first_inversion second_inversion inversion_times flip_angles
       inversion_TR excitation_TR N_excitations efficiency correct_B1 B1_map True (Some (a, b, c)))"
    by (rule frame_mono[OF mp2rage_t1_mapping_compute_no_cache]) (rule P(2))
next
  show "always_emits (New ''IntensityMp2rageT1Fitting'')
      (mp2rage_t1_mapping_compute env first_inversion second_inversion inversion_times flip_angles
       inversion_TR excitation_TR N_excitations efficiency correct_B1 B1_map True (Some (a, b, c)))"
    by (rule mp2rage_t1_mapping_compute_New)
next
  show "files (w\<lparr>trace := trace w @ [Print (CHR 0x0A # ''T1 Mapping'')]\<rparr>) = files w" by simp
  show "trace (w\<lparr>trace := trace w @ [Print (CHR 0x0A # ''T1 Mapping'')]\<rparr>)
      = trace w @ [Print (CHR 0x0A # ''T1 Mapping'')]" by simp
  show "list_all P [Print (CHR 0x0A # ''T1 Mapping'')]" by (simp add: P(2))
qed

lemma levelset_fusion_compute_no_cache:
  "frame (adds_only (\<lambda>e. \<not> is_cache_use e))
     (levelset_fusion_compute env levelset_images correct_topology topology_lut_dir save_data fs)"
  unfolding levelset_fusion_defs wrapper_defs Let_def
  by (intro frame_rules preorder_adds_only; simp)

lemma levelset_fusion_saving:
  assumes "check_topology_lut_dir env topology_lut_dir = Inr dir"
  shows "levelset_fusion env levelset_images correct_topology topology_lut_dir True overwrite output_dir file_name w =
     bnd (levelset_fusion_files env levelset_images output_dir file_name) (\<lambda>fs.
     bnd (levelset_fusion_cached overwrite fs) (\<lambda>early.
       case early of Some output \<Rightarrow> ret (Some output)
       | None \<Rightarrow> levelset_fusion_compute env levelset_images correct_topology dir True (Some fs)))
     (w\<lparr>trace := trace w @ [Print (CHR 0x0A # ''Levelset Shape Fusion'')]\<rparr>)"
  using assms by (simp add: levelset_fusion_def seq_app print_def emit_app bnd_app lift_app)

lemma levelset_fusion_partial:
  assumes chk: "check_topology_lut_dir env topology_lut_dir = Inr dir"
    and F: "levelset_fusion_files env levelset_images output_dir file_name w = (Inr a, w1)"
    and miss: "\<not> list_all (\<lambda>p. files w p \<noteq> None) [a]"
  shows "fst (levelset_fusion env levelset_images correct_topology topology_lut_dir True False output_dir file_name w)
      = fst (levelset_fusion env levelset_images correct_topology topology_lut_dir True True output_dir file_name w)
    \<and> same_but_probes
        (snd (levelset_fusion env levelset_images correct_topology topology_lut_dir True False output_dir file_name w))
        (snd (levelset_fusion env levelset_images correct_topology topology_lut_dir True True output_dir file_name w))"
  unfolding levelset_fusion_saving[OF chk]
proof (rule saving_body_partial[OF levelset_fusion_files_pure F, where pre = "[Print (''output file: '' @ a)]"])
  fix ow and v :: world assume "files v = files w"
  then have "ow \<or> \<not> list_all (\<lambda>p. files v p \<noteq> None) [a]" using miss by simp
  from levelset_fusion_cached_miss[OF this]
  show "\<exists>evs. levelset_fusion_cached ow a v
      = (Inr None, v\<lparr>trace := trace v @ evs\<rparr>)
      \<and> unprobed evs = [Print (''output file: '' @ a)]"
    by blast
next
  show "probe_blind (levelset_fusion_compute env levelset_images correct_topology dir True (Some a))"
    by (rule levelset_fusion_compute_blind)
next
  show "files (w\<lparr>trace := trace w @ [Print (CHR 0x0A # ''Levelset Shape Fusion'')]\<rparr>) = files w" by simp
qed

lemma levelset_fusion_enters:
  assumes chk: "check_topology_lut_dir env topology_lut_dir = Inr dir"
    and F: "levelset_fusion_files env levelset_images output_dir file_name w = (Inr a, w1)"
    and miss: "overwrite \<or> \<not> list_all (\<lambda>p. files w p \<noteq> None) [a]"
    and P: "\<And>e. miss_event e \<Longrightarrow> (\<forall>p. e \<noteq> IsFile p) \<Longrightarrow> P e"
      "\<And>e. \<not> is_cache_use e \<Longrightarrow> P e"
      "overwrite \<or> (\<forall>p. P (IsFile p))"
  shows "adds_only P w
      (snd (levelset_fusion env levelset_images correct_topology topology_lut_dir True overwrite output_dir file_name w))
    \<and> New ''ShapeLevelsetFusion'' \<in> set (new_events w
      (snd (levelset_fusion env levelset_images correct_topology topology_lut_dir True overwrite output_dir file_name w)))"
  unfolding levelset_fusion_saving[OF chk]
proof (rule saving_body_enters[OF levelset_fusion_files_pure F])
  show "frame (adds_only P) (levelset_fusion_files env levelset_images output_dir file_name)"
    by (rule frame_mono[OF levelset_fusion_files_events]) (simp add: naming_event_def P(2))
next
  fix v :: world assume "files v = files w"
  then have "overwrite \<or> \<not> list_all (\<lambda>p. files v p \<noteq> None) [a]" using miss by simp
  from levelset_fusion_cached_miss[OF this] obtain evs where
    c: "levelset_fusion_cached overwrite a v = (Inr None, v\<lparr>trace := trace v @ evs\<rparr>)"
    and m: "list_all miss_event evs" and o: "overwrite \<longrightarrow> evs = [Print (''output file: '' @ a)]"
    by blast
  have "list_all P evs"
    by (rule miss_events_ok[OF m o _ P(1) P(3)]) simp_all
  then show "\<exists>evs. levelset_fusion_cached overwrite a v
      = (Inr None, v\<lparr>trace := trace v @ evs\<rparr>) \<and> list_all P evs"
    using c by blast
next
  show "frame (adds_only P)
      (levelset_fusion_compute env levelset_images correct_topology dir True (Some a))"
    by (rule frame_mono[OF levelset_fusion_compute_no_cache]) (rule P(2))
next
  show "always_emits (New ''ShapeLevelsetFusion'')
      (levelset_fusion_compute env levelset_images correct_topology dir True (Some a))"
    by (rule levelset_fusion_compute_New)
next
  show "files (w\<lparr>trace := trace w @ [Print (CHR 0x0A # ''Levelset Shape Fusion'')]\<rparr>) = files w" by simp
  show "trace (w\<lparr>trace := trace w @ [Print (CHR 0x0A # ''Levelset Shape Fusion'')]\<rparr>)
      = trace w @ [Print (CHR 0x0A # ''Levelset Shape Fusion'')]" by simp
  show "list_all P [Print (CHR 0x0A # ''Levelset Shape Fusion'')]" by (simp add: P(2))
qed

section \<open>Saving calls served from the cache\<close>

lemma flash_t2s_fitting_hit:
  assumes F: "flash_t2s_fitting_files env image_list output_dir file_name w = (Inr (a, b, c, d), w1)"
    and all: "list_all (\<lambda>p. files w p \<noteq> None) [a, b, c, d]"
  shows "\<exists>out w'. flash_t2s_fitting env image_list te_list True False output_dir file_name w
      = (Inr (Some out), w')
    \<and> map (\<lambda>i. Some (volume_of w' i)) (images_of out) = map (files w) [a, b, c, d]
    \<and> adds_only (\<lambda>e. \<not> is_native e) w w' \<and> same_files w w'"
proof -
  let ?v0 = "w\<lparr>trace := trace w @ [Print (CHR 0x0A # ''T2* Fitting'')]\<rparr>"
  have C: "\<exists>out v'. flash_t2s_fitting_cached False (a, b, c, d) v = (Inr (Some out), v')
      \<and> map (\<lambda>i. Some (volume_of v' i)) (images_of out) = map (files w) [a, b, c, d]
      \<and> adds_only (\<lambda>e. \<not> is_native e) v v' \<and> same_files v v'"
    if "files v = files w" for v :: world
    using flash_t2s_fitting_cached_hit[of v] all that by simp
  have v0: "files ?v0 = files w" by simp
  from saving_body_hit[where C = "flash_t2s_fitting_cached False"
      and Q = "\<lambda>v' out. map (\<lambda>i. Some (volume_of v' i)) (images_of out) = map (files w) [a, b, c, d]"
      and K = "\<lambda>fs. flash_t2s_fitting_compute env image_list te_list True (Some fs)",
      OF flash_t2s_fitting_files_pure F C v0]
  obtain e1 out v' where
    run: "bnd (flash_t2s_fitting_files env image_list output_dir file_name) (\<lambda>fs. bnd (flash_t2s_fitting_cached False fs) (\<lambda>early.
        case early of Some output \<Rightarrow> ret (Some output)
        | None \<Rightarrow> flash_t2s_fitting_compute env image_list te_list True (Some fs))) ?v0
      = (Inr (Some out), v')"
    and q: "map (\<lambda>i. Some (volume_of v' i)) (images_of out) = map (files w) [a, b, c, d]"
    and a: "adds_only (\<lambda>e. \<not> is_native e) (?v0\<lparr>trace := trace ?v0 @ e1\<rparr>) v'"
    and f: "files v' = files w" and w1: "w1 = w\<lparr>trace := trace w @ e1\<rparr>"
    by blast
  have "list_all naming_event e1"
    using frame_events[OF flash_t2s_fitting_files_events] F w1 by simp
  then have "list_all (\<lambda>e. \<not> is_native e) e1" by (simp add: list_all_iff naming_event_def)
  then have "adds_only (\<lambda>e. \<not> is_native e) w (?v0\<lparr>trace := trace ?v0 @ e1\<rparr>)" by simp
  then have "adds_only (\<lambda>e. \<not> is_native e) w v'" using a by (rule adds_only_trans)
  then show ?thesis
    using run q f by (simp add: flash_t2s_fitting_saving same_files_def)
qed

lemma lcpca_denoising_hit:
  assumes F: "lcpca_denoising_files env image_list phase_list output_dir file_name w = (Inr (dens, dimf, errf), w1)"
    and all: "list_all (\<lambda>p. files w p \<noteq> None) (dens @ [dimf, errf])"
  shows "\<exists>out w'. lcpca_denoising env image_list phase_list ngb_size stdev_cutoff min_dimension
       max_dimension True False output_dir file_name w
      = (Inr (Some out), w')
    \<and> map (\<lambda>i. Some (volume_of w' i)) (images_of out) = map (files w) (dens @ [dimf, errf])
    \<and> adds_only (\<lambda>e. \<not> is_native e) w w' \<and> same_files w w'"
proof -
  let ?v0 = "w\<lparr>trace := trace w @ [Print (CHR 0x0A # ''LCPCA denoising'')]\<rparr>"
  have C: "\<exists>out v'. lcpca_denoising_cached False (dens, dimf, errf) v = (Inr (Some out), v')
      \<and> map (\<lambda>i. Some (volume_of v' i)) (images_of out) = map (files w) (dens @ [dimf, errf])
      \<and> adds_only (\<lambda>e. \<not> is_native e) v v' \<and> same_files v v'"
    if "files v = files w" for v :: world
    using lcpca_denoising_cached_hit[of v] all that by simp
  have v0: "files ?v0 = files w" by simp
  from saving_body_hit[where C = "lcpca_denoising_cached False"
      and Q = "\<lambda>v' out. map (\<lambda>i. Some (volume_of v' i)) (images_of out) = map (files w) (dens @ [dimf, errf])"
      and K = "\<lambda>fs. lcpca_denoising_compute env image_list phase_list ngb_size stdev_cutoff min_dimension
       max_dimension True (Some fs)",
      OF lcpca_denoising_files_pure F C v0]
  obtain e1 out v' where
    run: "bnd (lcpca_denoising_files env image_list phase_list output_dir file_name) (\<lambda>fs. bnd (lcpca_denoising_cached False fs) (\<lambda>early.
        case early of Some output \<Rightarrow> ret (Some output)
        | None \<Rightarrow> lcpca_denoising_compute env image_list phase_list ngb_size stdev_cutoff min_dimension
       max_dimension True (Some fs))) ?v0
      = (Inr (Some out), v')"
    and q: "map (\<lambda>i. Some (volume_of v' i)) (images_of out) = map (files w) (dens @ [dimf, errf])"
    and a: "adds_only (\<lambda>e. \<not> is_native e) (?v0\<lparr>trace := trace ?v0 @ e1\<rparr>) v'"
    and f: "files v' = files w" and w1: "w1 = w\<lparr>trace := trace w @ e1\<rparr>"
    by blast
  have "list_all naming_event e1"
    using frame_events[OF lcpca_denoising_files_events] F w1 by simp
  then have "list_all (\<lambda>e. \<not> is_native e) e1" by (simp add: list_all_iff naming_event_def)
  then have "adds_only (\<lambda>e. \<not> is_native e) w (?v0\<lparr>trace := trace ?v0 @ e1\<rparr>)" by simp
  then have "adds_only (\<lambda>e. \<not> is_native e) w v'" using a by (rule adds_only_trans)
  then show ?thesis
    using run q f by (simp add: lcpca_denoising_saving same_files_def)
qed

lemma mp2rage_t1_mapping_hit:
  assumes F: "mp2rage_t1_mapping_files env first_inversion output_dir file_name w = (Inr (a, b, c), w1)"
    and all: "list_all (\<lambda>p. files w p \<noteq> None) [a, b, c]"
  shows "\<exists>out w'. mp2rage_t1_mapping env first_inversion second_inversion inversion_times flip_angles
       inversion_TR excitation_TR N_excitations efficiency correct_B1 B1_map True False output_dir file_name w
      = (Inr (Some out), w')
    \<and> map (\<lambda>i. Some (volume_of w' i)) (images_of out) = map (files w) [a, b, c]
    \<and> adds_only (\<lambda>e. \<not> is_native e) w w' \<and> same_files w w'"
proof -
  let ?v0 = "w\<lparr>trace := trace w @ [Print (CHR 0x0A # ''T1 Mapping'')]\<rparr>"
  have C: "\<exists>out v'. mp2rage_t1_mapping_cached False (a, b, c) v = (Inr (Some out), v')
      \<and> map (\<lambda>i. Some (volume_of v' i)) (images_of out) = map (files w) [a, b, c]
      \<and> adds_only (\<lambda>e. \<not> is_native e) v v' \<and> same_files v v'"
    if "files v = files w" for v :: world
    using mp2rage_t1_mapping_cached_hit[of v] all that by simp
  have v0: "files ?v0 = files w" by simp
  from saving_body_hit[where C = "mp2rage_t1_mapping_cached False"
      and Q = "\<lambda>v' out. map (\<lambda>i. Some (volume_of v' i)) (images_of out) = map (files w) [a, b, c]"
      and K = "\<lambda>fs. mp2rage_t1_mapping_compute env first_inversion second_inversion inversion_times flip_angles
       inversion_TR excitation_TR N_excitations efficiency correct_B1 B1_map True (Some fs)",
      OF mp2rage_t1_mapping_files_pure F C v0]
  obtain e1 out v' where
    run: "bnd (mp2rage_t1_mapping_files env first_inversion output_dir file_name) (\<lambda>fs. bnd (mp2rage_t1_mapping_cached False fs) (\<lambda>early.
        case early of Some output \<Rightarrow> ret (Some output)
        | None \<Rightarrow> mp2rage_t1_mapping_compute env first_inversion second_inversion inversion_times flip_angles
       inversion_TR excitation_TR N_excitations efficiency correct_B1 B1_map True (Some fs))) ?v0
      = (Inr (Some out), v')"
    and q: "map (\<lambda>i. Some (volume_of v' i)) (images_of out) = map (files w) [a, b, c]"
    and a: "adds_only (\<lambda>e. \<not> is_native e) (?v0\<lparr>trace := trace ?v0 @ e1\<rparr>) v'"
    and f: "files v' = files w" and w1: "w1 = w\<lparr>trace := trace w @ e1\<rparr>"
    by blast
  have "list_all naming_event e1"
    using frame_events[OF mp2rage_t1_mapping_files_events] F w1 by simp
  then have "list_all (\<lambda>e. \<not> is_native e) e1" by (simp add: list_all_iff naming_event_def)
  then have "adds_only (\<lambda>e. \<not> is_native e) w (?v0\<lparr>trace := trace ?v0 @ e1\<rparr>)" by simp
  then have "adds_only (\<lambda>e. \<not> is_native e) w v'" using a by (rule adds_only_trans)
  then show ?thesis
    using run q f by (simp add: mp2rage_t1_mapping_saving same_files_def)
qed

lemma levelset_fusion_hit:
  assumes chk: "check_topology_lut_dir env topology_lut_dir = Inr dir"
    and F: "levelset_fusion_files env levelset_images output_dir file_name w = (Inr a, w1)"
    and all: "list_all (\<lambda>p. files w p \<noteq> None) [a]"
  shows "\<exists>out w'. levelset_fusion env levelset_images correct_topology topology_lut_dir True False output_dir file_name w
      = (Inr (Some out), w')
    \<and> map (\<lambda>i. Some (volume_of w' i)) (images_of out) = map (files w) [a]
    \<and> adds_only (\<lambda>e. \<not> is_native e) w w' \<and> same_files w w'"
proof -
  let ?v0 = "w\<lparr>trace := trace w @ [Print (CHR 0x0A # ''Levelset Shape Fusion'')]\<rparr>"
  have C: "\<exists>out v'. levelset_fusion_cached False a v = (Inr (Some out), v')
      \<and> map (\<lambda>i. Some (volume_of v' i)) (images_of out) = map (files w) [a]
      \<and> adds_only (\<lambda>e. \<not> is_native e) v v' \<and> same_files v v'"
    if "files v = files w" for v :: world
    using levelset_fusion_cached_hit[of v] all that by simp
  have v0: "files ?v0 = files w" by simp
  from saving_body_hit[where C = "levelset_fusion_cached False"
      and Q = "\<lambda>v' out. map (\<lambda>i. Some (volume_of v' i)) (images_of out) = map (files w) [a]"
      and K = "\<lambda>fs. levelset_fusion_compute env levelset_images correct_topology dir True (Some fs)",
      OF levelset_fusion_files_pure F C v0]
  obtain e1 out v' where
    run: "bnd (levelset_fusion_files env levelset_images output_dir file_name) (\<lambda>fs. bnd (levelset_fusion_cached False fs) (\<lambda>early.
        case early of Some output \<Rightarrow> ret (Some output)
        | None \<Rightarrow> levelset_fusion_compute env levelset_images correct_topology dir True (Some fs))) ?v0
      = (Inr (Some out), v')"
    and q: "map (\<lambda>i. Some (volume_of v' i)) (images_of out) = map (files w) [a]"
    and a: "adds_only (\<lambda>e. \<not> is_native e) (?v0\<lparr>trace := trace ?v0 @ e1\<rparr>) v'"
    and f: "files v' = files w" and w1: "w1 = w\<lparr>trace := trace w @ e1\<rparr>"
    by blast
  have "list_all naming_event e1"
    using frame_events[OF levelset_fusion_files_events] F w1 by simp
  then have "list_all (\<lambda>e. \<not> is_native e) e1" by (simp add: list_all_iff naming_event_def)
  then have "adds_only (\<lambda>e. \<not> is_native e) w (?v0\<lparr>trace := trace ?v0 @ e1\<rparr>)" by simp
  then have "adds_only (\<lambda>e. \<not> is_native e) w v'" using a by (rule adds_only_trans)
  then show ?thesis
    using run q f by (simp add: levelset_fusion_saving[OF chk] same_files_def)
qed

section \<open>The four functions together\<close>

text \<open>What \<open>output_files\<close> says about each function's own block.\<close>

lemma output_files_flash:
  assumes "output_files env (FlashT2sFitting il te sd ow od fn) w = (Inr ps, w1)"
  obtains a b c d where "flash_t2s_fitting_files env il od fn w = (Inr (a, b, c, d), w1)"
    and "ps = [a, b, c, d]"
  using assms by (auto simp: bnd_app ret_app split: prod.splits sum.splits)

lemma output_files_lcpca:
  assumes "output_files env (LcpcaDenoising il pl n sc mn mx sd ow od fn) w = (Inr ps, w1)"
  obtains dens dimf errf where
    "lcpca_denoising_files env il pl od fn w = (Inr (dens, dimf, errf), w1)"
    and "ps = dens @ [dimf, errf]"
  using assms by (auto simp: bnd_app ret_app split: prod.splits sum.splits)

lemma output_files_mp2rage:
  assumes "output_files env (Mp2rageT1Mapping fi si it fa tr etr ne eff cb b1 sd ow od fn) w
      = (Inr ps, w1)"
  obtains a b c where "mp2rage_t1_mapping_files env fi od fn w = (Inr (a, b, c), w1)"
    and "ps = [a, b, c]"
  using assms by (auto simp: bnd_app ret_app split: prod.splits sum.splits)

lemma output_files_levelset:
  assumes "output_files env (LevelsetFusion ls ct tld sd ow od fn) w = (Inr ps, w1)"
  obtains a dir where "check_topology_lut_dir env tld = Inr dir"
    and "levelset_fusion_files env ls od fn w = (Inr a, w1)" and "ps = [a]"
  using assms by (auto simp: bnd_app ret_app lift_app split: prod.splits sum.splits)

lemma run_hit:
  assumes "save_data_of c" and "\<not> overwrite_of c"
    and "output_files env c w = (Inr ps, w1)"
    and "list_all (\<lambda>p. files w p \<noteq> None) ps"
  shows "\<exists>out w'. run env c w = (Inr (Some out), w')
    \<and> map (\<lambda>i. Some (volume_of w' i)) (images_of out) = map (files w) ps
    \<and> adds_only (\<lambda>e. \<not> is_native e) w w' \<and> same_files w w'"
proof (cases c)
  case (FlashT2sFitting il te sd ow od fn)
  from assms(3) obtain a b c d where
    F: "flash_t2s_fitting_files env il od fn w = (Inr (a, b, c, d), w1)" and ps: "ps = [a, b, c, d]"
    unfolding FlashT2sFitting by (rule output_files_flash)
  show ?thesis
    using flash_t2s_fitting_hit[OF F, of te] assms(1,2,4) FlashT2sFitting ps by simp
next
  case (LcpcaDenoising il pl n sc mn mx sd ow od fn)
  from assms(3) obtain dens dimf errf where
    F: "lcpca_denoising_files env il pl od fn w = (Inr (dens, dimf, errf), w1)"
    and ps: "ps = dens @ [dimf, errf]"
    unfolding LcpcaDenoising by (rule output_files_lcpca)
  show ?thesis
    using lcpca_denoising_hit[OF F, of n sc mn mx] assms(1,2,4) LcpcaDenoising ps
    by simp
next
  case (Mp2rageT1Mapping fi si it fa tr etr ne eff cb b1 sd ow od fn)
  from assms(3) obtain a b c where
    F: "mp2rage_t1_mapping_files env fi od fn w = (Inr (a, b, c), w1)" and ps: "ps = [a, b, c]"
    unfolding Mp2rageT1Mapping by (rule output_files_mp2rage)
  show ?thesis
    using mp2rage_t1_mapping_hit[OF F, of si it fa tr etr ne eff cb b1]
      assms(1,2,4) Mp2rageT1Mapping ps
    by simp
next
  case (LevelsetFusion ls ct tld sd ow od fn)
  from assms(3) obtain a dir where chk: "check_topology_lut_dir env tld = Inr dir"
    and F: "levelset_fusion_files env ls od fn w = (Inr a, w1)" and ps: "ps = [a]"
    unfolding LevelsetFusion by (rule output_files_levelset)
  show ?thesis
    using levelset_fusion_hit[OF chk F, of ct] assms(1,2,4) LevelsetFusion ps by simp
qed

lemma run_enters:
  assumes "save_data_of c" and "output_files env c w = (Inr ps, w1)"
    and miss: "overwrite_of c \<or> \<not> list_all (\<lambda>p. files w p \<noteq> None) ps"
    and P: "\<And>e. miss_event e \<Longrightarrow> (\<forall>p. e \<noteq> IsFile p) \<Longrightarrow> P e"
      "\<And>e. \<not> is_cache_use e \<Longrightarrow> P e"
      "overwrite_of c \<or> (\<forall>p. P (IsFile p))"
  shows "adds_only P w (snd (run env c w))
    \<and> New (native_class c) \<in> set (new_events w (snd (run env c w)))"
proof (cases c)
  case (FlashT2sFitting il te sd ow od fn)
  from assms(2) obtain a b c d where
    F: "flash_t2s_fitting_files env il od fn w = (Inr (a, b, c, d), w1)" and ps: "ps = [a, b, c, d]"
    unfolding FlashT2sFitting by (rule output_files_flash)
  have m: "ow \<or> \<not> list_all (\<lambda>p. files w p \<noteq> None) [a, b, c, d]"
    using miss FlashT2sFitting ps by simp
  have o: "ow \<or> (\<forall>p. P (IsFile p))" using P(3) FlashT2sFitting by simp
  show ?thesis
    using flash_t2s_fitting_enters[OF F m P(1,2) o, of te] assms(1) FlashT2sFitting
    by simp
next
  case (LcpcaDenoising il pl n sc mn mx sd ow od fn)
  from assms(2) obtain dens dimf errf where
    F: "lcpca_denoising_files env il pl od fn w = (Inr (dens, dimf, errf), w1)"
    and ps: "ps = dens @ [dimf, errf]"
    unfolding LcpcaDenoising by (rule output_files_lcpca)
  have m: "ow \<or> \<not> list_all (\<lambda>p. files w p \<noteq> None) (dens @ [dimf, errf])"
    using miss LcpcaDenoising ps by simp
  have o: "ow \<or> (\<forall>p. P (IsFile p))" using P(3) LcpcaDenoising by simp
  show ?thesis
    using lcpca_denoising_enters[OF F m P(1,2) o, of n sc mn mx] assms(1)
      LcpcaDenoising
    by simp
next
  case (Mp2rageT1Mapping fi si it fa tr etr ne eff cb b1 sd ow od fn)
  from assms(2) obtain a b c where
    F: "mp2rage_t1_mapping_files env fi od fn w = (Inr (a, b, c), w1)" and ps: "ps = [a, b, c]"
    unfolding Mp2rageT1Mapping by (rule output_files_mp2rage)
  have m: "ow \<or> \<not> list_all (\<lambda>p. files w p \<noteq> None) [a, b, c]"
    using miss Mp2rageT1Mapping ps by simp
  have o: "ow \<or> (\<forall>p. P (IsFile p))" using P(3) Mp2rageT1Mapping by simp
  show ?thesis
    using mp2rage_t1_mapping_enters[OF F m P(1,2) o, of si it fa tr etr ne eff cb b1]
      assms(1) Mp2rageT1Mapping
    by simp
next
  case (LevelsetFusion ls ct tld sd ow od fn)
  from assms(2) obtain a dir where chk: "check_topology_lut_dir env tld = Inr dir"
    and F: "levelset_fusion_files env ls od fn w = (Inr a, w1)" and ps: "ps = [a]"
    unfolding LevelsetFusion by (rule output_files_levelset)
  have m: "ow \<or> \<not> list_all (\<lambda>p. files w p \<noteq> None) [a]"
    using miss LevelsetFusion ps by simp
  have o: "ow \<or> (\<forall>p. P (IsFile p))" using P(3) LevelsetFusion by simp
  show ?thesis
    using levelset_fusion_enters[OF chk F m P(1,2) o, of ct] assms(1) LevelsetFusion
    by simp
qed

lemma run_partial:
  assumes "save_data_of c" and "\<not> overwrite_of c"
    and "output_files env c w = (Inr ps, w1)"
    and miss: "\<not> list_all (\<lambda>p. files w p \<noteq> None) ps"
  shows "fst (run env c w) = fst (run env (with_overwrite True c) w)
    \<and> same_but_probes (snd (run env c w)) (snd (run env (with_overwrite True c) w))"
proof (cases c)
  case (FlashT2sFitting il te sd ow od fn)
  from assms(3) obtain a b c d where
    F: "flash_t2s_fitting_files env il od fn w = (Inr (a, b, c, d), w1)" and ps: "ps = [a, b, c, d]"
    unfolding FlashT2sFitting by (rule output_files_flash)
  have m: "\<not> list_all (\<lambda>p. files w p \<noteq> None) [a, b, c, d]" using miss ps by simp
  show ?thesis
    using flash_t2s_fitting_partial[OF F m, of te] assms(1,2) FlashT2sFitting by simp
next
  case (LcpcaDenoising il pl n sc mn mx sd ow od fn)
  from assms(3) obtain dens dimf errf where
    F: "lcpca_denoising_files env il pl od fn w = (Inr (dens, dimf, errf), w1)"
    and ps: "ps = dens @ [dimf, errf]"
    unfolding LcpcaDenoising by (rule output_files_lcpca)
  have m: "\<not> list_all (\<lambda>p. files w p \<noteq> None) (dens @ [dimf, errf])" using miss ps by simp
  show ?thesis
    using lcpca_denoising_partial[OF F m, of n sc mn mx] assms(1,2) LcpcaDenoising
    by simp
next
  case (Mp2rageT1Mapping fi si it fa tr etr ne eff cb b1 sd ow od fn)
  from assms(3) obtain a b c where
    F: "mp2rage_t1_mapping_files env fi od fn w = (Inr (a, b, c), w1)" and ps: "ps = [a, b, c]"
    unfolding Mp2rageT1Mapping by (rule output_files_mp2rage)
  have m: "\<not> list_all (\<lambda>p. files w p \<noteq> None) [a, b, c]" using miss ps by simp
  show ?thesis
    using mp2rage_t1_mapping_partial[OF F m, of si it fa tr etr ne eff cb b1]
      assms(1,2) Mp2rageT1Mapping
    by simp
next
  case (LevelsetFusion ls ct tld sd ow od fn)
  from assms(3) obtain a dir where chk: "check_topology_lut_dir env tld = Inr dir"
    and F: "levelset_fusion_files env ls od fn w = (Inr a, w1)" and ps: "ps = [a]"
    unfolding LevelsetFusion by (rule output_files_levelset)
  have m: "\<not> list_all (\<lambda>p. files w p \<noteq> None) [a]" using miss ps by simp
  show ?thesis
    using levelset_fusion_partial[OF chk F m, of ct] assms(1,2) LevelsetFusion by simp
qed


lemma demo_output_files:
  "output_files demo_env (demo_call True b) w =
     (Inr [''/out/img_qt2fit-t2s'', ''/out/img_qt2fit-r2s'', ''/out/img_qt2fit-s0'',
           ''/out/img_qt2fit-err''], w\<lparr>trace := trace w @ [OutputDir ''/out/'']\<rparr>)"
  by (simp add: demo_call_def demo_env_def demo_image_def flash_t2s_fitting_files_def io_defs)


section \<open>A phase list of the wrong length\<close>

lemma lcpca_denoising_compute_mismatch:
  assumes "length phase_list \<noteq> length image_list"
  shows "lcpca_denoising_compute env image_list (Some phase_list) ngb_size stdev_cutoff
      min_dimension max_dimension save_data fs w
    = (Inr None, w\<lparr>vm_running := True,
         trace := trace w @ [InitVM ''12000m'' ''12000m'', New ''IntensityComplexPCADenoising'',
           Call ''setImageNumber'' [JInt (int (length image_list))], Print mismatch_message]\<rparr>)"
  using assms by (simp add: lcpca_denoising_compute_def io_app mismatch_message_def)


section \<open>A failing native execution\<close>

text \<open>
  When \<open>execute()\<close> throws, a module that imports \<open>sys\<close> prints the message and the
  exception class and re-raises the exception it caught.
\<close>

lemma execute_handler_reraises:
  assumes "''sys'' \<in> set imports" and "native_execute env (filter is_native (trace w)) = Inl e"
  shows "try_except (jexecute env) (execute_handler imports) w =
    (Inl e, w\<lparr>trace := trace w @ [Execute,
       Print (CHR 0x0A # '' The underlying Java code did not execute cleanly: ''),
       PrintExc e]\<rparr>)"
  using assms by (simp add: io_defs)

text \<open>
  A module that does not import \<open>sys\<close> fails inside the handler, at \<open>sys.exc_info()\<close>:
  the caller gets a NameError in place of the native exception.
\<close>

lemma execute_handler_without_sys:
  assumes "''sys'' \<notin> set imports" and "native_execute env (filter is_native (trace w)) = Inl e"
  shows "try_except (jexecute env) (execute_handler imports) w =
    (Inl (NameError ''sys''), w\<lparr>trace := trace w @ [Execute,
       Print (CHR 0x0A # '' The underlying Java code did not execute cleanly: '')]\<rparr>)"
  using assms by (simp add: io_defs)

text \<open>
  Claim C2, at \<open>levelset_fusion\<close>. The claim: when the native \<open>execute()\<close> raises, the
  message is logged and the original native exception reaches the caller. The module of
  \<open>levelset_fusion\<close> does not import \<open>sys\<close>, so on one image object, with a native library
  that throws \<open>java.lang.RuntimeException\<close>, the call prints the message and then raises
  \<open>NameError: name 'sys' is not defined\<close>; the native exception does not reach the caller.
\<close>

theorem levelset_fusion_replaces_native_exception:
  "fst (levelset_fusion failing_env [Obj demo_image] True None False False None None demo_world)
     = Inl (NameError ''sys'')
   \<and> native_execute failing_env [] = Inl (JavaError ''java.lang.RuntimeException'')
   \<and> last (trace (snd (levelset_fusion failing_env [Obj demo_image] True None False False None
        None demo_world)))
     = Print (CHR 0x0A # '' The underlying Java code did not execute cleanly: '')"
  by (simp add: levelset_fusion_def levelset_fusion_compute_def levelset_fusion_configure_def
      levelset_fusion_imports_def io_defs demo_defs)

section \<open>Claim C9\<close>

text \<open>
  Claim C9: for every call with \<open>save_data=False\<close> the on-disk cache is never consulted.
  Whatever the world (so also when every expected output file exists), the call probes no
  file and never prints the skip message; the \<open>overwrite\<close> flag changes nothing; and the
  computation is entered: the native object is created (for \<open>levelset_fusion\<close>, once its
  \<open>topology_lut_dir\<close> argument has been accepted).
\<close>

theorem cache_not_consulted_without_save_data:
  assumes "\<not> save_data_of c"
  shows "adds_only (\<lambda>e. \<not> is_cache_use e) w (snd (run env c w))
    \<and> run env (with_overwrite b c) w = run env c w
    \<and> (topology_dir_accepted env c
        \<longrightarrow> New (native_class c) \<in> set (new_events w (snd (run env c w))))"
proof (intro conjI impI)
  have "adds_only quiet w (snd (run env c w))"
    using run_quiet[OF assms] by (simp add: frame_def)
  then show "adds_only (\<lambda>e. \<not> is_cache_use e) w (snd (run env c w))"
    by (rule adds_only_mono) (simp add: quiet_def)
  show "run env (with_overwrite b c) w = run env c w"
    using run_ignores_overwrite[OF assms] by simp
  show "New (native_class c) \<in> set (new_events w (snd (run env c w)))"
    if "topology_dir_accepted env c"
    using assms that by (rule run_New_without_save_data)
qed

text \<open>
  The witness: \<open>flash_t2s_fitting\<close> without \<open>save_data\<close> in a world where all four files
  that a saving call would expect exist.
\<close>

theorem cache_not_consulted_without_save_data_witness:
  "\<not> save_data_of (demo_call False False)
   \<and> (\<exists>ps w1. output_files demo_env (demo_call True False) cached_world = (Inr ps, w1)
        \<and> list_all (\<lambda>p. files cached_world p \<noteq> None) ps)
   \<and> adds_only (\<lambda>e. \<not> is_cache_use e) cached_world
        (snd (run demo_env (demo_call False False) cached_world))
   \<and> run demo_env (with_overwrite True (demo_call False False)) cached_world
       = run demo_env (demo_call False False) cached_world
   \<and> New (native_class (demo_call False False))
       \<in> set (new_events cached_world (snd (run demo_env (demo_call False False) cached_world)))"
proof -
  have a: "\<not> save_data_of (demo_call False False)" by (simp add: demo_call_def)
  have b: "topology_dir_accepted demo_env (demo_call False False)" by (simp add: demo_call_def)
  have c: "\<exists>ps w1. output_files demo_env (demo_call True False) cached_world = (Inr ps, w1)
        \<and> list_all (\<lambda>p. files cached_world p \<noteq> None) ps"
    by (simp add: demo_defs flash_t2s_fitting_files_def io_defs)
  show ?thesis
    using cache_not_consulted_without_save_data[OF a, of cached_world demo_env True] a b c
    by simp
qed

section \<open>Claim C1\<close>

text \<open>
  Claim C1: for every call with \<open>save_data=True\<close>: if \<open>overwrite\<close> is False and every
  expected output file exists, the function skips the computation and returns the saved
  results loaded from disk, and no native object is created or invoked; if \<open>overwrite\<close> is
  True it recomputes even when all outputs exist. Here: on a hit the call returns a
  dictionary whose images are the volumes stored under the expected files, in order, adds
  no native event to the trace and leaves the files as they are; with \<open>overwrite\<close> the call
  consults no cache (it probes no file and prints no skip message) and creates its native
  object, whatever files exist.
\<close>

theorem cache_hit_skips_overwrite_recomputes:
  assumes "save_data_of c" and "output_files env c w = (Inr ps, w1)"
  shows "(\<not> overwrite_of c \<and> list_all (\<lambda>p. files w p \<noteq> None) ps \<longrightarrow>
      (\<exists>out w'. run env c w = (Inr (Some out), w')
        \<and> map (\<lambda>i. Some (volume_of w' i)) (images_of out) = map (files w) ps
        \<and> adds_only (\<lambda>e. \<not> is_native e) w w' \<and> same_files w w'))
    \<and> (overwrite_of c \<longrightarrow>
        adds_only (\<lambda>e. \<not> is_cache_use e) w (snd (run env c w))
        \<and> New (native_class c) \<in> set (new_events w (snd (run env c w))))"
proof (intro conjI impI)
  assume "\<not> overwrite_of c \<and> list_all (\<lambda>p. files w p \<noteq> None) ps"
  then show "\<exists>out w'. run env c w = (Inr (Some out), w')
      \<and> map (\<lambda>i. Some (volume_of w' i)) (images_of out) = map (files w) ps
      \<and> adds_only (\<lambda>e. \<not> is_native e) w w' \<and> same_files w w'"
    using run_hit[OF assms(1) _ assms(2)] by blast
next
  assume ow: "overwrite_of c"
  have "adds_only (\<lambda>e. \<not> is_cache_use e) w (snd (run env c w))
      \<and> New (native_class c) \<in> set (new_events w (snd (run env c w)))"
  proof (rule run_enters[OF assms])
    show "overwrite_of c \<or> \<not> list_all (\<lambda>p. files w p \<noteq> None) ps" using ow by simp
    show "\<not> is_cache_use e" if "miss_event e" "\<forall>p. e \<noteq> IsFile p" for e
      using that by (cases e) (auto simp: miss_event_def)
    show "overwrite_of c \<or> (\<forall>p. \<not> is_cache_use (IsFile p))" using ow by simp
  qed
  then show "adds_only (\<lambda>e. \<not> is_cache_use e) w (snd (run env c w))"
    and "New (native_class c) \<in> set (new_events w (snd (run env c w)))"
    by blast+
qed


text \<open>
  The witness: \<open>flash_t2s_fitting\<close> with \<open>save_data\<close> in a world where its four output files
  exist, once without and once with \<open>overwrite\<close>.
\<close>

theorem cache_hit_skips_overwrite_recomputes_witness:
  "save_data_of (demo_call True False) \<and> \<not> overwrite_of (demo_call True False)
   \<and> list_all (\<lambda>p. files cached_world p \<noteq> None)
       [''/out/img_qt2fit-t2s'', ''/out/img_qt2fit-r2s'', ''/out/img_qt2fit-s0'',
        ''/out/img_qt2fit-err'']
   \<and> (\<exists>out w'. run demo_env (demo_call True False) cached_world = (Inr (Some out), w')
        \<and> map (\<lambda>i. Some (volume_of w' i)) (images_of out)
            = map (files cached_world)
                [''/out/img_qt2fit-t2s'', ''/out/img_qt2fit-r2s'', ''/out/img_qt2fit-s0'',
                 ''/out/img_qt2fit-err'']
        \<and> adds_only (\<lambda>e. \<not> is_native e) cached_world w' \<and> same_files cached_world w')
   \<and> save_data_of (demo_call True True) \<and> overwrite_of (demo_call True True)
   \<and> adds_only (\<lambda>e. \<not> is_cache_use e) cached_world
        (snd (run demo_env (demo_call True True) cached_world))
   \<and> New (native_class (demo_call True True))
        \<in> set (new_events cached_world (snd (run demo_env (demo_call True True) cached_world)))"
proof -
  have s: "save_data_of (demo_call True b)" for b by (simp add: demo_call_def)
  have o: "overwrite_of (demo_call True b) = b" for b by (simp add: demo_call_def)
  have f: "list_all (\<lambda>p. files cached_world p \<noteq> None)
       [''/out/img_qt2fit-t2s'', ''/out/img_qt2fit-r2s'', ''/out/img_qt2fit-s0'',
        ''/out/img_qt2fit-err'']"
    by (simp add: cached_world_def)
  show ?thesis
    using cache_hit_skips_overwrite_recomputes[OF s demo_output_files, of False cached_world]
      cache_hit_skips_overwrite_recomputes[OF s demo_output_files, of True cached_world]
      s o f
    by simp
qed


section \<open>Claim C4\<close>

text \<open>
  Claim C4: for every call with \<open>save_data=True\<close> and \<open>overwrite=False\<close> where some but not
  all expected output files exist, the computation is redone in full; the files that
  remain are not reused. Here: as soon as one expected file is missing, the call does
  what the same call with \<open>overwrite=True\<close> does: it ends the same way with the same
  result, and leaves the same files, the same headers and the same trace but for the
  probes of the cache test. It never prints the skip message, and it creates its native
  object.
\<close>

theorem partial_cache_recomputes_everything:
  assumes "save_data_of c" and "\<not> overwrite_of c"
    and "output_files env c w = (Inr ps, w1)"
    and "\<not> list_all (\<lambda>p. files w p \<noteq> None) ps"
  shows "fst (run env c w) = fst (run env (with_overwrite True c) w)
    \<and> same_but_probes (snd (run env c w)) (snd (run env (with_overwrite True c) w))
    \<and> adds_only (\<lambda>e. e \<noteq> Print ''skip computation (use existing results)'') w
        (snd (run env c w))
    \<and> New (native_class c) \<in> set (new_events w (snd (run env c w)))"
proof -
  have "adds_only (\<lambda>e. e \<noteq> Print ''skip computation (use existing results)'') w
        (snd (run env c w))
      \<and> New (native_class c) \<in> set (new_events w (snd (run env c w)))"
  proof (rule run_enters[OF assms(1,3)])
    show "overwrite_of c \<or> \<not> list_all (\<lambda>p. files w p \<noteq> None) ps" using assms(4) by simp
    show "e \<noteq> Print ''skip computation (use existing results)''"
      if "miss_event e" "\<forall>p. e \<noteq> IsFile p" for e
      using that by (simp add: miss_event_def)
    show "e \<noteq> Print ''skip computation (use existing results)''" if "\<not> is_cache_use e" for e
      using that by auto
    show "overwrite_of c \<or> (\<forall>p. IsFile p \<noteq> Print ''skip computation (use existing results)'')"
      by simp
  qed
  then show ?thesis using run_partial[OF assms] by simp
qed

text \<open>
  The witness: \<open>flash_t2s_fitting\<close> with \<open>save_data\<close> and without \<open>overwrite\<close> in a world
  where three of its four output files exist.
\<close>

theorem partial_cache_recomputes_everything_witness:
  "save_data_of (demo_call True False) \<and> \<not> overwrite_of (demo_call True False)
   \<and> files partial_world ''/out/img_qt2fit-t2s'' \<noteq> None
   \<and> files partial_world ''/out/img_qt2fit-s0'' = None
   \<and> fst (run demo_env (demo_call True False) partial_world)
       = fst (run demo_env (with_overwrite True (demo_call True False)) partial_world)
   \<and> same_but_probes (snd (run demo_env (demo_call True False) partial_world))
       (snd (run demo_env (with_overwrite True (demo_call True False)) partial_world))
   \<and> adds_only (\<lambda>e. e \<noteq> Print ''skip computation (use existing results)'') partial_world
       (snd (run demo_env (demo_call True False) partial_world))
   \<and> New (native_class (demo_call True False))
       \<in> set (new_events partial_world (snd (run demo_env (demo_call True False) partial_world)))"
proof -
  have s: "save_data_of (demo_call True False)" by (simp add: demo_call_def)
  have o: "\<not> overwrite_of (demo_call True False)" by (simp add: demo_call_def)
  have f: "\<not> list_all (\<lambda>p. files partial_world p \<noteq> None)
       [''/out/img_qt2fit-t2s'', ''/out/img_qt2fit-r2s'', ''/out/img_qt2fit-s0'',
        ''/out/img_qt2fit-err'']"
    by (simp add: partial_world_def cached_world_def)
  have g: "files partial_world ''/out/img_qt2fit-t2s'' \<noteq> None
      \<and> files partial_world ''/out/img_qt2fit-s0'' = None"
    by (simp add: partial_world_def cached_world_def)
  show ?thesis
    using partial_cache_recomputes_everything[OF s o demo_output_files f] s o g by simp
qed

section \<open>Claim C3\<close>

text \<open>
  Claim C3 as stated fails. On one magnitude image and two phase images, without
  \<open>save_data\<close>, the virtual machine is started, the native object is created and
  \<open>setImageNumber\<close> is called before the mismatch is reported. With \<open>save_data\<close>, without
  \<open>overwrite\<close> and with every output file present, the mismatch is not detected at all:
  the call returns the cached dictionary.
\<close>

theorem lcpca_mismatch_counterexample:
  "native_before (Print mismatch_message)
     (trace (snd (run demo_env (mismatch_call False False) demo_world)))
   \<and> fst (run demo_env (mismatch_call True False) lcpca_cached_world) \<noteq> Inr None
   \<and> Print mismatch_message
       \<notin> set (trace (snd (run demo_env (mismatch_call True False) lcpca_cached_world)))"
  by (simp add: lcpca_denoising_defs io_defs demo_defs)

text \<open>
  Claim C3, amended: for every call to \<open>lcpca_denoising\<close> that is not served from the cache
  (no \<open>save_data\<close>, or \<open>overwrite\<close>, or an expected output file missing), where \<open>phase_list\<close>
  is given and its length differs from that of \<open>image_list\<close>, the function returns None
  after starting the virtual machine, creating the native object and calling
  \<open>setImageNumber\<close>, and then printing the mismatch message: these are its last four
  events and its only calls into the native library. No image is pushed, \<open>execute()\<close> is
  not called, and files and headers are untouched.
\<close>

theorem lcpca_mismatch_aborts_after_setup:
  assumes "length phase_list \<noteq> length image_list"
    and "save_data \<longrightarrow> (\<exists>ps w1.
      output_files env (LcpcaDenoising image_list (Some phase_list) ngb_size stdev_cutoff
        min_dimension max_dimension save_data overwrite output_dir file_name) w = (Inr ps, w1)
      \<and> (overwrite \<or> \<not> list_all (\<lambda>p. files w p \<noteq> None) ps))"
  shows "\<exists>pre. lcpca_denoising env image_list (Some phase_list) ngb_size stdev_cutoff
      min_dimension max_dimension save_data overwrite output_dir file_name w
    = (Inr None, w\<lparr>vm_running := True,
         trace := trace w @ pre @ [InitVM ''12000m'' ''12000m'',
           New ''IntensityComplexPCADenoising'',
           Call ''setImageNumber'' [JInt (int (length image_list))], Print mismatch_message]\<rparr>)
    \<and> list_all (\<lambda>e. \<not> is_native e) pre"
proof (cases save_data)
  case False
  have "lcpca_denoising env image_list (Some phase_list) ngb_size stdev_cutoff
      min_dimension max_dimension save_data overwrite output_dir file_name w
    = (Inr None, w\<lparr>vm_running := True,
         trace := trace w @ [Print (CHR 0x0A # ''LCPCA denoising'')] @ [InitVM ''12000m'' ''12000m'',
           New ''IntensityComplexPCADenoising'',
           Call ''setImageNumber'' [JInt (int (length image_list))], Print mismatch_message]\<rparr>)"
    using False
    by (simp add: lcpca_denoising_def seq_app print_def emit_app
        lcpca_denoising_compute_mismatch[OF assms(1)])
  then show ?thesis by (intro exI[of _ "[Print (CHR 0x0A # ''LCPCA denoising'')]"]) simp
next
  case True
  then obtain ps w1 where
    of: "output_files env (LcpcaDenoising image_list (Some phase_list) ngb_size stdev_cutoff
        min_dimension max_dimension save_data overwrite output_dir file_name) w = (Inr ps, w1)"
    and miss: "overwrite \<or> \<not> list_all (\<lambda>p. files w p \<noteq> None) ps"
    using assms(2) by blast
  from of obtain dens dimf errf where
    F: "lcpca_denoising_files env image_list (Some phase_list) output_dir file_name w
        = (Inr (dens, dimf, errf), w1)"
    and ps: "ps = dens @ [dimf, errf]"
    by (rule output_files_lcpca)
  let ?v0 = "w\<lparr>trace := trace w @ [Print (CHR 0x0A # ''LCPCA denoising'')]\<rparr>"
  have C: "\<exists>evs. lcpca_denoising_cached overwrite (dens, dimf, errf) v
      = (Inr None, v\<lparr>trace := trace v @ evs\<rparr>) \<and> list_all miss_event evs"
    if "files v = files w" for v :: world
  proof -
    have "overwrite \<or> \<not> list_all (\<lambda>p. files v p \<noteq> None) (dens @ [dimf, errf])"
      using miss ps that by simp
    from lcpca_denoising_cached_miss[OF this] show ?thesis by blast
  qed
  have v0: "files ?v0 = files w" by simp
  from saving_body_miss[where C = "lcpca_denoising_cached overwrite" and P = "list_all miss_event"
      and K = "\<lambda>fs. lcpca_denoising_compute env image_list (Some phase_list) ngb_size
        stdev_cutoff min_dimension max_dimension True (Some fs)",
      OF lcpca_denoising_files_pure F C v0]
  obtain e1 e2 where
    run: "bnd (lcpca_denoising_files env image_list (Some phase_list) output_dir file_name)
        (\<lambda>fs. bnd (lcpca_denoising_cached overwrite fs) (\<lambda>early.
          case early of Some output \<Rightarrow> ret (Some output)
          | None \<Rightarrow> lcpca_denoising_compute env image_list (Some phase_list) ngb_size
              stdev_cutoff min_dimension max_dimension True (Some fs))) ?v0
      = lcpca_denoising_compute env image_list (Some phase_list) ngb_size stdev_cutoff
          min_dimension max_dimension True (Some (dens, dimf, errf))
          (?v0\<lparr>trace := trace ?v0 @ e1 @ e2\<rparr>)"
    and w1: "w1 = w\<lparr>trace := trace w @ e1\<rparr>" and e2: "list_all miss_event e2"
    by blast
  have "list_all naming_event e1"
    using frame_events[OF lcpca_denoising_files_events] F w1 by simp
  then have n1: "list_all (\<lambda>e. \<not> is_native e) e1"
    by (simp add: list_all_iff naming_event_def)
  have n2: "list_all (\<lambda>e. \<not> is_native e) e2"
    using e2 by (simp add: list_all_iff miss_event_def)
  have "lcpca_denoising env image_list (Some phase_list) ngb_size stdev_cutoff
      min_dimension max_dimension save_data overwrite output_dir file_name w
    = (Inr None, w\<lparr>vm_running := True,
         trace := trace w @ (Print (CHR 0x0A # ''LCPCA denoising'') # e1 @ e2)
           @ [InitVM ''12000m'' ''12000m'', New ''IntensityComplexPCADenoising'',
           Call ''setImageNumber'' [JInt (int (length image_list))], Print mismatch_message]\<rparr>)"
    using True run
    by (simp add: lcpca_denoising_saving lcpca_denoising_compute_mismatch[OF assms(1)])
  then show ?thesis
    using n1 n2 by (intro exI[of _ "Print (CHR 0x0A # ''LCPCA denoising'') # e1 @ e2"]) simp
qed

lemma mismatch_output_files:
  "output_files demo_env (mismatch_call True b) w =
     (Inr [''/out/img_lcpca-den'', ''/out/img_lcpca-den'', ''/out/img_lcpca-den'',
           ''/out/img_lcpca-dim'', ''/out/img_lcpca-res''],
      w\<lparr>trace := trace w @ [OutputDir ''/out/'']\<rparr>)"
  by (simp add: mismatch_call_def demo_env_def demo_image_def lcpca_denoising_files_def io_defs)

text \<open>
  The witness: the same call with \<open>save_data\<close> and \<open>overwrite\<close>, in the world where its
  output files exist.
\<close>

theorem lcpca_mismatch_aborts_after_setup_witness:
  "length [Obj demo_image, Obj demo_image] \<noteq> length [Obj demo_image]
   \<and> (\<exists>pre. run demo_env (mismatch_call True True) lcpca_cached_world
        = (Inr None, lcpca_cached_world\<lparr>vm_running := True,
             trace := trace lcpca_cached_world @ pre @ [InitVM ''12000m'' ''12000m'',
               New ''IntensityComplexPCADenoising'', Call ''setImageNumber'' [JInt 1],
               Print mismatch_message]\<rparr>)
        \<and> list_all (\<lambda>e. \<not> is_native e) pre)"
proof -
  have l: "length [Obj demo_image, Obj demo_image] \<noteq> length [Obj demo_image]" by simp
  have h: "True \<longrightarrow> (\<exists>ps w1.
      output_files demo_env (LcpcaDenoising [Obj demo_image] (Some [Obj demo_image, Obj demo_image])
        4 (Num (21 / 20)) 0 (- 1) True True None None) lcpca_cached_world = (Inr ps, w1)
      \<and> (True \<or> \<not> list_all (\<lambda>p. files lcpca_cached_world p \<noteq> None) ps))"
    using mismatch_output_files[of True lcpca_cached_world] by (simp add: mismatch_call_def)
  show ?thesis
    using lcpca_mismatch_aborts_after_setup[OF l h] l by (simp add: mismatch_call_def)
qed

end
